theory Spec2Isabelle
  imports Complex_Main "HOL-Library.List_Lexorder" "HOL-Library.Monad_Syntax"
begin

section \<open>JavaScript values\<close>

text \<open>
  A JavaScript string is a sequence of UTF-16 code units; the code units are kept as
  natural numbers. \<open>str\<close> turns an ASCII literal into such a string.
  JavaScript numbers are double-precision floating-point numbers. They are modelled as
  exact numbers: time values and day counts are integers, container counts and averages
  are rationals. The two agree as long as the numbers are whole numbers of a magnitude
  up to \<open>2 ^ 53 = 9007199254740992\<close>, which doubles add and subtract without rounding;
  beyond that bound, and in sums of fractions, the code rounds where the model does
  not. The property of the day differences carries the bound as a hypothesis, and the
  sums of day counts and of container counts in the other properties are those of the
  model. \<open>NaN\<close> only occurs as the time value of an invalid date, which is \<open>None\<close>
  here.

  A statement that throws is the result \<open>None\<close> of the function that models it, and
  \<open>forEach\<close> is a loop over an array whose body may throw: the first exception ends
  the loop, and the whole computation with it.
\<close>

type_synonym jsstring = "nat list"

definition str :: "string \<Rightarrow> jsstring" where
  "str s = map of_char s"

fun forEach :: "('st \<Rightarrow> 'a \<Rightarrow> 'st option) \<Rightarrow> 'st \<Rightarrow> 'a list \<Rightarrow> 'st option" where
  "forEach f st [] = Some st"
| "forEach f st (x # xs) = (case f st x of None \<Rightarrow> None | Some st' \<Rightarrow> forEach f st' xs)"

text \<open>An optional string property is truthy when it is present and not empty.\<close>

fun truthy :: "jsstring option \<Rightarrow> bool" where
  "truthy None = False"
| "truthy (Some s) = (s \<noteq> [])"

fun startsWith :: "'a list \<Rightarrow> 'a list \<Rightarrow> bool" where
  "startsWith xs [] = True"
| "startsWith [] (p # ps) = False"
| "startsWith (x # xs) (p # ps) = (x = p \<and> startsWith xs ps)"

text \<open>\<open>String.prototype.includes\<close>: the pattern occurs as a contiguous run.\<close>

fun str_includes :: "'a list \<Rightarrow> 'a list \<Rightarrow> bool" where
  "str_includes [] pat = (pat = [])"
| "str_includes (x # xs) pat = (startsWith (x # xs) pat \<or> str_includes xs pat)"

section \<open>The host: dates and Unicode\<close>

text \<open>
  \<open>new Date(s)\<close>, \<open>getFullYear\<close>, \<open>getMonth\<close>, \<open>toLowerCase\<close> and
  \<open>normalize("NFD")\<close> belong to the JavaScript engine, not to the repository: which
  strings parse, the local time zone and the Unicode tables are the engine's. They are
  parameters of every definition that uses them. \<open>Date_parse h s\<close> is the time value
  (milliseconds since the epoch) of \<open>new Date(s)\<close>, and \<open>None\<close> when the date is
  invalid (\<open>isNaN(date.getTime())\<close>).
\<close>

record js_host =
  Date_parse :: "jsstring \<Rightarrow> int option"
  Date_getFullYear :: "int \<Rightarrow> int"
  Date_getMonth :: "int \<Rightarrow> int"
  toLowerCase :: "jsstring \<Rightarrow> jsstring"
  normalizeNFD :: "jsstring \<Rightarrow> jsstring"

subsection \<open>A sample host: UTC, ISO dates, Latin-1\<close>

text \<open>
  One concrete host, used to run the definitions on concrete inputs. Its clock is UTC,
  it parses the date-only form \<open>YYYY-MM-DD\<close> of the ECMAScript date-time format (read
  as UTC midnight) and nothing else, it lower-cases the letters of Basic Latin and
  Latin-1, and it decomposes the accented lower-case letters of Latin-1.
\<close>

definition isLeapYear :: "int \<Rightarrow> bool" where
  "isLeapYear y = (y mod 4 = 0 \<and> (y mod 100 \<noteq> 0 \<or> y mod 400 = 0))"

definition daysInMonth :: "int \<Rightarrow> int \<Rightarrow> int" where
  "daysInMonth y m =
     (if m = 2 then (if isLeapYear y then 29 else 28)
      else if m = 4 \<or> m = 6 \<or> m = 9 \<or> m = 11 then 30 else 31)"

text \<open>Days since 1970-01-01 of a calendar date (month 1 to 12), and back.\<close>

definition daysFromCivil :: "int \<Rightarrow> int \<Rightarrow> int \<Rightarrow> int" where
  "daysFromCivil year m d =
     (let y = (if m \<le> 2 then year - 1 else year);
          era = y div 400;
          yoe = y - era * 400;
          doy = (153 * (if m > 2 then m - 3 else m + 9) + 2) div 5 + d - 1;
          doe = yoe * 365 + yoe div 4 - yoe div 100 + doy
      in era * 146097 + doe - 719468)"

definition civilFromDays :: "int \<Rightarrow> int \<times> int \<times> int" where
  "civilFromDays z0 =
     (let z = z0 + 719468;
          era = z div 146097;
          doe = z - era * 146097;
          yoe = (doe - doe div 1460 + doe div 36524 - doe div 146096) div 365;
          doy = doe - (365 * yoe + yoe div 4 - yoe div 100);
          mp = (5 * doy + 2) div 153;
          d = doy - (153 * mp + 2) div 5 + 1;
          m = (if mp < 10 then mp + 3 else mp - 9);
          y = yoe + era * 400
      in ((if m \<le> 2 then y + 1 else y), m, d))"

definition msPerDay :: int where
  "msPerDay = 1000 * 60 * 60 * 24"

definition digitVal :: "nat \<Rightarrow> int option" where
  "digitVal c = (if 48 \<le> c \<and> c \<le> 57 then Some (int c - 48) else None)"

fun digitsAcc :: "int \<Rightarrow> nat list \<Rightarrow> int option" where
  "digitsAcc acc [] = Some acc"
| "digitsAcc acc (c # cs) =
     (case digitVal c of None \<Rightarrow> None | Some d \<Rightarrow> digitsAcc (10 * acc + d) cs)"

definition digitsVal :: "nat list \<Rightarrow> int option" where
  "digitsVal cs = (if cs = [] then None else digitsAcc 0 cs)"

definition isoDateParse :: "jsstring \<Rightarrow> int option" where
  "isoDateParse s =
     (if length s = 10 \<and> s ! 4 = 45 \<and> s ! 7 = 45 then
        (case (digitsVal (take 4 s), digitsVal (take 2 (drop 5 s)), digitsVal (drop 8 s)) of
           (Some y, Some m, Some d) \<Rightarrow>
             if 1 \<le> m \<and> m \<le> 12 \<and> 1 \<le> d \<and> d \<le> daysInMonth y m
             then Some (daysFromCivil y m d * msPerDay) else None
         | _ \<Rightarrow> None)
      else None)"

definition utcFullYear :: "int \<Rightarrow> int" where
  "utcFullYear t = fst (civilFromDays (t div msPerDay))"

definition utcMonth :: "int \<Rightarrow> int" where
  "utcMonth t = fst (snd (civilFromDays (t div msPerDay))) - 1"

definition latin1Lower :: "nat \<Rightarrow> nat" where
  "latin1Lower c =
     (if (65 \<le> c \<and> c \<le> 90) \<or> (192 \<le> c \<and> c \<le> 222 \<and> c \<noteq> 215) then c + 32 else c)"

definition latin1Decompose :: "nat \<Rightarrow> nat list" where
  "latin1Decompose c =
     (if c = 224 then [97, 768] else if c = 225 then [97, 769] else if c = 226 then [97, 770]
      else if c = 227 then [97, 771] else if c = 228 then [97, 776] else if c = 229 then [97, 778]
      else if c = 231 then [99, 807]
      else if c = 232 then [101, 768] else if c = 233 then [101, 769]
      else if c = 234 then [101, 770] else if c = 235 then [101, 776]
      else if c = 236 then [105, 768] else if c = 237 then [105, 769]
      else if c = 238 then [105, 770] else if c = 239 then [105, 776]
      else if c = 241 then [110, 771]
      else if c = 242 then [111, 768] else if c = 243 then [111, 769] else if c = 244 then [111, 770]
      else if c = 245 then [111, 771] else if c = 246 then [111, 776]
      else if c = 249 then [117, 768] else if c = 250 then [117, 769]
      else if c = 251 then [117, 770] else if c = 252 then [117, 776]
      else if c = 253 then [121, 769] else if c = 255 then [121, 776]
      else [c])"

definition sampleHost :: js_host where
  "sampleHost =
     \<lparr> Date_parse = isoDateParse,
       Date_getFullYear = utcFullYear,
       Date_getMonth = utcMonth,
       toLowerCase = map latin1Lower,
       normalizeNFD = (\<lambda>s. concat (map latin1Decompose s)) \<rparr>"

section \<open>Shipments\<close>

text \<open>
  The properties of \<open>interface Shipment\<close> that the aggregations read. An optional
  property is an \<open>option\<close>; \<open>status\<close> is typed by the enumeration \<open>ImportStatus\<close> in
  the source but holds whatever string was stored, so it is a string here.
\<close>

record shipment =
  shipment_id :: jsstring
  blAwb :: jsstring
  typeOfCargo :: "jsstring option"
  uniqueDi :: "jsstring option"
  shipmentType :: "jsstring option"
  fcl :: "rat option"
  incoterm :: "jsstring option"
  bondedWarehouse :: "jsstring option"
  actualEtd :: "jsstring option"
  actualEta :: "jsstring option"
  cargoPresenceDate :: "jsstring option"
  diRegistrationDate :: "jsstring option"
  greenChannelOrDeliveryAuthorizedDate :: "jsstring option"
  nfIssueDate :: "jsstring option"
  firstTruckDelivery :: "jsstring option"
  di :: "jsstring option"
  parametrization :: "jsstring option"
  status :: "jsstring option"

definition blankShipment :: shipment where
  "blankShipment =
     \<lparr> shipment_id = [], blAwb = [], typeOfCargo = None, uniqueDi = None, shipmentType = None,
       fcl = None, incoterm = None, bondedWarehouse = None, actualEtd = None,
       actualEta = None, cargoPresenceDate = None, diRegistrationDate = None,
       greenChannelOrDeliveryAuthorizedDate = None, nfIssueDate = None,
       firstTruckDelivery = None, di = None, parametrization = None, status = None \<rparr>"

section \<open>Day differences\<close>

text \<open>
  \<open>calculateDaysBetween\<close> subtracts two time values, takes the absolute value, divides
  by the milliseconds of a day and rounds up. The time values are whole numbers, so the
  difference that the code computes in doubles is the exact one as long as its
  magnitude is at most \<open>2 ^ 53\<close> milliseconds (some 285000 years). The quotient is then
  below \<open>2 ^ 27\<close>, where the rounding error of a double is below a 86400000th, so
  that a quotient which is not a whole number is not rounded to one and \<open>Math.ceil\<close>
  gives the ceiling of the exact quotient. Within that bound the function below is the
  code's; beyond it the code rounds the difference first.
\<close>

definition calculateDaysBetween :: "js_host \<Rightarrow> jsstring option \<Rightarrow> jsstring option \<Rightarrow> int option" where
  "calculateDaysBetween h start end' =
     (if \<not> truthy start \<or> \<not> truthy end' then None
      else case (start, end') of
        (Some a, Some b) \<Rightarrow>
          (case (Date_parse h a, Date_parse h b) of
             (Some startDate, Some endDate) \<Rightarrow>
               (let diffTime = \<bar>endDate - startDate\<bar>
                in Some \<lceil>rat_of_int diffTime / (1000 * 60 * 60 * 24)\<rceil>)
           | _ \<Rightarrow> None)
      | _ \<Rightarrow> None)"

section \<open>Chart data\<close>

text \<open>
  A point of a chart is \<open>{value, shipments}\<close>: a number and the shipments behind it.
  An entry of a doughnut or bar chart has a label as well. The colour of an entry is
  presentation only and is left out.
\<close>

record 'n point =
  val :: 'n
  shipments :: "shipment list"

record 'n bucket = "'n point" +
  label :: jsstring

text \<open>
  An object used as a dictionary is the association list of its own properties, in
  insertion order. \<open>hasOwnProperty\<close> asks for an own key and \<open>modifyKey\<close> changes the
  entry of a key in place.

  Reading \<open>obj[k]\<close> also finds what an object literal inherits from
  \<open>Object.prototype\<close>: the members listed below, each of them a function or an object
  and so truthy. Hence \<open>if (!obj[k]) obj[k] = v\<close>, which is \<open>ensureKey\<close>, creates an
  entry only for a key that is neither an own key nor the name of an inherited member.
  After it, \<open>obj[k].shipments.push(s)\<close> finds the entry when \<open>k\<close> is an own key; for
  the name of an inherited member \<open>obj[k].shipments\<close> is undefined and the call throws
  a \<open>TypeError\<close>. \<open>Object.prototype\<close> is taken to have its standard members and no
  others.
\<close>

definition hasOwnProperty :: "(jsstring \<times> 'v) list \<Rightarrow> jsstring \<Rightarrow> bool" where
  "hasOwnProperty obj k = (map_of obj k \<noteq> None)"

definition modifyKey :: "jsstring \<Rightarrow> ('v \<Rightarrow> 'v) \<Rightarrow> (jsstring \<times> 'v) list \<Rightarrow> (jsstring \<times> 'v) list" where
  "modifyKey k f obj = map (\<lambda>(l, v). if l = k then (l, f v) else (l, v)) obj"

definition objectPrototypeMembers :: "jsstring list" where
  "objectPrototypeMembers =
     [str ''constructor'', str ''__proto__'', str ''hasOwnProperty'', str ''isPrototypeOf'',
      str ''propertyIsEnumerable'', str ''toLocaleString'', str ''toString'', str ''valueOf'',
      str ''__defineGetter__'', str ''__defineSetter__'', str ''__lookupGetter__'',
      str ''__lookupSetter__'']"

definition inheritedMember :: "jsstring \<Rightarrow> bool" where
  "inheritedMember k = (k \<in> set objectPrototypeMembers)"

definition ensureKey :: "jsstring \<Rightarrow> 'v \<Rightarrow> (jsstring \<times> 'v) list \<Rightarrow> (jsstring \<times> 'v) list" where
  "ensureKey k v obj = (if map_of obj k = None \<and> \<not> inheritedMember k then obj @ [(k, v)] else obj)"

text \<open>
  \<open>Object.entries\<close> lists the own properties: first the keys that are array indices
  (the decimal numerals of the whole numbers below \<open>2 ^ 32 - 1\<close>, without leading
  zeros) in ascending order, then the other keys in insertion order. The fixed groups
  of the status and channel charts have no such key, and their entries are listed as
  they were inserted.
\<close>

definition indexOfKey :: "jsstring \<Rightarrow> int" where
  "indexOfKey k = (case digitsVal k of None \<Rightarrow> 0 | Some n \<Rightarrow> n)"

definition isArrayIndex :: "jsstring \<Rightarrow> bool" where
  "isArrayIndex k =
     (case digitsVal k of
        None \<Rightarrow> False
      | Some n \<Rightarrow> (length k = 1 \<or> hd k \<noteq> 48) \<and> n < 2 ^ 32 - 1)"

definition Object_entries :: "(jsstring \<times> 'v) list \<Rightarrow> (jsstring \<times> 'v) list" where
  "Object_entries obj =
     sort_key (\<lambda>(k, v). indexOfKey k) (filter (\<lambda>(k, v). isArrayIndex k) obj)
       @ filter (\<lambda>(k, v). \<not> isArrayIndex k) obj"

section \<open>The dashboard filter\<close>

datatype filter_value = FilterAll | FilterNum int

record KpiFilters =
  cargo :: "jsstring list"
  year :: filter_value
  month :: filter_value

text \<open>
  The three dashboards filter with the same predicate and differ in the date property
  they read, which is the parameter \<open>dateField\<close> here.
\<close>

definition passesFilter :: "js_host \<Rightarrow> (shipment \<Rightarrow> jsstring option) \<Rightarrow> KpiFilters \<Rightarrow> shipment \<Rightarrow> bool" where
  "passesFilter h dateField filters s =
     (let cargoMatch = (cargo filters = [] \<or>
                         (case typeOfCargo s of None \<Rightarrow> False | Some c \<Rightarrow> c \<in> set (cargo filters)))
      in if \<not> truthy (dateField s) then False
         else case dateField s of
           None \<Rightarrow> False
         | Some d \<Rightarrow>
             (case Date_parse h d of
                None \<Rightarrow> False
              | Some shipmentDate \<Rightarrow>
                  (let yearMatch = (year filters = FilterAll \<or>
                                     FilterNum (Date_getFullYear h shipmentDate) = year filters);
                       monthMatch = (month filters = FilterAll \<or>
                                      FilterNum (Date_getMonth h shipmentDate) = month filters)
                   in cargoMatch \<and> yearMatch \<and> monthMatch)))"

definition CargosInTransit_filteredShipments :: "js_host \<Rightarrow> KpiFilters \<Rightarrow> shipment list \<Rightarrow> shipment list" where
  "CargosInTransit_filteredShipments h filters ships = filter (passesFilter h actualEta filters) ships"

definition Performance_filteredShipments :: "js_host \<Rightarrow> KpiFilters \<Rightarrow> shipment list \<Rightarrow> shipment list" where
  "Performance_filteredShipments h filters ships = filter (passesFilter h diRegistrationDate filters) ships"

definition OperationStatus_filteredShipments :: "js_host \<Rightarrow> KpiFilters \<Rightarrow> shipment list \<Rightarrow> shipment list" where
  "OperationStatus_filteredShipments h filters ships = filter (passesFilter h actualEta filters) ships"

section \<open>Duration metrics\<close>

subsection \<open>The monthly line charts of the performance dashboard\<close>

record month_acc =
  clearance :: "int list"
  delivery :: "int list"
  operation :: "int list"
  nf :: "int list"
  clearanceShipments :: "shipment list"
  deliveryShipments :: "shipment list"
  operationShipments :: "shipment list"
  nfShipments :: "shipment list"

definition emptyMonth :: month_acc where
  "emptyMonth =
     \<lparr> clearance = [], delivery = [], operation = [], nf = [],
       clearanceShipments = [], deliveryShipments = [], operationShipments = [],
       nfShipments = [] \<rparr>"

text \<open>The body of \<open>if (month >= 0 && month < 12)\<close>, on the accumulator of that month.\<close>

definition pushDurations :: "js_host \<Rightarrow> shipment \<Rightarrow> month_acc \<Rightarrow> month_acc" where
  "pushDurations h s m =
     (let clearance' = calculateDaysBetween h (cargoPresenceDate s) (greenChannelOrDeliveryAuthorizedDate s);
          delivery' = calculateDaysBetween h (greenChannelOrDeliveryAuthorizedDate s) (firstTruckDelivery s);
          operation' = calculateDaysBetween h (actualEta s) (greenChannelOrDeliveryAuthorizedDate s);
          nf' = calculateDaysBetween h (greenChannelOrDeliveryAuthorizedDate s) (nfIssueDate s);
          m1 = (case clearance' of None \<Rightarrow> m
                | Some d \<Rightarrow> m\<lparr>clearance := clearance m @ [d], clearanceShipments := clearanceShipments m @ [s]\<rparr>);
          m2 = (case delivery' of None \<Rightarrow> m1
                | Some d \<Rightarrow> m1\<lparr>delivery := delivery m1 @ [d], deliveryShipments := deliveryShipments m1 @ [s]\<rparr>);
          m3 = (case operation' of None \<Rightarrow> m2
                | Some d \<Rightarrow> m2\<lparr>operation := operation m2 @ [d], operationShipments := operationShipments m2 @ [s]\<rparr>)
      in (case nf' of None \<Rightarrow> m3
          | Some d \<Rightarrow> m3\<lparr>nf := nf m3 @ [d], nfShipments := nfShipments m3 @ [s]\<rparr>))"

definition lineChart_step :: "js_host \<Rightarrow> month_acc list \<Rightarrow> shipment \<Rightarrow> month_acc list" where
  "lineChart_step h months s =
     (if truthy (diRegistrationDate s) then
        (case diRegistrationDate s of
           None \<Rightarrow> months
         | Some d \<Rightarrow>
             (case Date_parse h d of
                None \<Rightarrow> months
              | Some date \<Rightarrow>
                  (let month = Date_getMonth h date
                   in if month \<ge> 0 \<and> month < 12
                      then months[nat month := pushDurations h s (months ! nat month)]
                      else months)))
      else months)"

definition avg :: "int list \<Rightarrow> rat" where
  "avg arr = (if length arr \<noteq> 0 then rat_of_int (foldl (+) 0 arr) / rat_of_nat (length arr) else 0)"

text \<open>\<open>Math.round\<close> rounds to the nearest integer, a tie towards plus infinity.\<close>

definition Math_round :: "rat \<Rightarrow> int" where
  "Math_round x = \<lfloor>x + 1 / 2\<rfloor>"

record line_chart_data =
  labels :: "jsstring list"
  clearanceSeries :: "int point list"
  deliverySeries :: "int point list"
  operationSeries :: "int point list"
  nfSeries :: "int point list"

definition monthLabels12 :: "jsstring list" where
  "monthLabels12 =
     [str ''Janeiro'', str ''Fevereiro'', str ''Mar'' @ [231] @ str ''o'', str ''Abril'',
      str ''Maio'', str ''Junho'', str ''Julho'', str ''Agosto'', str ''Setembro'',
      str ''Outubro'', str ''Novembro'', str ''Dezembro'']"

definition shipmentsForPerf :: "shipment list \<Rightarrow> shipment list" where
  "shipmentsForPerf filteredShipments = filter (\<lambda>s. uniqueDi s \<noteq> Some (str ''Yes'')) filteredShipments"

definition lineChart_months :: "js_host \<Rightarrow> shipment list \<Rightarrow> month_acc list" where
  "lineChart_months h filteredShipments =
     foldl (lineChart_step h) (replicate 12 emptyMonth) (shipmentsForPerf filteredShipments)"

text \<open>
  \<open>lineChartData\<close>: the four arrays are named after the charts that show them, since
  \<open>clearance\<close> to \<open>nf\<close> already name the lists of a month.
\<close>

definition lineChartData :: "js_host \<Rightarrow> shipment list \<Rightarrow> line_chart_data" where
  "lineChartData h filteredShipments =
     (let months = lineChart_months h filteredShipments
      in \<lparr> labels = monthLabels12,
           clearanceSeries = map (\<lambda>m. \<lparr>val = Math_round (avg (clearance m)), shipments = clearanceShipments m\<rparr>) months,
           deliverySeries = map (\<lambda>m. \<lparr>val = Math_round (avg (delivery m)), shipments = deliveryShipments m\<rparr>) months,
           operationSeries = map (\<lambda>m. \<lparr>val = Math_round (avg (operation m)), shipments = operationShipments m\<rparr>) months,
           nfSeries = map (\<lambda>m. \<lparr>val = Math_round (avg (nf m)), shipments = nfShipments m\<rparr>) months \<rparr>)"

subsection \<open>The average clearance time of the brokerage page\<close>

text \<open>
  The part of \<open>kpiMetrics\<close> that computes the average clearance time; the source
  then prints the average with one decimal.
\<close>

definition clearanceTimes :: "js_host \<Rightarrow> shipment list \<Rightarrow> int list" where
  "clearanceTimes h filteredShipments =
     [days. Some days \<leftarrow> map (\<lambda>s. calculateDaysBetween h (cargoPresenceDate s)
                                       (greenChannelOrDeliveryAuthorizedDate s)) filteredShipments]"

definition avgClearance :: "js_host \<Rightarrow> shipment list \<Rightarrow> rat" where
  "avgClearance h filteredShipments =
     (let times = clearanceTimes h filteredShipments;
          totalClearanceTime = foldl (+) 0 times
      in if length times > 0 then rat_of_int totalClearanceTime / rat_of_nat (length times) else 0)"

subsection \<open>The average transit time by Incoterm\<close>

text \<open>
  The body of the loop. With an Incoterm that names an inherited member of the object
  \<open>groups\<close> no group is created and \<open>groups[s.incoterm].shipments.push(s)\<close> throws.
\<close>

definition avgTimeByIncoterm_step ::
  "js_host \<Rightarrow> (jsstring \<times> int \<times> nat \<times> shipment list) list \<Rightarrow> shipment
     \<Rightarrow> (jsstring \<times> int \<times> nat \<times> shipment list) list option" where
  "avgTimeByIncoterm_step h groups0 s =
     (case incoterm s of
        None \<Rightarrow> Some groups0
      | Some i \<Rightarrow>
          if i = [] then Some groups0
          else (case calculateDaysBetween h (actualEtd s) (actualEta s) of
                  None \<Rightarrow> Some groups0
                | Some days \<Rightarrow>
                    (let groups = ensureKey i (0, 0, []) groups0
                     in if hasOwnProperty groups i
                        then Some (modifyKey i (\<lambda>(total, count, ships). (total + days, count + 1, ships @ [s]))
                                     groups)
                        else None)))"

definition avgTimeByIncoterm :: "js_host \<Rightarrow> shipment list \<Rightarrow> int bucket list option" where
  "avgTimeByIncoterm h filteredShipments =
     (case forEach (avgTimeByIncoterm_step h) [] filteredShipments of
        None \<Rightarrow> None
      | Some groups \<Rightarrow>
          (let groups = ensureKey (str ''FOB'') (0, 0, []) groups;
               groups = ensureKey (str ''CIF'') (0, 0, []) groups;
               groups = ensureKey (str ''DAP'') (0, 0, []) groups;
               groups = ensureKey (str ''FCA'') (0, 0, []) groups
           in Some (map (\<lambda>(l, total, count, ships).
                           \<lparr> val = (if count > 0 then Math_round (rat_of_int total / rat_of_nat count) else 0),
                             shipments = ships,
                             label = l \<rparr>) (Object_entries groups))))"

section \<open>Terminal names\<close>

text \<open>
  The \<open>replace\<close> of \<open>normalizeTerminalName\<close> deletes the combining diacritical marks,
  the code units U+0300 to U+036F.
\<close>

definition stripCombiningMarks :: "jsstring \<Rightarrow> jsstring" where
  "stripCombiningMarks s = filter (\<lambda>c. \<not> (768 \<le> c \<and> c \<le> 879)) s"

text \<open>
  The literal of the source for the CLIA terminal; its seventh letter is the accented
  letter o, the single code unit 243.
\<close>

definition CLIA_Emporio :: jsstring where
  "CLIA_Emporio = str ''CLIA Emp'' @ [243] @ str ''rio''"

definition normalizeTerminalName :: "js_host \<Rightarrow> jsstring option \<Rightarrow> jsstring" where
  "normalizeTerminalName h name =
     (case name of
        None \<Rightarrow> str ''N/A''
      | Some n \<Rightarrow>
          if n = [] then str ''N/A''
          else (let lowerName = stripCombiningMarks (normalizeNFD h (toLowerCase h n))
                in if str_includes lowerName (str ''tecon'') then str ''TECON''
                   else if str_includes lowerName (str ''teca'') then str ''TECA''
                   else if str_includes lowerName (str ''clia'') \<and> str_includes lowerName (str ''emporio'')
                        then CLIA_Emporio
                   else if str_includes lowerName (str ''intermaritima'') then str ''Intermaritima''
                   else if str_includes lowerName (str ''tpc'') then str ''TPC''
                   else n))"

section \<open>The operation status dashboard\<close>

subsection \<open>Shipment status by BLs\<close>

definition statusByBLs_step :: "(jsstring \<times> shipment list) list \<Rightarrow> shipment \<Rightarrow> (jsstring \<times> shipment list) list" where
  "statusByBLs_step groups s =
     (if \<not> truthy (status s) then groups
      else case status s of
        None \<Rightarrow> groups
      | Some st \<Rightarrow>
          if hasOwnProperty groups st then modifyKey st (\<lambda>ships. ships @ [s]) groups
          else if st = str ''CARGO READY'' then modifyKey (str ''AT THE PORT'') (\<lambda>ships. ships @ [s]) groups
          else groups)"

definition statusByBLsData :: "shipment list \<Rightarrow> nat bucket list" where
  "statusByBLsData filteredShipments =
     (let groups = foldl statusByBLs_step
                     [(str ''IN TRANSIT'', []), (str ''AT THE PORT'', []),
                      (str ''DI REGISTERED'', []), (str ''CARGO CLEARED'', [])]
                     filteredShipments
      in map (\<lambda>(l, ships). \<lparr>val = length ships, shipments = ships, label = l\<rparr>) groups)"

subsection \<open>Shipment status by containers\<close>

text \<open>
  The number of containers of a shipment as three aggregations compute it:
  \<open>(s.shipmentType === 'FCL' || s.shipmentType === 'FCL/LCL') ? (s.fcl || 1) : 0\<close>.
  The aggregations add these numbers up; the sums are exact here, as the code's are for
  whole numbers of containers.
\<close>

definition containerCount :: "shipment \<Rightarrow> rat" where
  "containerCount s =
     (if shipmentType s = Some (str ''FCL'') \<or> shipmentType s = Some (str ''FCL/LCL'')
      then (case fcl s of None \<Rightarrow> 1 | Some n \<Rightarrow> if n = 0 then 1 else n)
      else 0)"

definition statusByContainers_step ::
  "(jsstring \<times> shipment list \<times> rat) list \<Rightarrow> shipment \<Rightarrow> (jsstring \<times> shipment list \<times> rat) list" where
  "statusByContainers_step groups s =
     (case status s of
        None \<Rightarrow> groups
      | Some st \<Rightarrow>
          if st \<noteq> [] \<and> hasOwnProperty groups st
          then modifyKey st (\<lambda>(ships, count). (ships @ [s], count + containerCount s)) groups
          else if st = str ''CARGO READY''
          then modifyKey (str ''AT THE PORT'') (\<lambda>(ships, count). (ships @ [s], count + containerCount s)) groups
          else groups)"

definition statusByContainers_result :: "(jsstring \<times> shipment list \<times> rat) list \<Rightarrow> int bucket list" where
  "statusByContainers_result groups =
     map (\<lambda>(l, ships, count). \<lparr>val = Math_round count, shipments = ships, label = l\<rparr>) groups"

text \<open>\<open>statusByContainersData\<close> as it is in \<open>index.tsx\<close>, with four groups.\<close>

definition statusByContainersData :: "shipment list \<Rightarrow> int bucket list" where
  "statusByContainersData filteredShipments =
     statusByContainers_result
       (foldl statusByContainers_step
          [(str ''IN TRANSIT'', [], 0), (str ''AT THE PORT'', [], 0),
           (str ''DI REGISTERED'', [], 0), (str ''CARGO CLEARED'', [], 0)]
          filteredShipments)"

text \<open>
  The second copy of \<open>statusByContainersData\<close> in the sources, which has the same loop
  and a fifth group for delivered cargo.
\<close>

definition statusByContainersData_delivered :: "shipment list \<Rightarrow> int bucket list" where
  "statusByContainersData_delivered filteredShipments =
     statusByContainers_result
       (foldl statusByContainers_step
          [(str ''IN TRANSIT'', [], 0), (str ''AT THE PORT'', [], 0),
           (str ''DI REGISTERED'', [], 0), (str ''CARGO CLEARED'', [], 0),
           (str ''CARGO DELIVERED'', [], 0)]
          filteredShipments)"

subsection \<open>Container volume by warehouse\<close>

text \<open>
  The body of the loop. With a warehouse that names an inherited member of the object
  \<open>warehouses\<close> no entry is created and \<open>warehouses[warehouse].shipments.push(s)\<close>
  throws.
\<close>

definition containerVolumeByWarehouse_step ::
  "js_host \<Rightarrow> (jsstring \<times> shipment list \<times> rat) list \<Rightarrow> shipment
     \<Rightarrow> (jsstring \<times> shipment list \<times> rat) list option" where
  "containerVolumeByWarehouse_step h warehouses0 s =
     (let warehouse = normalizeTerminalName h (bondedWarehouse s)
      in if warehouse \<noteq> str ''N/A''
         then (let warehouses = ensureKey warehouse ([], 0) warehouses0
               in if hasOwnProperty warehouses warehouse
                  then Some (modifyKey warehouse (\<lambda>(ships, total). (ships @ [s], total + containerCount s))
                               warehouses)
                  else None)
         else Some warehouses0)"

definition containerVolumeByWarehouseData :: "js_host \<Rightarrow> shipment list \<Rightarrow> rat bucket list option" where
  "containerVolumeByWarehouseData h filteredShipments =
     map_option (\<lambda>warehouses.
                   map (\<lambda>(l, ships, total). \<lparr>val = total, shipments = ships, label = l\<rparr>)
                     (Object_entries warehouses))
       (forEach (containerVolumeByWarehouse_step h) [] filteredShipments)"

section \<open>Cargo volume per terminal and month\<close>

definition monthLabels :: "jsstring list" where
  "monthLabels = [str ''Julho'', str ''Agosto'', str ''Setembro'', str ''Outubro'',
                  str ''Novembro'', str ''Dezembro'']"

text \<open>The volume that \<open>cargoVolumeDataStack\<close> takes for a shipment, with \<open>s.fcl || 0\<close>.\<close>

definition containerVolume :: "shipment \<Rightarrow> rat" where
  "containerVolume s =
     (if shipmentType s = Some (str ''FCL'') \<or> shipmentType s = Some (str ''FCL/LCL'')
      then (case fcl s of None \<Rightarrow> 0 | Some n \<Rightarrow> n)
      else 0)"

type_synonym volume_table = "(jsstring \<times> (jsstring \<times> rat \<times> shipment list) list) list"

text \<open>
  The state of the loop is the object \<open>months\<close> and the set \<open>terminals\<close> (a list
  without repetition, in insertion order). Writing a volume throws a \<open>TypeError\<close>, and
  the result is \<open>None\<close>, in two cases: with a month index above 11 the name of the
  month is undefined, and so is \<open>months[monthName]\<close>; and with a terminal that names an
  inherited member of the object \<open>months[monthName]\<close> no entry is created and
  \<open>months[monthName][terminal].shipments.push(s)\<close> throws.
\<close>

definition cargoVolume_step ::
  "js_host \<Rightarrow> volume_table \<times> jsstring list \<Rightarrow> shipment \<Rightarrow> (volume_table \<times> jsstring list) option" where
  "cargoVolume_step h st s =
     (case st of (months, terminals) \<Rightarrow>
        if truthy (actualEta s) then
          (case actualEta s of
             None \<Rightarrow> Some st
           | Some d \<Rightarrow>
               (case Date_parse h d of
                  None \<Rightarrow> Some st
                | Some date \<Rightarrow>
                    (let monthIndex = Date_getMonth h date
                     in if monthIndex \<ge> 6 then
                          (let terminal = normalizeTerminalName h (bondedWarehouse s);
                               terminals' = (if terminal \<in> set terminals then terminals
                                             else terminals @ [terminal])
                           in if containerVolume s > 0 then
                                (if monthIndex - 6 < 6 then
                                   (let monthName = monthLabels ! nat (monthIndex - 6)
                                    in case map_of months monthName of
                                         None \<Rightarrow> None
                                       | Some m0 \<Rightarrow>
                                           if hasOwnProperty (ensureKey terminal (0, []) m0) terminal
                                           then Some (modifyKey monthName
                                                        (\<lambda>m. modifyKey terminal
                                                               (\<lambda>(volume, ships). (volume + containerVolume s, ships @ [s]))
                                                               (ensureKey terminal (0, []) m))
                                                        months,
                                                      terminals')
                                           else None)
                                 else None)
                              else Some (months, terminals'))
                        else Some st)))
        else Some st)"

record dataset =
  terminal_label :: jsstring
  data :: "rat list"
  terminal_of_month :: "jsstring list"
  month_shipments :: "shipment list list"

text \<open>\<open>months[m][terminal]?.volume || 0\<close> and \<open>months[m][terminal]?.shipments || []\<close>.\<close>

definition volumeOf :: "(jsstring \<times> rat \<times> shipment list) list \<Rightarrow> jsstring \<Rightarrow> rat" where
  "volumeOf m terminal = (case map_of m terminal of None \<Rightarrow> 0 | Some (volume, ships) \<Rightarrow> volume)"

definition shipmentsOf :: "(jsstring \<times> rat \<times> shipment list) list \<Rightarrow> jsstring \<Rightarrow> shipment list" where
  "shipmentsOf m terminal = (case map_of m terminal of None \<Rightarrow> [] | Some (volume, ships) \<Rightarrow> ships)"

definition cargoVolume_datasets :: "volume_table \<times> jsstring list \<Rightarrow> dataset list" where
  "cargoVolume_datasets st =
     (case st of (months, terminals) \<Rightarrow>
        map (\<lambda>terminal.
               \<lparr> terminal_label = terminal,
                 data = map (\<lambda>(name, m). volumeOf m terminal) months,
                 terminal_of_month = map (\<lambda>name. terminal) monthLabels,
                 month_shipments = map (\<lambda>(name, m). shipmentsOf m terminal) months \<rparr>)
          (sort terminals))"

definition cargoVolumeDataStack :: "js_host \<Rightarrow> shipment list \<Rightarrow> dataset list option" where
  "cargoVolumeDataStack h filteredShipments =
     map_option cargoVolume_datasets
       (forEach (cargoVolume_step h) (map (\<lambda>m. (m, [])) monthLabels, []) filteredShipments)"

section \<open>DI parametrization\<close>

text \<open>A \<open>Set\<close> of strings is a list without repetition, in insertion order.\<close>

definition setAdd :: "jsstring \<Rightarrow> jsstring list \<Rightarrow> jsstring list" where
  "setAdd x xs = (if x \<in> set xs then xs else xs @ [x])"

record channel_bucket = "nat bucket" +
  secondaryValue :: nat

definition diChannel_step ::
  "(jsstring \<times> shipment list \<times> jsstring list) list \<Rightarrow> shipment \<Rightarrow> (jsstring \<times> shipment list \<times> jsstring list) list" where
  "diChannel_step groups s =
     (case parametrization s of
        None \<Rightarrow> groups
      | Some p \<Rightarrow>
          if p \<noteq> [] \<and> hasOwnProperty groups p
          then modifyKey p (\<lambda>(ships, uniqueDIs).
                              (ships @ [s],
                               (case di s of
                                  None \<Rightarrow> uniqueDIs
                                | Some d \<Rightarrow> if d \<noteq> [] then setAdd d uniqueDIs else uniqueDIs)))
                 groups
          else groups)"

text \<open>\<open>diChannelData\<close> of the brokerage page: shipments and distinct DI numbers per channel.\<close>

definition diChannelData :: "shipment list \<Rightarrow> channel_bucket list" where
  "diChannelData filteredShipments =
     map (\<lambda>(l, ships, uniqueDIs).
            \<lparr>val = length ships, shipments = ships, label = l, secondaryValue = length uniqueDIs\<rparr>)
       (foldl diChannel_step
          [(str ''Green'', [], []), (str ''Yellow'', [], []), (str ''Red'', [], [])]
          filteredShipments)"

text \<open>
  \<open>diParamData\<close> of the performance dashboard: per channel a \<open>Map\<close> from DI number to
  the first shipment that carries it, as an association list in insertion order.
\<close>

definition diParam_step ::
  "(jsstring \<times> (jsstring \<times> shipment) list) list \<Rightarrow> shipment \<Rightarrow> (jsstring \<times> (jsstring \<times> shipment) list) list" where
  "diParam_step groups s =
     (case (di s, parametrization s) of
        (Some d, Some p) \<Rightarrow>
          if d \<noteq> [] \<and> p \<noteq> [] \<and> hasOwnProperty groups p
          then modifyKey p (\<lambda>uniqueDIs. if map_of uniqueDIs d = None then uniqueDIs @ [(d, s)]
                                         else uniqueDIs) groups
          else groups
      | _ \<Rightarrow> groups)"

definition diParamData :: "shipment list \<Rightarrow> nat bucket list" where
  "diParamData filteredShipments =
     map (\<lambda>(l, uniqueDIs). \<lparr>val = length uniqueDIs, shipments = map snd uniqueDIs, label = l\<rparr>)
       (foldl diParam_step
          [(str ''Green'', []), (str ''Yellow'', []), (str ''Red'', [])]
          filteredShipments)"

section \<open>The zoom window of the line chart\<close>

text \<open>
  The state \<open>viewRange\<close> of \<open>LineChart\<close>: the first and the last index shown. Its
  field \<open>end\<close> is \<open>end'\<close> here. \<open>len\<close> is \<open>data.length\<close>, and the factor 1.5 is the
  fraction 3 / 2.
\<close>

record viewRange =
  start :: int
  end' :: int

definition initialRange :: "nat \<Rightarrow> viewRange" where
  "initialRange len = \<lparr> start = 0, end' = (if len > 0 then int len - 1 else 0) \<rparr>"

definition handleZoomIn :: "nat \<Rightarrow> viewRange \<Rightarrow> viewRange" where
  "handleZoomIn len prev =
     (let currentRange = end' prev - start prev
      in if currentRange < 2 then prev
         else (let center = start prev + \<lfloor>rat_of_int currentRange / 2\<rfloor>;
                   newRange = max 2 \<lceil>rat_of_int currentRange / (3 / 2)\<rceil>;
                   newStart = max 0 (center - \<lfloor>rat_of_int newRange / 2\<rfloor>);
                   newEnd = min (int len - 1) (newStart + newRange - 1)
               in \<lparr> start = newStart, end' = newEnd \<rparr>))"

definition handleZoomOut :: "nat \<Rightarrow> viewRange \<Rightarrow> viewRange" where
  "handleZoomOut len prev =
     (let currentRange = end' prev - start prev
      in if currentRange \<ge> int len - 1 then prev
         else (let center = start prev + \<lfloor>rat_of_int currentRange / 2\<rfloor>;
                   newRange = min (int len) (\<lfloor>rat_of_int currentRange * (3 / 2)\<rfloor> + 1);
                   newStart = max 0 (center - \<lfloor>rat_of_int newRange / 2\<rfloor>);
                   newEnd = min (int len - 1) (newStart + newRange - 1);
                   newStart = (if newEnd - newStart + 1 < newRange
                               then max 0 (newEnd - newRange + 1) else newStart)
               in \<lparr> start = newStart, end' = newEnd \<rparr>))"

definition handleResetZoom :: "nat \<Rightarrow> viewRange" where
  "handleResetZoom len = \<lparr> start = 0, end' = (if len > 0 then int len - 1 else 0) \<rparr>"

datatype zoom_action = ZoomIn | ZoomOut | ResetZoom

fun zoom :: "nat \<Rightarrow> viewRange \<Rightarrow> zoom_action \<Rightarrow> viewRange" where
  "zoom len v ZoomIn = handleZoomIn len v"
| "zoom len v ZoomOut = handleZoomOut len v"
| "zoom len v ResetZoom = handleResetZoom len"

text \<open>The window after a sequence of clicks on the zoom buttons, from the initial window.\<close>

definition zoomAll :: "nat \<Rightarrow> zoom_action list \<Rightarrow> viewRange" where
  "zoomAll len actions = foldl (zoom len) (initialRange len) actions"

section \<open>The spreadsheet import\<close>

text \<open>
  A cell of the sheet, as \<open>sheet_to_json\<close> gives it: nothing, a string, a number or a
  boolean. The record that the mapper builds is an object whose properties are assigned
  one by one, a map from property names to cells here; a property that was never
  assigned reads \<open>Undefined\<close>. The cells of the header row are strings, as the cast
  \<open>json[0] as string[]\<close> says.
\<close>

datatype cell = Undefined | CStr jsstring | CNum rat | CBool bool

fun truthyCell :: "cell \<Rightarrow> bool" where
  "truthyCell Undefined = False"
| "truthyCell (CStr s) = (s \<noteq> [])"
| "truthyCell (CNum n) = (n \<noteq> 0)"
| "truthyCell (CBool b) = b"

datatype property =
    P_id | P_blAwb | P_typeOfCargo | P_costCenter | P_status | P_actualEta | P_actualEtd
  | P_incoterm | P_poSap | P_approvedDraftDi | P_bondedWarehouse | P_fcl | P_invoiceValue
  | P_parametrization | P_cargoPresenceDate | P_diRegistrationDate
  | P_greenChannelOrDeliveryAuthorizedDate | P_firstTruckDelivery | P_lastTruckDelivery
  | P_nfIssueDate | P_di | P_uniqueDi

type_synonym partial_shipment = "property \<Rightarrow> cell"

text \<open>The characters of the class \<open>\s\<close> of regular expressions.\<close>

definition isWhitespace :: "nat \<Rightarrow> bool" where
  "isWhitespace c =
     ((9 \<le> c \<and> c \<le> 13) \<or> c = 32 \<or> c = 160 \<or> c = 5760 \<or> (8192 \<le> c \<and> c \<le> 8202)
      \<or> c = 8232 \<or> c = 8233 \<or> c = 8239 \<or> c = 8287 \<or> c = 12288 \<or> c = 65279)"

text \<open>\<open>header.toLowerCase().replace(/\s+/g, '')\<close>\<close>

definition headerKey :: "js_host \<Rightarrow> jsstring \<Rightarrow> jsstring" where
  "headerKey h header = filter (\<lambda>c. \<not> isWhitespace c) (toLowerCase h header)"

text \<open>\<open>row[i]\<close>, undefined beyond the end of the row.\<close>

definition cellAt :: "cell list \<Rightarrow> nat \<Rightarrow> cell" where
  "cellAt row i = (if i < length row then row ! i else Undefined)"

text \<open>
  \<open>parseDateFromExcel\<close> returns the empty string for an undefined or empty cell. What
  it makes of any other cell (serial numbers through \<open>excelSerialDateToJSDate\<close>,
  day-month-year strings, the date parsing and the time zone of the engine) is the
  parameter \<open>convert\<close>. Its result is the string that the function returns, or \<open>None\<close>
  when the function throws: a serial number or a year beyond the range of \<open>Date\<close> (a
  number above some \<open>10 ^ 8\<close>, a year above 275760) gives an invalid date, and
  \<open>toISOString\<close> throws a \<open>RangeError\<close> on it.
\<close>

definition parseDateFromExcel :: "(cell \<Rightarrow> jsstring option) \<Rightarrow> cell \<Rightarrow> cell option" where
  "parseDateFromExcel convert v =
     (if v = Undefined \<or> v = CStr [] then Some (CStr []) else map_option CStr (convert v))"

text \<open>\<open>typeof value === 'number' ? value : 0\<close>\<close>

definition numberOrZero :: "cell \<Rightarrow> cell" where
  "numberOrZero v = (case v of CNum n \<Rightarrow> CNum n | _ \<Rightarrow> CNum 0)"

text \<open>
  One line \<open>if (c) shipment.p = v\<close> of the mapper, and one line
  \<open>if (c) shipment.p = parseDateFromExcel(v)\<close>, which throws when the conversion does.
\<close>

definition assign :: "bool \<Rightarrow> property \<Rightarrow> cell \<Rightarrow> partial_shipment \<Rightarrow> partial_shipment" where
  "assign c p v shipment = (if c then shipment(p := v) else shipment)"

definition assignDate ::
  "(cell \<Rightarrow> jsstring option) \<Rightarrow> bool \<Rightarrow> property \<Rightarrow> cell \<Rightarrow> partial_shipment \<Rightarrow> partial_shipment option" where
  "assignDate convert c p v shipment =
     (if c then map_option (\<lambda>d. shipment(p := d)) (parseDateFromExcel convert v) else Some shipment)"

text \<open>
  The body of \<open>headers.forEach((header, i) => ...)\<close> for one row: its lines in their
  order, up to the first one that throws.
\<close>

definition mapHeader ::
  "js_host \<Rightarrow> (cell \<Rightarrow> jsstring option) \<Rightarrow> cell list \<Rightarrow> partial_shipment \<Rightarrow> jsstring \<times> nat
     \<Rightarrow> partial_shipment option" where
  "mapHeader h convert row shipment0 hi =
     (case hi of (header, i) \<Rightarrow>
       (let key = headerKey h header;
            v = cellAt row i
        in do {
             let shipment = assign (str_includes key (str ''bl'')) P_blAwb v shipment0;
             let shipment = assign (str_includes key (str ''description'') \<or> str_includes key (str ''cargo''))
                              P_typeOfCargo v shipment;
             let shipment = assign (str_includes key (str ''costcenter'')) P_costCenter v shipment;
             let shipment = assign (str_includes key (str ''status'')) P_status v shipment;
             shipment \<leftarrow> assignDate convert (str_includes key (str ''eta'')) P_actualEta v shipment;
             shipment \<leftarrow> assignDate convert (str_includes key (str ''etd'')) P_actualEtd v shipment;
             let shipment = assign (str_includes key (str ''incoterm'')) P_incoterm v shipment;
             let shipment = assign (str_includes key (str ''posap'')) P_poSap v shipment;
             let shipment = assign (str_includes key (str ''approveddraftdi'')) P_approvedDraftDi v shipment;
             let shipment = assign (str_includes key (str ''bondedwarehouse'')) P_bondedWarehouse v shipment;
             let shipment = assign (str_includes key (str ''fcl'')) P_fcl (numberOrZero v) shipment;
             let shipment = assign (str_includes key (str ''invoicevalue'')) P_invoiceValue (numberOrZero v) shipment;
             let shipment = assign (str_includes key (str ''parametrization'')) P_parametrization v shipment;
             shipment \<leftarrow> assignDate convert (str_includes key (str ''cargopresence'')) P_cargoPresenceDate v shipment;
             shipment \<leftarrow> assignDate convert (str_includes key (str ''diregistration'')) P_diRegistrationDate v shipment;
             shipment \<leftarrow> assignDate convert
                          (str_includes key (str ''greenchannel'') \<or> str_includes key (str ''deliveryauthorized''))
                          P_greenChannelOrDeliveryAuthorizedDate v shipment;
             shipment \<leftarrow> assignDate convert (str_includes key (str ''firsttruck'')) P_firstTruckDelivery v shipment;
             shipment \<leftarrow> assignDate convert (str_includes key (str ''lasttruck'')) P_lastTruckDelivery v shipment;
             shipment \<leftarrow> assignDate convert (str_includes key (str ''nfissue'')) P_nfIssueDate v shipment;
             let shipment = assign (str_includes key (str ''di'') \<and> \<not> str_includes key (str ''registration'')
                                    \<and> \<not> str_includes key (str ''draft'') \<and> \<not> str_includes key (str ''cif''))
                              P_di v shipment;
             Some (assign (str_includes key (str ''uniquedi'')) P_uniqueDi v shipment)
           }))"

text \<open>The decimal digits of an index, for \<open>`row-${index}`\<close>.\<close>

fun decimal :: "nat \<Rightarrow> jsstring" where
  "decimal n = (if n < 10 then [48 + n] else decimal (n div 10) @ [48 + n mod 10])"

declare decimal.simps [simp del]

text \<open>The function given to \<open>rows.map\<close>: the record of one row.\<close>

definition mapRow ::
  "js_host \<Rightarrow> (cell \<Rightarrow> jsstring option) \<Rightarrow> jsstring list \<Rightarrow> nat \<Rightarrow> cell list \<Rightarrow> partial_shipment option" where
  "mapRow h convert headers index row =
     forEach (mapHeader h convert row) ((\<lambda>p. Undefined)(P_id := CStr (str ''row-'' @ decimal index)))
       (zip headers [0..<length headers])"

text \<open>
  \<open>rows.map(...).filter(s => s.blAwb)\<close>. An exception in a row leaves \<open>rows.map\<close> and
  is caught at the end of \<open>handleUpload\<close>, which reports that the file could not be
  processed: nothing is uploaded then, and the result is \<open>None\<close>.
\<close>

definition shipmentsToUpload ::
  "js_host \<Rightarrow> (cell \<Rightarrow> jsstring option) \<Rightarrow> jsstring list \<Rightarrow> cell list list \<Rightarrow> partial_shipment list option" where
  "shipmentsToUpload h convert headers rows =
     map_option (filter (\<lambda>s. truthyCell (s P_blAwb)))
       (those (map (\<lambda>(index, row). mapRow h convert headers index row) (zip [0..<length rows] rows)))"

section \<open>Notions of the specification\<close>

text \<open>
  The definitions of this section are not code of the repository. They name what the
  specification talks about, so that the code can be compared with it.
\<close>

text \<open>The month (0 to 11) of a shipment's DI registration, when the date is there and parses.\<close>

definition registrationMonth :: "js_host \<Rightarrow> shipment \<Rightarrow> int option" where
  "registrationMonth h s =
     (case diRegistrationDate s of
        None \<Rightarrow> None
      | Some d \<Rightarrow> if d = [] then None else map_option (Date_getMonth h) (Date_parse h d))"

definition clearanceDays :: "js_host \<Rightarrow> shipment \<Rightarrow> int option" where
  "clearanceDays h s = calculateDaysBetween h (cargoPresenceDate s) (greenChannelOrDeliveryAuthorizedDate s)"

definition deliveryDays :: "js_host \<Rightarrow> shipment \<Rightarrow> int option" where
  "deliveryDays h s = calculateDaysBetween h (greenChannelOrDeliveryAuthorizedDate s) (firstTruckDelivery s)"

definition operationDays :: "js_host \<Rightarrow> shipment \<Rightarrow> int option" where
  "operationDays h s = calculateDaysBetween h (actualEta s) (greenChannelOrDeliveryAuthorizedDate s)"

definition nfDays :: "js_host \<Rightarrow> shipment \<Rightarrow> int option" where
  "nfDays h s = calculateDaysBetween h (greenChannelOrDeliveryAuthorizedDate s) (nfIssueDate s)"

text \<open>
  The day differences that the records of month \<open>m\<close> contribute: the records registered
  in that month whose day difference is not null.
\<close>

definition durationsOfMonth :: "js_host \<Rightarrow> (shipment \<Rightarrow> int option) \<Rightarrow> shipment list \<Rightarrow> nat \<Rightarrow> int list" where
  "durationsOfMonth h duration ships m =
     List.map_filter duration (filter (\<lambda>s. registrationMonth h s = Some (int m)) ships)"

text \<open>The arithmetic mean rounded to the nearest integer, and 0 for no value at all.\<close>

definition meanRounded :: "int list \<Rightarrow> int" where
  "meanRounded ds = (if ds = [] then 0 else round (real_of_int (sum_list ds) / real (length ds)))"

text \<open>
  The group that a status-based grouping with the group names \<open>keys\<close> puts a shipment
  in: the group named by its status, the group \<open>AT THE PORT\<close> for the legacy status
  \<open>CARGO READY\<close>, and no group for any other or absent status.
\<close>

definition statusGroupOf :: "jsstring list \<Rightarrow> shipment \<Rightarrow> jsstring option" where
  "statusGroupOf keys s =
     (case status s of
        None \<Rightarrow> None
      | Some st \<Rightarrow> if st \<noteq> [] \<and> st \<in> set keys then Some st
                   else if st = str ''CARGO READY'' then Some (str ''AT THE PORT'') else None)"

definition statusGroups4 :: "jsstring list" where
  "statusGroups4 = [str ''IN TRANSIT'', str ''AT THE PORT'', str ''DI REGISTERED'', str ''CARGO CLEARED'']"

definition statusGroups5 :: "jsstring list" where
  "statusGroups5 = [str ''IN TRANSIT'', str ''AT THE PORT'', str ''DI REGISTERED'', str ''CARGO CLEARED'',
                    str ''CARGO DELIVERED'']"

text \<open>
  A status that the grouping by BLs recognizes: the name of one of its four groups, or
  the alias \<open>CARGO READY\<close>.
\<close>

definition recognizedStatus :: "shipment \<Rightarrow> bool" where
  "recognizedStatus s =
     (status s = Some (str ''IN TRANSIT'') \<or> status s = Some (str ''AT THE PORT'')
      \<or> status s = Some (str ''DI REGISTERED'') \<or> status s = Some (str ''CARGO CLEARED'')
      \<or> status s = Some (str ''CARGO READY''))"

text \<open>The value that a chart shows under a label, 0 when it has no entry of that label.\<close>

definition bucketValue :: "('n::zero, 'a) bucket_scheme list \<Rightarrow> jsstring \<Rightarrow> 'n" where
  "bucketValue buckets l = (case find (\<lambda>b. label b = l) buckets of None \<Rightarrow> 0 | Some b \<Rightarrow> val b)"

text \<open>The total stored under a warehouse, 0 when the warehouse has no entry.\<close>

definition totalOf :: "(jsstring \<times> shipment list \<times> rat) list \<Rightarrow> jsstring \<Rightarrow> rat" where
  "totalOf obj k = (case map_of obj k of None \<Rightarrow> 0 | Some (ships, tot) \<Rightarrow> tot)"

text \<open>
  What the loops over an object with dynamic keys keep true of it: its own keys are
  distinct, and none of them names a member inherited from \<open>Object.prototype\<close>.
\<close>

definition ownKeys :: "(jsstring \<times> 'v) list \<Rightarrow> bool" where
  "ownKeys obj = (distinct (map fst obj) \<and> (\<forall>k \<in> set (map fst obj). \<not> inheritedMember k))"

text \<open>
  The object \<open>months\<close> of \<open>cargoVolumeDataStack\<close> after its loop: the volume per month
  and terminal. \<open>volumeRow\<close> is the row of six monthly volumes that the chart shows for a
  terminal, six zeros when the chart has no dataset for it.
\<close>

definition cargoVolumeTable :: "js_host \<Rightarrow> shipment list \<Rightarrow> volume_table option" where
  "cargoVolumeTable h ships = map_option fst (forEach (cargoVolume_step h) (map (\<lambda>m. (m, [])) monthLabels, []) ships)"

definition volumeRow :: "dataset list \<Rightarrow> jsstring \<Rightarrow> rat list" where
  "volumeRow dss t = (case find (\<lambda>d. terminal_label d = t) dss of None \<Rightarrow> replicate 6 0 | Some d \<Rightarrow> data d)"

text \<open>
  What the loop of \<open>cargoVolumeDataStack\<close> keeps true: there are six months, and a
  terminal with a volume in some month is in the set of terminals.
\<close>

definition table_inv :: "volume_table \<times> jsstring list \<Rightarrow> bool" where
  "table_inv st =
     (length (fst st) = 6 \<and>
      (\<forall>(name, m) \<in> set (fst st). \<forall>t. map_of m t \<noteq> None \<longrightarrow> t \<in> set (snd st)))"

text \<open>
  What Unicode prescribes for the six fixed names that \<open>normalizeTerminalName\<close> returns:
  their lower-case forms, and the canonical decomposition of these, which changes only
  the accented letter of the CLIA name (into the letter o and the combining acute
  accent, code unit 769).
\<close>

definition unicodeOnTerminalNames :: "js_host \<Rightarrow> bool" where
  "unicodeOnTerminalNames h =
     (toLowerCase h (str ''N/A'') = str ''n/a'' \<and> normalizeNFD h (str ''n/a'') = str ''n/a''
      \<and> toLowerCase h (str ''TECON'') = str ''tecon'' \<and> normalizeNFD h (str ''tecon'') = str ''tecon''
      \<and> toLowerCase h (str ''TECA'') = str ''teca'' \<and> normalizeNFD h (str ''teca'') = str ''teca''
      \<and> toLowerCase h CLIA_Emporio = str ''clia emp'' @ [243] @ str ''rio''
      \<and> normalizeNFD h (str ''clia emp'' @ [243] @ str ''rio'') = str ''clia empo'' @ [769] @ str ''rio''
      \<and> toLowerCase h (str ''Intermaritima'') = str ''intermaritima''
      \<and> normalizeNFD h (str ''intermaritima'') = str ''intermaritima''
      \<and> toLowerCase h (str ''TPC'') = str ''tpc'' \<and> normalizeNFD h (str ''tpc'') = str ''tpc'')"

text \<open>The three parametrization channels that have a group.\<close>

definition channels :: "jsstring list" where
  "channels = [str ''Green'', str ''Yellow'', str ''Red'']"

text \<open>
  What a shipment does to the set of DI numbers of channel \<open>c\<close>: its DI number is added
  when the shipment is of that channel and has a DI number.
\<close>

definition addDI :: "jsstring \<Rightarrow> jsstring list \<Rightarrow> shipment \<Rightarrow> jsstring list" where
  "addDI c u s =
     (if parametrization s = Some c \<and> c \<noteq> []
      then (case di s of None \<Rightarrow> u | Some d \<Rightarrow> if d \<noteq> [] then setAdd d u else u)
      else u)"

text \<open>The unique-DI count that the brokerage chart shows for a channel.\<close>

definition channelUnique :: "channel_bucket list \<Rightarrow> jsstring \<Rightarrow> nat" where
  "channelUnique buckets c = (case find (\<lambda>b. label b = c) buckets of None \<Rightarrow> 0 | Some b \<Rightarrow> secondaryValue b)"

text \<open>A window within the bounds of a series of \<open>len\<close> points.\<close>

definition inBounds :: "nat \<Rightarrow> viewRange \<Rightarrow> bool" where
  "inBounds len v = (0 \<le> start v \<and> start v \<le> end' v \<and> end' v \<le> int len - 1)"

text \<open>
  The middle index of a window, and the number of points that a zoom-in and a zoom-out
  ask for, from the span \<open>r = end - start\<close> of the current window: \<open>r\<close> divided by
  1.5 and rounded up, at least 2; \<open>r\<close> times 1.5 rounded down and 1, at most the whole
  series.
\<close>

definition midpoint :: "viewRange \<Rightarrow> int" where
  "midpoint v = start v + (end' v - start v) div 2"

definition zoomInPoints :: "int \<Rightarrow> int" where
  "zoomInPoints r = max 2 \<lceil>rat_of_int r / (3 / 2)\<rceil>"

definition zoomOutPoints :: "nat \<Rightarrow> int \<Rightarrow> int" where
  "zoomOutPoints len r = min (int len) (\<lfloor>rat_of_int r * (3 / 2)\<rfloor> + 1)"

text \<open>
  The mapper read as a table: \<open>feeds p key\<close> says that a column with the header key
  \<open>key\<close> is written to the property \<open>p\<close>, and \<open>stored convert p v\<close> is what is written
  for the cell \<open>v\<close>, \<open>None\<close> when the conversion of a date throws. \<open>lastFeeding\<close> is
  the last column written to a property, and \<open>referenceCell\<close> is the mapped
  carrier-document reference of a row.
\<close>

definition feeds :: "property \<Rightarrow> jsstring \<Rightarrow> bool" where
  "feeds p key =
     (case p of
        P_id \<Rightarrow> False
      | P_blAwb \<Rightarrow> str_includes key (str ''bl'')
      | P_typeOfCargo \<Rightarrow> str_includes key (str ''description'') \<or> str_includes key (str ''cargo'')
      | P_costCenter \<Rightarrow> str_includes key (str ''costcenter'')
      | P_status \<Rightarrow> str_includes key (str ''status'')
      | P_actualEta \<Rightarrow> str_includes key (str ''eta'')
      | P_actualEtd \<Rightarrow> str_includes key (str ''etd'')
      | P_incoterm \<Rightarrow> str_includes key (str ''incoterm'')
      | P_poSap \<Rightarrow> str_includes key (str ''posap'')
      | P_approvedDraftDi \<Rightarrow> str_includes key (str ''approveddraftdi'')
      | P_bondedWarehouse \<Rightarrow> str_includes key (str ''bondedwarehouse'')
      | P_fcl \<Rightarrow> str_includes key (str ''fcl'')
      | P_invoiceValue \<Rightarrow> str_includes key (str ''invoicevalue'')
      | P_parametrization \<Rightarrow> str_includes key (str ''parametrization'')
      | P_cargoPresenceDate \<Rightarrow> str_includes key (str ''cargopresence'')
      | P_diRegistrationDate \<Rightarrow> str_includes key (str ''diregistration'')
      | P_greenChannelOrDeliveryAuthorizedDate \<Rightarrow>
          str_includes key (str ''greenchannel'') \<or> str_includes key (str ''deliveryauthorized'')
      | P_firstTruckDelivery \<Rightarrow> str_includes key (str ''firsttruck'')
      | P_lastTruckDelivery \<Rightarrow> str_includes key (str ''lasttruck'')
      | P_nfIssueDate \<Rightarrow> str_includes key (str ''nfissue'')
      | P_di \<Rightarrow> str_includes key (str ''di'') \<and> \<not> str_includes key (str ''registration'')
                 \<and> \<not> str_includes key (str ''draft'') \<and> \<not> str_includes key (str ''cif'')
      | P_uniqueDi \<Rightarrow> str_includes key (str ''uniquedi''))"

definition isDateProperty :: "property \<Rightarrow> bool" where
  "isDateProperty p = (p \<in> {P_actualEta, P_actualEtd, P_cargoPresenceDate, P_diRegistrationDate,
       P_greenChannelOrDeliveryAuthorizedDate, P_firstTruckDelivery, P_lastTruckDelivery, P_nfIssueDate})"

definition stored :: "(cell \<Rightarrow> jsstring option) \<Rightarrow> property \<Rightarrow> cell \<Rightarrow> cell option" where
  "stored convert p v =
     (if isDateProperty p then parseDateFromExcel convert v
      else if p = P_fcl \<or> p = P_invoiceValue then Some (numberOrZero v)
      else Some v)"

definition lastFeeding :: "js_host \<Rightarrow> jsstring list \<Rightarrow> property \<Rightarrow> (jsstring \<times> nat) option" where
  "lastFeeding h headers p =
     find (\<lambda>(header, i). feeds p (headerKey h header)) (rev (zip headers [0..<length headers]))"

definition referenceCell :: "js_host \<Rightarrow> jsstring list \<Rightarrow> cell list \<Rightarrow> cell" where
  "referenceCell h headers row =
     (case lastFeeding h headers P_blAwb of None \<Rightarrow> Undefined | Some (header, i) \<Rightarrow> cellAt row i)"

text \<open>A blank cell: nothing, or the empty string.\<close>

definition blank :: "cell \<Rightarrow> bool" where
  "blank v = (v = Undefined \<or> v = CStr [])"

text \<open>
  A header key that feeds a date property, and the rows and sheets in which the
  conversion of a date throws: some column that feeds a date property holds a cell on
  which \<open>parseDateFromExcel\<close> throws.
\<close>

definition feedsDate :: "jsstring \<Rightarrow> bool" where
  "feedsDate key =
     (feeds P_actualEta key \<or> feeds P_actualEtd key \<or> feeds P_cargoPresenceDate key
      \<or> feeds P_diRegistrationDate key \<or> feeds P_greenChannelOrDeliveryAuthorizedDate key
      \<or> feeds P_firstTruckDelivery key \<or> feeds P_lastTruckDelivery key \<or> feeds P_nfIssueDate key)"

definition rowThrows :: "js_host \<Rightarrow> (cell \<Rightarrow> jsstring option) \<Rightarrow> jsstring list \<Rightarrow> cell list \<Rightarrow> bool" where
  "rowThrows h convert headers row =
     (\<exists>(header, i) \<in> set (zip headers [0..<length headers]).
        feedsDate (headerKey h header) \<and> parseDateFromExcel convert (cellAt row i) = None)"

definition uploadThrows :: "js_host \<Rightarrow> (cell \<Rightarrow> jsstring option) \<Rightarrow> jsstring list \<Rightarrow> cell list list \<Rightarrow> bool" where
  "uploadThrows h convert headers rows = (\<exists>row \<in> set rows. rowThrows h convert headers row)"

text \<open>Shipments for the examples.\<close>

definition januaryShipment :: shipment where
  "januaryShipment =
     blankShipment \<lparr> typeOfCargo := Some (str ''Battery''),
                     actualEta := Some (str ''2024-01-03''),
                     cargoPresenceDate := Some (str ''2024-01-01''),
                     diRegistrationDate := Some (str ''2024-01-03''),
                     greenChannelOrDeliveryAuthorizedDate := Some (str ''2024-01-03'') \<rparr>"

definition slowShipment :: shipment where
  "slowShipment =
     blankShipment \<lparr> typeOfCargo := Some (str ''Car''),
                     actualEta := Some (str ''2024-03-10''),
                     cargoPresenceDate := Some (str ''2024-01-01''),
                     diRegistrationDate := Some (str ''2024-01-01''),
                     greenChannelOrDeliveryAuthorizedDate := Some (str ''2024-03-10'') \<rparr>"

text \<open>A record like \<open>slowShipment\<close> that is marked as a unique DI.\<close>

definition uniqueDiShipment :: shipment where
  "uniqueDiShipment = slowShipment \<lparr> uniqueDi := Some (str ''Yes'') \<rparr>"

text \<open>
  A record with a registration date and an Incoterm and none of the dates of the
  duration metrics.
\<close>

definition registeredShipment :: shipment where
  "registeredShipment =
     blankShipment \<lparr> incoterm := Some (str ''FOB''),
                     diRegistrationDate := Some (str ''2024-01-03'') \<rparr>"

definition lclShipment :: shipment where
  "lclShipment =
     blankShipment \<lparr> shipmentType := Some (str ''LCL''), fcl := Some 7,
                     bondedWarehouse := Some (str ''Tecon Salvador''),
                     actualEta := Some (str ''2024-08-15''),
                     status := Some (str ''IN TRANSIT'') \<rparr>"

definition fclShipment :: shipment where
  "fclShipment =
     blankShipment \<lparr> shipmentType := Some (str ''FCL''),
                     bondedWarehouse := Some (str ''Tecon Salvador''),
                     actualEta := Some (str ''2024-08-15''),
                     status := Some (str ''IN TRANSIT'') \<rparr>"

text \<open>
  Two records whose warehouse is named like a member of \<open>Object.prototype\<close>: one of
  mode LCL, one of mode FCL without a container count.
\<close>

definition constructorShipment :: shipment where
  "constructorShipment = lclShipment \<lparr> bondedWarehouse := Some (str ''constructor'') \<rparr>"

definition toStringShipment :: shipment where
  "toStringShipment = fclShipment \<lparr> bondedWarehouse := Some (str ''toString'') \<rparr>"

text \<open>A spelling of the CLIA terminal in upper case, with the accented capital O (211).\<close>

definition cliaSpelling :: jsstring where
  "cliaSpelling = str ''Clia Emp'' @ [211] @ str ''RIO Log''"

definition greenDeclaration :: shipment where
  "greenDeclaration =
     blankShipment \<lparr> blAwb := str ''BL-1'', di := Some (str ''24/0012345-6''),
                     parametrization := Some (str ''Green'') \<rparr>"

definition greenDeclaration2 :: shipment where
  "greenDeclaration2 = greenDeclaration \<lparr> blAwb := str ''BL-2'' \<rparr>"

definition greenDeclaration3 :: shipment where
  "greenDeclaration3 = greenDeclaration \<lparr> blAwb := str ''BL-3'' \<rparr>"

text \<open>
  A sheet for the examples. The conversion of the examples keeps a string as it is and
  throws on a serial number beyond the range of \<open>Date\<close>.
\<close>

definition sampleConvert :: "cell \<Rightarrow> jsstring option" where
  "sampleConvert v =
     (case v of
        CStr s \<Rightarrow> Some s
      | CNum n \<Rightarrow> if n > 100025569 then None else Some (str ''2000-01-01'')
      | _ \<Rightarrow> Some [])"

definition sampleHeaders :: "jsstring list" where
  "sampleHeaders = [str ''BL/AWB'', str ''FCL'', str ''ETA'']"

text \<open>The record of a row of that sheet which fills the first cell with \<open>X1\<close>.\<close>

definition sampleRecord :: partial_shipment where
  "sampleRecord =
     (\<lambda>p. Undefined)(P_id := CStr (str ''row-0''), P_blAwb := CStr (str ''X1''),
                        P_fcl := CNum 0, P_actualEta := CStr [])"

section \<open>Verified properties\<close>

subsection \<open>Evaluation on the sample host\<close>

lemma iso_2024_01_01: "isoDateParse (str ''2024-01-01'') = Some 1704067200000"
  by code_simp

lemma iso_2024_01_03: "isoDateParse (str ''2024-01-03'') = Some 1704240000000"
  by code_simp

lemma iso_2024_03_10: "isoDateParse (str ''2024-03-10'') = Some 1710028800000"
  by code_simp

lemma iso_soon: "isoDateParse (str ''soon'') = None"
  by code_simp

lemma sampleHost_simps [simp]:
  "Date_parse sampleHost = isoDateParse"
  "Date_getFullYear sampleHost = utcFullYear"
  "Date_getMonth sampleHost = utcMonth"
  "toLowerCase sampleHost = map latin1Lower"
  "normalizeNFD sampleHost = (\<lambda>s. concat (map latin1Decompose s))"
  by (simp_all add: sampleHost_def)

lemma str_not_empty [simp]: "(str s = []) = (s = [])"
  by (simp add: str_def)

lemma empty_eq_str [simp]: "([] = str s) = (s = [])"
  by (simp add: str_def)

lemma str_eq_iff [simp]: "(str a = str b) = (a = b)"
  by (simp add: str_def inj_on_def)

subsection \<open>Day differences\<close>

lemma ceiling_days_rat: "\<lceil>rat_of_int n / 86400000\<rceil> = - (- n div 86400000)"
  using ceiling_divide_eq_div [of n 86400000, where ?'a = rat] by simp

lemma ceiling_days_real: "\<lceil>real_of_int n / 86400000\<rceil> = - (- n div 86400000)"
  using ceiling_divide_eq_div [of n 86400000, where ?'a = real] by simp

lemma calculateDaysBetween_parsed:
  assumes "a \<noteq> []" "b \<noteq> []" "Date_parse h a = Some ta" "Date_parse h b = Some tb"
  shows "calculateDaysBetween h (Some a) (Some b)
           = Some \<lceil>\<bar>real_of_int tb - real_of_int ta\<bar> / 86400000\<rceil>"
proof -
  have r: "\<bar>real_of_int tb - real_of_int ta\<bar> = real_of_int \<bar>tb - ta\<bar>" by simp
  have "calculateDaysBetween h (Some a) (Some b) = Some \<lceil>rat_of_int \<bar>tb - ta\<bar> / 86400000\<rceil>"
    using assms by (simp add: calculateDaysBetween_def del: of_int_abs of_int_diff)
  then show ?thesis
    unfolding r ceiling_days_rat ceiling_days_real .
qed

lemma calculateDaysBetween_missing:
  "\<not> truthy x \<or> \<not> truthy y \<Longrightarrow> calculateDaysBetween h x y = None"
  by (auto simp: calculateDaysBetween_def)

lemma calculateDaysBetween_unparseable:
  "Date_parse h a = None \<or> Date_parse h b = None \<Longrightarrow> calculateDaysBetween h (Some a) (Some b) = None"
  by (auto simp: calculateDaysBetween_def split: option.splits)

lemma pushDurations_clearance:
  "clearance (pushDurations h s m) = clearance m @
     (case calculateDaysBetween h (cargoPresenceDate s) (greenChannelOrDeliveryAuthorizedDate s) of
        None \<Rightarrow> [] | Some d \<Rightarrow> [d])"
  by (simp add: pushDurations_def Let_def split: option.splits)

lemma pushDurations_delivery:
  "delivery (pushDurations h s m) = delivery m @
     (case calculateDaysBetween h (greenChannelOrDeliveryAuthorizedDate s) (firstTruckDelivery s) of
        None \<Rightarrow> [] | Some d \<Rightarrow> [d])"
  by (simp add: pushDurations_def Let_def split: option.splits)

lemma pushDurations_operation:
  "operation (pushDurations h s m) = operation m @
     (case calculateDaysBetween h (actualEta s) (greenChannelOrDeliveryAuthorizedDate s) of
        None \<Rightarrow> [] | Some d \<Rightarrow> [d])"
  by (simp add: pushDurations_def Let_def split: option.splits)

lemma pushDurations_nf:
  "nf (pushDurations h s m) = nf m @
     (case calculateDaysBetween h (greenChannelOrDeliveryAuthorizedDate s) (nfIssueDate s) of
        None \<Rightarrow> [] | Some d \<Rightarrow> [d])"
  by (simp add: pushDurations_def Let_def split: option.splits)

text \<open>A step of the loop changes the accumulator of one month at most.\<close>

lemma lineChart_step_cases:
  "lineChart_step h months s = months \<or>
   (\<exists>k. lineChart_step h months s = months[k := pushDurations h s (months ! k)])"
  by (auto simp: lineChart_step_def Let_def split: option.splits)

lemma map_update_unchanged:
  assumes "f y = f (xs ! k)"
  shows "map f (xs[k := y]) = map f xs"
proof (cases "k < length xs")
  case True
  then show ?thesis using assms by (simp add: map_update list_update_same_conv)
next
  case False
  then have "xs[k := y] = xs" by (intro list_update_beyond) simp
  then show ?thesis by simp
qed

lemma lineChart_step_unchanged:
  assumes "\<And>m. f (pushDurations h s m) = f m"
  shows "map f (lineChart_step h months s) = map f months"
  using lineChart_step_cases [of h months s] assms
  by (auto simp: map_update_unchanged)

text \<open>
  Claim C3. When both strings are not empty and parse, \<open>calculateDaysBetween\<close> is the
  ceiling of the absolute difference of the two time values divided by the 86400000
  milliseconds of a day, for every difference of at most \<open>2 ^ 53\<close> milliseconds, which
  is where the code's subtraction of doubles is exact; from 2024-01-01 to 2024-01-03
  it is 2. When an argument is missing (undefined or empty) or does not parse, the
  result is null (\<open>None\<close>), in particular for an undefined start, and a shipment whose
  day difference is null adds nothing to a duration metric: the clearance times of the
  brokerage page, the four lists of the monthly line charts and the groups of the
  transit time by Incoterm.
\<close>

theorem calculateDaysBetween_ceiling_or_null:
  "(a \<noteq> [] \<and> b \<noteq> [] \<and> Date_parse h a = Some ta \<and> Date_parse h b = Some tb
      \<and> \<bar>tb - ta\<bar> \<le> 2 ^ 53 \<longrightarrow>
      calculateDaysBetween h (Some a) (Some b)
        = Some \<lceil>\<bar>real_of_int tb - real_of_int ta\<bar> / 86400000\<rceil>)
   \<and> calculateDaysBetween sampleHost (Some (str ''2024-01-01'')) (Some (str ''2024-01-03'')) = Some 2
   \<and> (\<not> truthy x \<or> \<not> truthy y \<longrightarrow> calculateDaysBetween h x y = None)
   \<and> (Date_parse h c = None \<or> Date_parse h d = None \<longrightarrow>
        calculateDaysBetween h (Some c) (Some d) = None)
   \<and> calculateDaysBetween h None (Some (str ''2024-01-03'')) = None
   \<and> (calculateDaysBetween h (cargoPresenceDate s) (greenChannelOrDeliveryAuthorizedDate s) = None \<longrightarrow>
        clearanceTimes h (xs @ s # ys) = clearanceTimes h (xs @ ys)
        \<and> map clearance (lineChart_step h months s) = map clearance months)
   \<and> (calculateDaysBetween h (greenChannelOrDeliveryAuthorizedDate s) (firstTruckDelivery s) = None \<longrightarrow>
        map delivery (lineChart_step h months s) = map delivery months)
   \<and> (calculateDaysBetween h (actualEta s) (greenChannelOrDeliveryAuthorizedDate s) = None \<longrightarrow>
        map operation (lineChart_step h months s) = map operation months)
   \<and> (calculateDaysBetween h (greenChannelOrDeliveryAuthorizedDate s) (nfIssueDate s) = None \<longrightarrow>
        map nf (lineChart_step h months s) = map nf months)
   \<and> (calculateDaysBetween h (actualEtd s) (actualEta s) = None \<longrightarrow>
        avgTimeByIncoterm_step h groups s = Some groups)"
proof (intro conjI impI)
  show "calculateDaysBetween sampleHost (Some (str ''2024-01-01'')) (Some (str ''2024-01-03'')) = Some 2"
    by (simp add: calculateDaysBetween_def iso_2024_01_01 iso_2024_01_03)
next
  assume "calculateDaysBetween h (actualEtd s) (actualEta s) = None"
  then show "avgTimeByIncoterm_step h groups s = Some groups"
    by (simp add: avgTimeByIncoterm_step_def split: option.splits)
next
  assume "calculateDaysBetween h (cargoPresenceDate s) (greenChannelOrDeliveryAuthorizedDate s) = None"
  then show "clearanceTimes h (xs @ s # ys) = clearanceTimes h (xs @ ys)"
    by (simp add: clearanceTimes_def)
qed (simp_all add: calculateDaysBetween_parsed calculateDaysBetween_missing
       calculateDaysBetween_unparseable lineChart_step_unchanged pushDurations_clearance
       pushDurations_delivery pushDurations_operation pushDurations_nf)

text \<open>
  The instance: two dates 67 days apart, an empty and an unparseable string, and a
  record that is registered in January 2024 and has the Incoterm FOB, so that both loops
  come to its day differences, which are null as all its other dates are missing.
\<close>

lemma registeredShipment_month: "registrationMonth sampleHost registeredShipment = Some 0"
  by code_simp

theorem calculateDaysBetween_ceiling_or_null_witness:
  "calculateDaysBetween sampleHost (Some (str ''2024-03-10'')) (Some (str ''2024-01-03'')) = Some 67
   \<and> calculateDaysBetween sampleHost (Some []) (Some (str ''2024-01-03'')) = None
   \<and> calculateDaysBetween sampleHost (Some (str ''soon'')) (Some (str ''2024-01-03'')) = None
   \<and> registrationMonth sampleHost registeredShipment = Some 0
   \<and> incoterm registeredShipment = Some (str ''FOB'')
   \<and> clearanceTimes sampleHost ([januaryShipment] @ registeredShipment # [])
       = clearanceTimes sampleHost ([januaryShipment] @ [])
   \<and> map clearance (lineChart_step sampleHost (replicate 12 emptyMonth) registeredShipment)
       = map clearance (replicate 12 emptyMonth)
   \<and> map delivery (lineChart_step sampleHost (replicate 12 emptyMonth) registeredShipment)
       = map delivery (replicate 12 emptyMonth)
   \<and> map operation (lineChart_step sampleHost (replicate 12 emptyMonth) registeredShipment)
       = map operation (replicate 12 emptyMonth)
   \<and> map nf (lineChart_step sampleHost (replicate 12 emptyMonth) registeredShipment)
       = map nf (replicate 12 emptyMonth)
   \<and> avgTimeByIncoterm_step sampleHost [] registeredShipment = Some []"
proof -
  have blank: "calculateDaysBetween sampleHost None None = None"
    by (simp add: calculateDaysBetween_def)
  have fields: "cargoPresenceDate registeredShipment = None"
    "greenChannelOrDeliveryAuthorizedDate registeredShipment = None"
    "firstTruckDelivery registeredShipment = None" "actualEta registeredShipment = None"
    "nfIssueDate registeredShipment = None" "actualEtd registeredShipment = None"
    "incoterm registeredShipment = Some (str ''FOB'')"
    by (simp_all add: registeredShipment_def blankShipment_def)
  have bound: "\<bar>1704240000000 - 1710028800000 :: int\<bar> \<le> 2 ^ 53"
    by simp
  show ?thesis
    using calculateDaysBetween_ceiling_or_null [of "str ''2024-03-10''" "str ''2024-01-03''" sampleHost
        1710028800000 1704240000000 "Some []" "Some (str ''2024-01-03'')" "str ''soon''"
        "str ''2024-01-03''" registeredShipment "[januaryShipment]" "[]" "replicate 12 emptyMonth" "[]"]
      bound
    by (simp add: iso_2024_03_10 iso_2024_01_03 iso_soon blank fields registeredShipment_month)
qed

subsection \<open>The dashboard filter\<close>

lemma passesFilter_char:
  "passesFilter h dateField filters s =
     ((cargo filters = [] \<or> (\<exists>c. typeOfCargo s = Some c \<and> c \<in> set (cargo filters)))
      \<and> (\<exists>d t. dateField s = Some d \<and> d \<noteq> [] \<and> Date_parse h d = Some t
            \<and> (year filters = FilterAll \<or> year filters = FilterNum (Date_getFullYear h t))
            \<and> (month filters = FilterAll \<or> month filters = FilterNum (Date_getMonth h t))))"
  by (cases "dateField s"; cases "typeOfCargo s")
     (auto simp: passesFilter_def Let_def split: option.splits)

text \<open>
  Claim C2. A record passes the dashboard filter exactly when its cargo type is in the
  cargo set (or the set is empty), its reference date is present (defined and not the
  empty string) and parses, and the year and the month of the date are those of the
  filter unless that component is \<open>All\<close>. A record whose reference date is absent or
  does not parse never passes. The transit and operation views read \<open>actualEta\<close>, the
  performance view reads \<open>diRegistrationDate\<close>.
\<close>

theorem passesFilter_iff:
  "(passesFilter h dateField filters s \<longleftrightarrow>
      (cargo filters = [] \<or> (\<exists>c. typeOfCargo s = Some c \<and> c \<in> set (cargo filters)))
      \<and> (\<exists>d t. dateField s = Some d \<and> d \<noteq> [] \<and> Date_parse h d = Some t
            \<and> (year filters = FilterAll \<or> year filters = FilterNum (Date_getFullYear h t))
            \<and> (month filters = FilterAll \<or> month filters = FilterNum (Date_getMonth h t))))
   \<and> (\<not> truthy (dateField s) \<or> (\<exists>d. dateField s = Some d \<and> Date_parse h d = None)
        \<longrightarrow> \<not> passesFilter h dateField filters s)
   \<and> CargosInTransit_filteredShipments h filters ships = filter (passesFilter h actualEta filters) ships
   \<and> OperationStatus_filteredShipments h filters ships = filter (passesFilter h actualEta filters) ships
   \<and> Performance_filteredShipments h filters ships = filter (passesFilter h diRegistrationDate filters) ships"
proof (intro conjI impI)
  assume "\<not> truthy (dateField s) \<or> (\<exists>d. dateField s = Some d \<and> Date_parse h d = None)"
  then show "\<not> passesFilter h dateField filters s"
    by (auto simp: passesFilter_char)
qed (simp_all add: passesFilter_char CargosInTransit_filteredShipments_def
       OperationStatus_filteredShipments_def Performance_filteredShipments_def)

lemma utc_2024_01_03: "utcFullYear 1704240000000 = 2024" "utcMonth 1704240000000 = 0"
  by code_simp+

lemma utc_2024_01_01: "utcFullYear 1704067200000 = 2024" "utcMonth 1704067200000 = 0"
  by code_simp+

lemma utc_2024_03_10: "utcFullYear 1710028800000 = 2024" "utcMonth 1710028800000 = 2"
  by code_simp+

theorem passesFilter_iff_witness:
  "passesFilter sampleHost actualEta \<lparr>cargo = [str ''Battery''], year = FilterNum 2024, month = FilterNum 0\<rparr>
     januaryShipment
   \<and> \<not> passesFilter sampleHost actualEta \<lparr>cargo = [str ''Battery''], year = FilterNum 2024, month = FilterNum 0\<rparr>
     blankShipment"
proof -
  let ?f = "\<lparr>cargo = [str ''Battery''], year = FilterNum 2024, month = FilterNum 0\<rparr>"
  have jan: "typeOfCargo januaryShipment = Some (str ''Battery'')"
    "actualEta januaryShipment = Some (str ''2024-01-03'')"
    by (simp_all add: januaryShipment_def blankShipment_def)
  have blank: "\<not> truthy (actualEta blankShipment)"
    by (simp add: blankShipment_def)
  show ?thesis
    using passesFilter_iff [of sampleHost actualEta ?f januaryShipment "[]"]
      passesFilter_iff [of sampleHost actualEta ?f blankShipment "[]"] blank
    by (simp add: jan iso_2024_01_03 utc_2024_01_03 blankShipment_def)
qed

subsection \<open>The monthly line charts\<close>

lemma lineChart_step_month:
  "lineChart_step h months s =
     (case registrationMonth h s of
        None \<Rightarrow> months
      | Some k \<Rightarrow> if 0 \<le> k \<and> k < 12 then months[nat k := pushDurations h s (months ! nat k)] else months)"
  by (auto simp: lineChart_step_def registrationMonth_def Let_def split: option.splits)

lemma length_lineChart_step [simp]: "length (lineChart_step h months s) = length months"
  by (simp add: lineChart_step_month split: option.splits)

lemma length_foldl_lineChart_step [simp]: "length (foldl (lineChart_step h) months ships) = length months"
  by (induction ships arbitrary: months) simp_all

lemma foldl_lineChart_step_nth:
  assumes push: "\<And>s acc. sel (pushDurations h s acc) = sel acc @ (case duration s of None \<Rightarrow> [] | Some d \<Rightarrow> [d])"
    and "m < length months" "length months \<le> 12"
  shows "sel (foldl (lineChart_step h) months ships ! m) = sel (months ! m) @ durationsOfMonth h duration ships m"
  using assms(2,3)
proof (induction ships arbitrary: months)
  case Nil
  then show ?case by (simp add: durationsOfMonth_def map_filter_simps)
next
  case (Cons s ships)
  have len: "m < length (lineChart_step h months s)" "length (lineChart_step h months s) \<le> 12"
    using Cons.prems by simp_all
  have step: "sel (lineChart_step h months s ! m) =
      sel (months ! m) @ (if registrationMonth h s = Some (int m)
                           then (case duration s of None \<Rightarrow> [] | Some d \<Rightarrow> [d]) else [])"
    using Cons.prems
    by (auto simp: lineChart_step_month push nth_list_update split: option.splits)
  show ?case
    using Cons.IH [OF len] step
    by (simp add: durationsOfMonth_def map_filter_simps split: option.splits)
qed

lemma lineChart_months_nth:
  assumes "\<And>s acc. sel (pushDurations h s acc) = sel acc @ (case duration s of None \<Rightarrow> [] | Some d \<Rightarrow> [d])"
    and "sel emptyMonth = []" "m < 12"
  shows "sel (lineChart_months h ships ! m) = durationsOfMonth h duration (shipmentsForPerf ships) m"
  using foldl_lineChart_step_nth [of sel h duration m "replicate 12 emptyMonth" "shipmentsForPerf ships"] assms
  by (simp add: lineChart_months_def)

lemma length_lineChart_months [simp]: "length (lineChart_months h ships) = 12"
  by (simp add: lineChart_months_def)

lemma foldl_plus_sum_list: "foldl (+) a xs = a + sum_list (xs :: int list)"
  by (induction xs arbitrary: a) simp_all

lemma floor_mean_half:
  fixes a :: int and n :: nat
  assumes "n > 0"
  shows "\<lfloor>(of_int a / of_nat n + 1 / 2 :: 'a::floor_ceiling)\<rfloor> = (2 * a + int n) div (2 * int n)"
proof -
  have "(of_int a / of_nat n + 1 / 2 :: 'a) = of_int (2 * a + int n) / of_int (2 * int n)"
    using assms by (simp add: field_simps)
  then show ?thesis
    by (simp only: floor_divide_of_int_eq)
qed

lemma floor_half_rat: "\<lfloor>1 / 2 :: rat\<rfloor> = 0"
  by (simp add: floor_eq_iff)

lemma Math_round_avg: "Math_round (avg ds) = meanRounded ds"
proof (cases "ds = []")
  case True
  then show ?thesis by (simp add: Math_round_def avg_def meanRounded_def floor_half_rat)
next
  case False
  then have n: "length ds > 0" by simp
  show ?thesis using False
    by (simp add: Math_round_def avg_def meanRounded_def round_def foldl_plus_sum_list
        floor_mean_half [OF n, where ?'a = rat] floor_mean_half [OF n, where ?'a = real])
qed

lemma pushDurations_days:
  "clearance (pushDurations h s m) = clearance m @ (case clearanceDays h s of None \<Rightarrow> [] | Some d \<Rightarrow> [d])"
  "delivery (pushDurations h s m) = delivery m @ (case deliveryDays h s of None \<Rightarrow> [] | Some d \<Rightarrow> [d])"
  "operation (pushDurations h s m) = operation m @ (case operationDays h s of None \<Rightarrow> [] | Some d \<Rightarrow> [d])"
  "nf (pushDurations h s m) = nf m @ (case nfDays h s of None \<Rightarrow> [] | Some d \<Rightarrow> [d])"
  by (simp_all add: pushDurations_clearance pushDurations_delivery pushDurations_operation
      pushDurations_nf clearanceDays_def deliveryDays_def operationDays_def nfDays_def)

lemma lineChartData_val:
  assumes "m < 12"
  shows "val (clearanceSeries (lineChartData h ships) ! m)
           = meanRounded (durationsOfMonth h (clearanceDays h) (shipmentsForPerf ships) m)"
    and "val (deliverySeries (lineChartData h ships) ! m)
           = meanRounded (durationsOfMonth h (deliveryDays h) (shipmentsForPerf ships) m)"
    and "val (operationSeries (lineChartData h ships) ! m)
           = meanRounded (durationsOfMonth h (operationDays h) (shipmentsForPerf ships) m)"
    and "val (nfSeries (lineChartData h ships) ! m)
           = meanRounded (durationsOfMonth h (nfDays h) (shipmentsForPerf ships) m)"
  using assms
  by (simp_all add: lineChartData_def Let_def Math_round_avg emptyMonth_def
      lineChart_months_nth [where duration = "clearanceDays h", OF pushDurations_days(1)]
      lineChart_months_nth [where duration = "deliveryDays h", OF pushDurations_days(2)]
      lineChart_months_nth [where duration = "operationDays h", OF pushDurations_days(3)]
      lineChart_months_nth [where duration = "nfDays h", OF pushDurations_days(4)])

lemma example_durations:
  "durationsOfMonth sampleHost (clearanceDays sampleHost) [januaryShipment, uniqueDiShipment] 0 = [2, 69]"
  "durationsOfMonth sampleHost (clearanceDays sampleHost)
     (filter (\<lambda>s. uniqueDi s \<noteq> Some (str ''Yes'')) [januaryShipment, uniqueDiShipment]) 0 = [2]"
  "durationsOfMonth sampleHost (clearanceDays sampleHost)
     (filter (\<lambda>s. uniqueDi s \<noteq> Some (str ''Yes'')) [januaryShipment, uniqueDiShipment, slowShipment]) 0 = [2, 69]"
  "durationsOfMonth sampleHost (clearanceDays sampleHost)
     (filter (\<lambda>s. uniqueDi s \<noteq> Some (str ''Yes'')) [januaryShipment, uniqueDiShipment, slowShipment]) 5 = []"
  by code_simp+

lemma example_means: "meanRounded [2, 69] = 36" "meanRounded [2] = 2" "meanRounded [] = 0"
  by (simp_all add: meanRounded_def round_def)

text \<open>
  Claim C4 reads the entry of a month as the rounded mean over the records that are
  registered in that month and have a day difference. The code leaves out the records
  marked as a unique DI before it fills the months: with a record of January whose
  clearance took 2 days and a record of January marked \<open>uniqueDi = 'Yes'\<close> whose
  clearance took 69 days, the day differences of the month are 2 and 69, with the
  rounded mean 36, and the entry of the series is 2.
\<close>

theorem lineChartData_uniqueDi_counterexample:
  "uniqueDi uniqueDiShipment = Some (str ''Yes'')
   \<and> durationsOfMonth sampleHost (clearanceDays sampleHost) [januaryShipment, uniqueDiShipment] 0 = [2, 69]
   \<and> meanRounded [2, 69] = 36
   \<and> val (clearanceSeries (lineChartData sampleHost [januaryShipment, uniqueDiShipment]) ! 0) = 2"
proof -
  have lt: "(0::nat) < 12" by simp
  have u: "uniqueDi uniqueDiShipment = Some (str ''Yes'')"
    by (simp add: uniqueDiShipment_def)
  have v: "val (clearanceSeries (lineChartData sampleHost [januaryShipment, uniqueDiShipment]) ! 0) = 2"
    unfolding lineChartData_val(1) [OF lt] shipmentsForPerf_def example_durations example_means ..
  show ?thesis
    unfolding example_durations example_means using u v by simp
qed

text \<open>
  Claim C4, as amended. Whatever the shipments, each of the four monthly series
  (clearance, delivery, operation and NF issue time) has exactly 12 entries, one per
  calendar month 0 to 11. The entry of a month is the arithmetic mean, rounded to the
  nearest integer, of the day differences that the records of that month contribute,
  and it is exactly 0 when no record contributes. The records of a month are those
  whose DI registration date lies in it and whose \<open>uniqueDi\<close> is not \<open>'Yes'\<close>; such a
  record contributes to a series when its day difference for that series is not null.
\<close>

theorem lineChartData_monthly_mean:
  "length (clearanceSeries (lineChartData h ships)) = 12
   \<and> length (deliverySeries (lineChartData h ships)) = 12
   \<and> length (operationSeries (lineChartData h ships)) = 12
   \<and> length (nfSeries (lineChartData h ships)) = 12
   \<and> (\<forall>m < 12.
        val (clearanceSeries (lineChartData h ships) ! m)
          = meanRounded (durationsOfMonth h (clearanceDays h)
                           (filter (\<lambda>s. uniqueDi s \<noteq> Some (str ''Yes'')) ships) m)
        \<and> val (deliverySeries (lineChartData h ships) ! m)
          = meanRounded (durationsOfMonth h (deliveryDays h)
                           (filter (\<lambda>s. uniqueDi s \<noteq> Some (str ''Yes'')) ships) m)
        \<and> val (operationSeries (lineChartData h ships) ! m)
          = meanRounded (durationsOfMonth h (operationDays h)
                           (filter (\<lambda>s. uniqueDi s \<noteq> Some (str ''Yes'')) ships) m)
        \<and> val (nfSeries (lineChartData h ships) ! m)
          = meanRounded (durationsOfMonth h (nfDays h)
                           (filter (\<lambda>s. uniqueDi s \<noteq> Some (str ''Yes'')) ships) m))
   \<and> meanRounded [] = 0
   \<and> (ds \<noteq> [] \<longrightarrow> meanRounded ds = round (real_of_int (sum_list ds) / real (length ds)))"
  by (simp add: lineChartData_val shipmentsForPerf_def) (simp add: lineChartData_def Let_def meanRounded_def)

theorem lineChartData_monthly_mean_witness:
  "val (clearanceSeries (lineChartData sampleHost [januaryShipment, uniqueDiShipment, slowShipment]) ! 0) = 36
   \<and> val (clearanceSeries (lineChartData sampleHost [januaryShipment, uniqueDiShipment, slowShipment]) ! 5) = 0
   \<and> meanRounded [2, 69] = round (real_of_int (sum_list [2, 69]) / real (length [2, 69 :: int]))"
proof -
  have series: "\<forall>m < 12.
      val (clearanceSeries (lineChartData sampleHost [januaryShipment, uniqueDiShipment, slowShipment]) ! m)
        = meanRounded (durationsOfMonth sampleHost (clearanceDays sampleHost)
            (filter (\<lambda>s. uniqueDi s \<noteq> Some (str ''Yes'')) [januaryShipment, uniqueDiShipment, slowShipment]) m)"
    and mean: "[2, 69] \<noteq> [] \<longrightarrow>
      meanRounded [2, 69] = round (real_of_int (sum_list [2, 69]) / real (length [2, 69 :: int]))"
    using lineChartData_monthly_mean [of sampleHost "[januaryShipment, uniqueDiShipment, slowShipment]" "[2, 69]"]
    by blast+
  have lt: "(0::nat) < 12" "(5::nat) < 12" by simp_all
  have "val (clearanceSeries (lineChartData sampleHost [januaryShipment, uniqueDiShipment, slowShipment]) ! 0) = 36"
    unfolding series [rule_format, OF lt(1)] example_durations example_means ..
  moreover
  have "val (clearanceSeries (lineChartData sampleHost [januaryShipment, uniqueDiShipment, slowShipment]) ! 5) = 0"
    unfolding series [rule_format, OF lt(2)] example_durations example_means ..
  ultimately show ?thesis using mean by simp
qed

subsection \<open>Groupings by status\<close>

lemma hasOwnProperty_iff: "hasOwnProperty obj k = (k \<in> set (map fst obj))"
  by (simp add: hasOwnProperty_def map_of_eq_None_iff)

lemma map_fst_modifyKey [simp]: "map fst (modifyKey k f obj) = map fst obj"
  by (induction obj) (auto simp: modifyKey_def)

lemma statusByBLs_step_map:
  "statusByBLs_step groups s =
     map (\<lambda>(l, ships). (l, ships @ (if statusGroupOf (map fst groups) s = Some l then [s] else []))) groups"
proof (cases "status s")
  case None
  then show ?thesis by (simp add: statusByBLs_step_def statusGroupOf_def case_prod_beta)
next
  case (Some st)
  then show ?thesis
    by (auto simp: statusByBLs_step_def statusGroupOf_def hasOwnProperty_iff modifyKey_def case_prod_beta
        intro!: map_idI[symmetric])
qed

lemma foldl_statusByBLs_step:
  "foldl statusByBLs_step groups ships =
     map (\<lambda>(l, xs). (l, xs @ filter (\<lambda>s. statusGroupOf (map fst groups) s = Some l) ships)) groups"
proof (induction ships arbitrary: groups)
  case Nil
  then show ?case by (simp add: case_prod_beta)
next
  case (Cons s ships)
  show ?case
    by (simp add: Cons.IH) (simp add: statusByBLs_step_map case_prod_beta comp_def)
qed

lemma statusByBLsData_closed:
  "statusByBLsData ships =
     map (\<lambda>l. \<lparr>val = length (filter (\<lambda>s. statusGroupOf statusGroups4 s = Some l) ships),
                shipments = filter (\<lambda>s. statusGroupOf statusGroups4 s = Some l) ships,
                label = l\<rparr>) statusGroups4"
  by (simp add: statusByBLsData_def foldl_statusByBLs_step statusGroups4_def)

lemma recognized_group: "recognizedStatus s = (statusGroupOf statusGroups4 s \<noteq> None)"
  by (auto simp: recognizedStatus_def statusGroupOf_def statusGroups4_def split: option.splits)

lemma group_in_statusGroups4: "statusGroupOf statusGroups4 s = Some l \<Longrightarrow> l \<in> set statusGroups4"
  by (auto simp: statusGroupOf_def statusGroups4_def split: option.splits if_splits)

lemma count_groups4:
  "(\<Sum>l\<leftarrow>statusGroups4. length (filter (\<lambda>s. statusGroupOf statusGroups4 s = Some l) ships))
     = length (filter recognizedStatus ships)"
proof (induction ships)
  case Nil
  then show ?case by (simp add: statusGroups4_def)
next
  case (Cons s ships)
  have one: "(\<Sum>l\<leftarrow>statusGroups4. if statusGroupOf statusGroups4 s = Some l then 1 else 0)
               = (if recognizedStatus s then 1 else (0::nat))"
    using group_in_statusGroups4 [of s]
    by (cases "statusGroupOf statusGroups4 s") (auto simp: recognized_group statusGroups4_def)
  have "(\<Sum>l\<leftarrow>statusGroups4. length (filter (\<lambda>s. statusGroupOf statusGroups4 s = Some l) (s # ships)))
        = (\<Sum>l\<leftarrow>statusGroups4. if statusGroupOf statusGroups4 s = Some l then 1 else 0)
          + (\<Sum>l\<leftarrow>statusGroups4. length (filter (\<lambda>s. statusGroupOf statusGroups4 s = Some l) ships))"
    by (simp add: statusGroups4_def)
  then show ?case using Cons.IH one by simp
qed

lemma statusGroupOf4_cases:
  "(statusGroupOf statusGroups4 s = Some (str ''IN TRANSIT'')) = (status s = Some (str ''IN TRANSIT''))"
  "(statusGroupOf statusGroups4 s = Some (str ''AT THE PORT''))
     = (status s = Some (str ''AT THE PORT'') \<or> status s = Some (str ''CARGO READY''))"
  "(statusGroupOf statusGroups4 s = Some (str ''DI REGISTERED'')) = (status s = Some (str ''DI REGISTERED''))"
  "(statusGroupOf statusGroups4 s = Some (str ''CARGO CLEARED'')) = (status s = Some (str ''CARGO CLEARED''))"
  by (auto simp: statusGroupOf_def statusGroups4_def split: option.splits)

text \<open>
  Claim C1. For any shipments and any filter, the grouping \<open>Shipment Status (by BLs)\<close>
  has the four groups IN TRANSIT, AT THE PORT, DI REGISTERED and CARGO CLEARED, and the
  sum of their counts is the number of filtered records whose status is recognized. The
  count of a group is the number of records with that status, where the records with
  status CARGO READY are counted in AT THE PORT, and a record whose status is not
  recognized or absent changes no group.
\<close>

theorem statusByBLs_counts_recognized:
  "map label (statusByBLsData (OperationStatus_filteredShipments h filters ships)) = statusGroups4
   \<and> sum_list (map val (statusByBLsData (OperationStatus_filteredShipments h filters ships)))
       = length (filter recognizedStatus (OperationStatus_filteredShipments h filters ships))
   \<and> map val (statusByBLsData fs)
       = [length (filter (\<lambda>s. status s = Some (str ''IN TRANSIT'')) fs),
          length (filter (\<lambda>s. status s = Some (str ''AT THE PORT'') \<or> status s = Some (str ''CARGO READY'')) fs),
          length (filter (\<lambda>s. status s = Some (str ''DI REGISTERED'')) fs),
          length (filter (\<lambda>s. status s = Some (str ''CARGO CLEARED'')) fs)]
   \<and> (\<not> recognizedStatus s \<longrightarrow> statusByBLsData (xs @ s # ys) = statusByBLsData (xs @ ys))"
proof (intro conjI impI)
  show "map label (statusByBLsData (OperationStatus_filteredShipments h filters ships)) = statusGroups4"
    by (simp add: statusByBLsData_closed comp_def)
  show "sum_list (map val (statusByBLsData (OperationStatus_filteredShipments h filters ships)))
       = length (filter recognizedStatus (OperationStatus_filteredShipments h filters ships))"
    by (simp add: statusByBLsData_closed comp_def count_groups4)
  show "map val (statusByBLsData fs)
       = [length (filter (\<lambda>s. status s = Some (str ''IN TRANSIT'')) fs),
          length (filter (\<lambda>s. status s = Some (str ''AT THE PORT'') \<or> status s = Some (str ''CARGO READY'')) fs),
          length (filter (\<lambda>s. status s = Some (str ''DI REGISTERED'')) fs),
          length (filter (\<lambda>s. status s = Some (str ''CARGO CLEARED'')) fs)]"
    unfolding statusByBLsData_closed
    by (simp add: statusGroups4_def) (simp add: statusGroupOf4_cases flip: statusGroups4_def)
  assume "\<not> recognizedStatus s"
  then have "statusGroupOf statusGroups4 s = None"
    by (simp add: recognized_group)
  then show "statusByBLsData (xs @ s # ys) = statusByBLsData (xs @ ys)"
    by (simp add: statusByBLsData_closed)
qed

theorem statusByBLs_counts_recognized_witness:
  "map val (statusByBLsData [blankShipment\<lparr>status := Some (str ''CARGO READY'')\<rparr>,
                             blankShipment\<lparr>status := Some (str ''VAZIAS'')\<rparr>,
                             blankShipment\<lparr>status := Some (str ''IN TRANSIT'')\<rparr>]) = [1, 1, 0, 0]
   \<and> statusByBLsData ([] @ blankShipment\<lparr>status := Some (str ''VAZIAS'')\<rparr> # []) = statusByBLsData ([] @ [])"
proof -
  have "\<not> recognizedStatus (blankShipment\<lparr>status := Some (str ''VAZIAS'')\<rparr>)"
    by (simp add: recognizedStatus_def)
  then show ?thesis
    using statusByBLs_counts_recognized
      [where s = "blankShipment\<lparr>status := Some (str ''VAZIAS'')\<rparr>" and xs = "[]" and ys = "[]"
         and fs = "[blankShipment\<lparr>status := Some (str ''CARGO READY'')\<rparr>,
                    blankShipment\<lparr>status := Some (str ''VAZIAS'')\<rparr>,
                    blankShipment\<lparr>status := Some (str ''IN TRANSIT'')\<rparr>]"]
    by simp
qed

subsection \<open>Container counts\<close>

lemma statusByContainers_step_map:
  "statusByContainers_step groups s =
     map (\<lambda>(l, ships, count).
            (l, ships @ (if statusGroupOf (map fst groups) s = Some l then [s] else []),
                count + (if statusGroupOf (map fst groups) s = Some l then containerCount s else 0))) groups"
proof (cases "status s")
  case None
  then show ?thesis by (simp add: statusByContainers_step_def statusGroupOf_def case_prod_beta)
next
  case (Some st)
  then show ?thesis
    by (auto simp: statusByContainers_step_def statusGroupOf_def hasOwnProperty_iff modifyKey_def case_prod_beta
        intro!: map_idI[symmetric])
qed

lemma foldl_statusByContainers_step:
  "foldl statusByContainers_step groups ships =
     map (\<lambda>(l, xs, count).
            (l, xs @ filter (\<lambda>s. statusGroupOf (map fst groups) s = Some l) ships,
                count + sum_list (map containerCount (filter (\<lambda>s. statusGroupOf (map fst groups) s = Some l) ships))))
       groups"
proof (induction ships arbitrary: groups)
  case Nil
  then show ?case by (simp add: case_prod_beta)
next
  case (Cons s ships)
  show ?case
    by (simp add: Cons.IH) (simp add: statusByContainers_step_map case_prod_beta comp_def)
qed

lemma statusByContainersData_closed:
  "statusByContainersData ships =
     map (\<lambda>l. \<lparr>val = Math_round (sum_list (map containerCount (filter (\<lambda>s. statusGroupOf statusGroups4 s = Some l) ships))),
                shipments = filter (\<lambda>s. statusGroupOf statusGroups4 s = Some l) ships,
                label = l\<rparr>) statusGroups4"
  by (simp add: statusByContainersData_def statusByContainers_result_def foldl_statusByContainers_step statusGroups4_def)

lemma statusByContainersData_delivered_closed:
  "statusByContainersData_delivered ships =
     map (\<lambda>l. \<lparr>val = Math_round (sum_list (map containerCount (filter (\<lambda>s. statusGroupOf statusGroups5 s = Some l) ships))),
                shipments = filter (\<lambda>s. statusGroupOf statusGroups5 s = Some l) ships,
                label = l\<rparr>) statusGroups5"
  by (simp add: statusByContainersData_delivered_def statusByContainers_result_def foldl_statusByContainers_step statusGroups5_def)

lemma bucketValue_map:
  "bucketValue (map (\<lambda>l. \<lparr>val = f l, shipments = g l, label = l\<rparr>) keys) k = (if k \<in> set keys then f k else 0)"
  by (induction keys) (auto simp: bucketValue_def)

lemma Math_round_add_one: "Math_round (x + 1) = Math_round x + 1"
proof -
  have "x + 1 + 1 / 2 = (x + 1 / 2) + 1" by simp
  then show ?thesis unfolding Math_round_def by (simp only: one_add_floor)
qed

lemma Math_round_of_int [simp]: "Math_round (of_int n) = n"
  by (simp add: Math_round_def floor_eq_iff)

lemma Math_round_insert_one: "Math_round (a + (1 + b)) = Math_round (a + b) + 1"
proof -
  have "a + (1 + b) = (a + b) + 1" by simp
  then show ?thesis by (simp only: Math_round_add_one)
qed

lemma group_in_statusGroups5: "statusGroupOf statusGroups5 s = Some l \<Longrightarrow> l \<in> set statusGroups5"
  by (auto simp: statusGroupOf_def statusGroups5_def split: option.splits if_splits)

text \<open>Loops whose body may throw.\<close>

lemma forEach_append:
  "forEach f st (xs @ ys) = (case forEach f st xs of None \<Rightarrow> None | Some st' \<Rightarrow> forEach f st' ys)"
  by (induction xs arbitrary: st) (simp_all split: option.splits)

lemma forEach_None_iff:
  assumes "\<And>st x. Inv st \<Longrightarrow> (f st x = None) = bad x"
    and "\<And>st x st'. Inv st \<Longrightarrow> f st x = Some st' \<Longrightarrow> Inv st'"
    and "Inv st"
  shows "(forEach f st xs = None) = (\<exists>x \<in> set xs. bad x)"
  using assms(3)
proof (induction xs arbitrary: st)
  case Nil
  then show ?case by simp
next
  case (Cons x xs)
  show ?case
  proof (cases "f st x")
    case None
    then show ?thesis using assms(1) [OF Cons.prems, of x] by simp
  next
    case (Some st')
    then have "\<not> bad x" using assms(1) [OF Cons.prems, of x] by simp
    then show ?thesis using Some Cons.IH [OF assms(2) [OF Cons.prems Some]] by simp
  qed
qed

lemma forEach_invariant:
  assumes "\<And>st x st'. Inv st \<Longrightarrow> f st x = Some st' \<Longrightarrow> Inv st'"
    and "Inv st" "forEach f st xs = Some st'"
  shows "Inv st'"
  using assms(2,3)
proof (induction xs arbitrary: st)
  case Nil
  then show ?case by simp
next
  case (Cons x xs)
  then show ?case
    by (auto split: option.splits dest: assms(1))
qed

text \<open>Objects with dynamic keys.\<close>

lemma map_of_modifyKey:
  "map_of (modifyKey k f obj) l = (if l = k then map_option f (map_of obj l) else map_of obj l)"
  by (induction obj) (auto simp: modifyKey_def)

lemma map_of_ensureKey:
  "map_of (ensureKey k v obj) l =
     (if l = k \<and> map_of obj k = None \<and> \<not> inheritedMember k then Some v else map_of obj l)"
  by (auto simp: ensureKey_def map_add_def split: option.splits)

lemma distinct_ensureKey: "distinct (map fst obj) \<Longrightarrow> distinct (map fst (ensureKey k v obj))"
  by (auto simp: ensureKey_def map_of_eq_None_iff)

lemma not_inherited_examples:
  "\<not> inheritedMember (str ''N/A'')" "\<not> inheritedMember (str ''TECON'')"
  "inheritedMember (str ''constructor'')" "inheritedMember (str ''toString'')"
  by (simp_all add: inheritedMember_def objectPrototypeMembers_def)

text \<open>
  The object \<open>warehouses\<close> never has an own key that names an inherited member, and
  its keys are distinct. So a step of the loop throws exactly for a warehouse named
  like an inherited member, and otherwise adds the count of the shipment to the total
  of its warehouse.
\<close>

lemma ownKeys_inherited: "ownKeys obj \<Longrightarrow> inheritedMember k \<Longrightarrow> map_of obj k = None"
  by (auto simp: ownKeys_def map_of_eq_None_iff)

lemma ownKeys_ensureKey: "ownKeys obj \<Longrightarrow> ownKeys (ensureKey k v obj)"
  by (auto simp: ownKeys_def ensureKey_def map_of_eq_None_iff)

lemma ownKeys_modifyKey [simp]: "ownKeys (modifyKey k f obj) = ownKeys obj"
  by (simp add: ownKeys_def)

lemma ownKeys_empty [simp]: "ownKeys []"
  by (simp add: ownKeys_def)

lemma hasOwnProperty_ensureKey:
  "hasOwnProperty (ensureKey k v obj) k = (map_of obj k \<noteq> None \<or> \<not> inheritedMember k)"
  by (simp add: hasOwnProperty_def map_of_ensureKey)

lemma warehouse_step_None:
  assumes "ownKeys warehouses"
  shows "(containerVolumeByWarehouse_step h warehouses s = None)
           = inheritedMember (normalizeTerminalName h (bondedWarehouse s))"
  using ownKeys_inherited [OF assms] not_inherited_examples(1)
  by (auto simp: containerVolumeByWarehouse_step_def Let_def hasOwnProperty_ensureKey)

lemma warehouse_step_ownKeys:
  assumes "ownKeys warehouses" "containerVolumeByWarehouse_step h warehouses s = Some warehouses'"
  shows "ownKeys warehouses'"
  using assms ownKeys_ensureKey [OF assms(1)]
  by (auto simp: containerVolumeByWarehouse_step_def Let_def split: if_splits)

lemma warehouse_step_total:
  assumes "containerVolumeByWarehouse_step h warehouses s = Some warehouses'"
  shows "totalOf warehouses' k =
     totalOf warehouses k +
       (if normalizeTerminalName h (bondedWarehouse s) = k \<and> k \<noteq> str ''N/A'' then containerCount s else 0)"
  using assms
  by (auto simp: containerVolumeByWarehouse_step_def Let_def totalOf_def map_of_modifyKey map_of_ensureKey
      hasOwnProperty_def split: option.splits if_splits)

lemma warehouse_loop_None:
  "(forEach (containerVolumeByWarehouse_step h) [] ships = None)
     = (\<exists>s \<in> set ships. inheritedMember (normalizeTerminalName h (bondedWarehouse s)))"
  by (rule forEach_None_iff [where Inv = ownKeys])
     (simp_all add: warehouse_step_None warehouse_step_ownKeys)

lemma warehouse_loop_ownKeys:
  "forEach (containerVolumeByWarehouse_step h) [] ships = Some warehouses \<Longrightarrow> ownKeys warehouses"
  by (rule forEach_invariant [where Inv = ownKeys and st = "[]" and f = "containerVolumeByWarehouse_step h" and xs = ships])
     (simp_all add: warehouse_step_ownKeys)

lemma warehouse_loop_total:
  "forEach (containerVolumeByWarehouse_step h) warehouses ships = Some warehouses' \<Longrightarrow>
   totalOf warehouses' k =
     totalOf warehouses k +
       sum_list (map containerCount
         (filter (\<lambda>s. normalizeTerminalName h (bondedWarehouse s) = k \<and> k \<noteq> str ''N/A'') ships))"
proof (induction ships arbitrary: warehouses)
  case Nil
  then show ?case by simp
next
  case (Cons s ships)
  then obtain w where w: "containerVolumeByWarehouse_step h warehouses s = Some w"
    and rest: "forEach (containerVolumeByWarehouse_step h) w ships = Some warehouses'"
    by (auto split: option.splits)
  show ?case
    using Cons.IH [OF rest] warehouse_step_total [OF w, of k] by simp
qed

lemma set_Object_entries [simp]: "set (Object_entries obj) = set obj"
  by (auto simp: Object_entries_def)

lemma distinct_Object_entries:
  assumes "distinct (map fst obj)"
  shows "distinct (map fst (Object_entries obj))"
  using assms by (auto simp: distinct_map Object_entries_def inj_on_def)

lemma map_of_Object_entries:
  assumes "distinct (map fst obj)"
  shows "map_of (Object_entries obj) = map_of obj"
  using assms distinct_Object_entries [OF assms]
  by (simp add: map_of_inject_set)

lemma bucketValue_totalOf:
  "bucketValue (map (\<lambda>(l, ships, total). \<lparr>val = total, shipments = ships, label = l\<rparr>) obj) k = totalOf obj k"
  by (induction obj) (auto simp: bucketValue_def totalOf_def)

lemma bucketValue_entries:
  assumes "distinct (map fst obj)"
  shows "bucketValue (map (\<lambda>(l, ships, total). \<lparr>val = total, shipments = ships, label = l\<rparr>)
                        (Object_entries obj)) k = totalOf obj k"
  by (simp add: bucketValue_totalOf totalOf_def map_of_Object_entries [OF assms])

text \<open>
  The container volume by warehouse in closed form: it throws exactly when some
  shipment has a warehouse named like an inherited member, and otherwise the value
  under a warehouse is the sum of the counts of its shipments.
\<close>

lemma containerVolumeByWarehouse_throws:
  "(containerVolumeByWarehouseData h ships = None)
     = (\<exists>s \<in> set ships. inheritedMember (normalizeTerminalName h (bondedWarehouse s)))"
  by (simp add: containerVolumeByWarehouseData_def warehouse_loop_None)

lemma containerVolumeByWarehouse_value:
  assumes "containerVolumeByWarehouseData h ships = Some buckets"
  shows "bucketValue buckets k =
     sum_list (map containerCount
       (filter (\<lambda>s. normalizeTerminalName h (bondedWarehouse s) = k \<and> k \<noteq> str ''N/A'') ships))"
proof -
  from assms obtain warehouses where w: "forEach (containerVolumeByWarehouse_step h) [] ships = Some warehouses"
    and b: "buckets = map (\<lambda>(l, ships, total). \<lparr>val = total, shipments = ships, label = l\<rparr>)
                        (Object_entries warehouses)"
    by (auto simp: containerVolumeByWarehouseData_def)
  have "distinct (map fst warehouses)"
    using warehouse_loop_ownKeys [OF w] by (simp add: ownKeys_def)
  then show ?thesis
    using warehouse_loop_total [OF w, of k] by (simp add: b bucketValue_entries totalOf_def)
qed

text \<open>The cargo volume per terminal and month.\<close>

lemma cargoVolume_step_zero:
  "containerVolume s \<le> 0 \<Longrightarrow> map_option fst (cargoVolume_step h (months, ts) s) = Some months"
  by (auto simp: cargoVolume_step_def Let_def split: option.splits)

lemma cargoVolume_step_fst_indep:
  "map_option fst (cargoVolume_step h (months, ts) s) = map_option fst (cargoVolume_step h (months, ts') s)"
  by (auto simp: cargoVolume_step_def Let_def split: option.splits)

lemma cargoVolume_loop_fst_indep:
  "map_option fst (forEach (cargoVolume_step h) (months, ts) ships)
     = map_option fst (forEach (cargoVolume_step h) (months, ts') ships)"
proof (induction ships arbitrary: months ts ts')
  case Nil
  then show ?case by simp
next
  case (Cons s ships)
  show ?case
  proof (cases "cargoVolume_step h (months, ts) s")
    case None
    then have "cargoVolume_step h (months, ts') s = None"
      using cargoVolume_step_fst_indep [of h months ts s ts'] by simp
    with None show ?thesis by simp
  next
    case (Some st)
    obtain m1 t1 where st: "st = (m1, t1)" by (cases st)
    from Some st obtain t2 where "cargoVolume_step h (months, ts') s = Some (m1, t2)"
      using cargoVolume_step_fst_indep [of h months ts s ts'] by (cases "cargoVolume_step h (months, ts') s") auto
    with Some st show ?thesis using Cons.IH [of m1 t1 t2] by simp
  qed
qed

lemma cargoVolumeTable_skip:
  assumes "containerVolume s \<le> 0"
  shows "cargoVolumeTable h (xs @ s # ys) = cargoVolumeTable h (xs @ ys)"
proof -
  let ?init = "(map (\<lambda>m. (m, [])) monthLabels, [])"
  show ?thesis
  proof (cases "forEach (cargoVolume_step h) ?init xs")
    case None
    then show ?thesis by (simp add: cargoVolumeTable_def forEach_append)
  next
    case (Some st)
    obtain m1 t1 where st: "st = (m1, t1)" by (cases st)
    obtain t2 where "cargoVolume_step h (m1, t1) s = Some (m1, t2)"
      using cargoVolume_step_zero [OF assms, of h m1 t1]
      by (cases "cargoVolume_step h (m1, t1) s") auto
    then show ?thesis
      using Some st cargoVolume_loop_fst_indep [of h m1 t2 ys t1]
      by (simp add: cargoVolumeTable_def forEach_append)
  qed
qed

lemma length_modifyKey [simp]: "length (modifyKey k f obj) = length obj"
  by (simp add: modifyKey_def)

lemma set_modifyKey: "(l, v) \<in> set (modifyKey k f obj) \<Longrightarrow> \<exists>v0. (l, v0) \<in> set obj \<and> (v = v0 \<or> (l = k \<and> v = f v0))"
  by (auto simp: modifyKey_def split: if_splits)

lemma table_inv_step:
  assumes "table_inv st" "cargoVolume_step h st s = Some st'"
  shows "table_inv st'"
proof -
  obtain months ts where st: "st = (months, ts)" by (cases st)
  have inv: "length months = 6" "\<And>name m t. (name, m) \<in> set months \<Longrightarrow> map_of m t \<noteq> None \<Longrightarrow> t \<in> set ts"
    using assms(1) st by (auto simp: table_inv_def)
  from assms(2) st consider "st' = st"
    | "st' = (months, if normalizeTerminalName h (bondedWarehouse s) \<in> set ts then ts else ts @ [normalizeTerminalName h (bondedWarehouse s)])"
    | k where "st' = (modifyKey k (\<lambda>m. modifyKey (normalizeTerminalName h (bondedWarehouse s))
                                                  (\<lambda>(volume, ships). (volume + containerVolume s, ships @ [s]))
                                                  (ensureKey (normalizeTerminalName h (bondedWarehouse s)) (0, []) m))
                                           months, if normalizeTerminalName h (bondedWarehouse s) \<in> set ts then ts else ts @ [normalizeTerminalName h (bondedWarehouse s)])"
    by (auto simp: cargoVolume_step_def Let_def split: option.splits if_splits)
  then show ?thesis
  proof cases
    case 1
    then show ?thesis using assms(1) by simp
  next
    case 2
    then show ?thesis using inv by (auto simp: table_inv_def)
  next
    case 3
    show ?thesis
      unfolding 3 table_inv_def
      using inv
      by (auto dest!: set_modifyKey simp: map_of_modifyKey map_of_ensureKey split: if_splits)
  qed
qed

lemma table_inv_loop:
  "table_inv st \<Longrightarrow> forEach (cargoVolume_step h) st ships = Some st' \<Longrightarrow> table_inv st'"
  by (rule forEach_invariant [where Inv = table_inv]) (auto dest: table_inv_step)

lemma table_inv_init: "table_inv (map (\<lambda>m. (m, [])) monthLabels, [])"
  by (simp add: table_inv_def monthLabels_def)

lemma find_dataset:
  "find (\<lambda>d. terminal_label d = t) (map (\<lambda>terminal. \<lparr>terminal_label = terminal, data = f terminal, terminal_of_month = g terminal, month_shipments = k terminal\<rparr>) ts)
     = (if t \<in> set ts then Some \<lparr>terminal_label = t, data = f t, terminal_of_month = g t, month_shipments = k t\<rparr> else None)"
  by (induction ts) auto

lemma volumeRow_datasets:
  assumes "table_inv (months, ts)"
  shows "volumeRow (cargoVolume_datasets (months, ts)) t = map (\<lambda>(name, m). volumeOf m t) months"
proof (cases "t \<in> set ts")
  case True
  then show ?thesis by (simp add: volumeRow_def cargoVolume_datasets_def find_dataset)
next
  case False
  then have "\<And>name m. (name, m) \<in> set months \<Longrightarrow> volumeOf m t = 0"
    using assms by (auto simp: table_inv_def volumeOf_def split: option.splits)
  then have "map (\<lambda>(name, m). volumeOf m t) months = map (\<lambda>x. 0) months"
    by (intro map_cong) auto
  then have "map (\<lambda>(name, m). volumeOf m t) months = replicate (length months) 0"
    by (simp only: map_replicate_const)
  then show ?thesis using False assms
    by (simp add: volumeRow_def cargoVolume_datasets_def find_dataset table_inv_def)
qed

lemma cargoVolumeDataStack_rows:
  "map_option (\<lambda>dss. volumeRow dss t) (cargoVolumeDataStack h ships)
     = map_option (map (\<lambda>(name, m). volumeOf m t)) (cargoVolumeTable h ships)"
proof (cases "forEach (cargoVolume_step h) (map (\<lambda>m. (m, [])) monthLabels, []) ships")
  case None
  then show ?thesis by (simp add: cargoVolumeDataStack_def cargoVolumeTable_def)
next
  case (Some st)
  obtain months ts where st: "st = (months, ts)" by (cases st)
  have "table_inv (months, ts)"
    using table_inv_loop [OF table_inv_init Some] st by simp
  then show ?thesis using Some st
    by (simp add: cargoVolumeDataStack_def cargoVolumeTable_def volumeRow_datasets)
qed

lemma cargoVolume_rows_skip:
  assumes "containerVolume s \<le> 0"
  shows "map_option (\<lambda>dss. volumeRow dss t) (cargoVolumeDataStack h (xs @ s # ys))
           = map_option (\<lambda>dss. volumeRow dss t) (cargoVolumeDataStack h (xs @ ys))"
  by (simp add: cargoVolumeDataStack_rows cargoVolumeTable_skip [OF assms])

text \<open>
  A record whose shipment mode is neither FCL nor FCL/LCL (LCL for one) counts 0
  containers, whatever its \<open>fcl\<close>. With or without such a record, anywhere in the
  sequence, the values of status-by-containers and of the cargo volume per terminal and
  month are the same, and so are the values of the container volume by warehouse when
  the warehouse of the record is not named like an inherited member; when it is, the
  container volume by warehouse throws.
\<close>

lemma non_container_mode_contributes_zero:
  assumes "shipmentType s \<noteq> Some (str ''FCL'')" "shipmentType s \<noteq> Some (str ''FCL/LCL'')"
  shows "containerCount s = 0" and "containerVolume s = 0"
    and "map val (statusByContainersData (xs @ s # ys)) = map val (statusByContainersData (xs @ ys))"
    and "map val (statusByContainersData_delivered (xs @ s # ys))
           = map val (statusByContainersData_delivered (xs @ ys))"
    and "\<not> inheritedMember (normalizeTerminalName h (bondedWarehouse s)) \<Longrightarrow>
           map_option (\<lambda>buckets. bucketValue buckets k) (containerVolumeByWarehouseData h (xs @ s # ys))
             = map_option (\<lambda>buckets. bucketValue buckets k) (containerVolumeByWarehouseData h (xs @ ys))"
    and "inheritedMember (normalizeTerminalName h (bondedWarehouse s)) \<Longrightarrow>
           containerVolumeByWarehouseData h (xs @ s # ys) = None"
    and "cargoVolumeTable h (xs @ s # ys) = cargoVolumeTable h (xs @ ys)"
    and "map_option (\<lambda>dss. volumeRow dss t) (cargoVolumeDataStack h (xs @ s # ys))
           = map_option (\<lambda>dss. volumeRow dss t) (cargoVolumeDataStack h (xs @ ys))"
proof -
  show c: "containerCount s = 0" and v: "containerVolume s = 0"
    using assms by (simp_all add: containerCount_def containerVolume_def)
  from v have v': "containerVolume s \<le> 0" by simp
  show "map val (statusByContainersData (xs @ s # ys)) = map val (statusByContainersData (xs @ ys))"
    and "map val (statusByContainersData_delivered (xs @ s # ys))
           = map val (statusByContainersData_delivered (xs @ ys))"
    using c by (simp_all add: statusByContainersData_closed statusByContainersData_delivered_closed)
  show "cargoVolumeTable h (xs @ s # ys) = cargoVolumeTable h (xs @ ys)"
    by (rule cargoVolumeTable_skip [OF v'])
  show "map_option (\<lambda>dss. volumeRow dss t) (cargoVolumeDataStack h (xs @ s # ys))
           = map_option (\<lambda>dss. volumeRow dss t) (cargoVolumeDataStack h (xs @ ys))"
    by (rule cargoVolume_rows_skip [OF v'])
  show "containerVolumeByWarehouseData h (xs @ s # ys) = None"
    if "inheritedMember (normalizeTerminalName h (bondedWarehouse s))"
    using that by (simp add: containerVolumeByWarehouse_throws)
  show "map_option (\<lambda>buckets. bucketValue buckets k) (containerVolumeByWarehouseData h (xs @ s # ys))
          = map_option (\<lambda>buckets. bucketValue buckets k) (containerVolumeByWarehouseData h (xs @ ys))"
    if n: "\<not> inheritedMember (normalizeTerminalName h (bondedWarehouse s))"
  proof (cases "containerVolumeByWarehouseData h (xs @ ys)")
    case None
    then have "containerVolumeByWarehouseData h (xs @ s # ys) = None"
      by (auto simp: containerVolumeByWarehouse_throws)
    with None show ?thesis by simp
  next
    case (Some b2)
    then have "\<not> (\<exists>x \<in> set (xs @ ys). inheritedMember (normalizeTerminalName h (bondedWarehouse x)))"
      using containerVolumeByWarehouse_throws [of h "xs @ ys"] by simp
    then have "containerVolumeByWarehouseData h (xs @ s # ys) \<noteq> None"
      using n by (auto simp: containerVolumeByWarehouse_throws)
    then obtain b1 where b1: "containerVolumeByWarehouseData h (xs @ s # ys) = Some b1"
      by auto
    show ?thesis
      using c by (simp add: Some b1 containerVolumeByWarehouse_value [OF Some]
          containerVolumeByWarehouse_value [OF b1])
  qed
qed

text \<open>Evaluation of the container volume by warehouse on the examples.\<close>

lemma tecon_salvador: "normalizeTerminalName sampleHost (Some (str ''Tecon Salvador'')) = str ''TECON''"
  by code_simp

lemma warehouse_names:
  "normalizeTerminalName sampleHost (Some (str ''constructor'')) = str ''constructor''"
  "normalizeTerminalName sampleHost (Some (str ''toString'')) = str ''toString''"
  by code_simp+

lemma tecon_no_index: "\<not> isArrayIndex (str ''TECON'')"
  by code_simp

lemma example_fields:
  "shipmentType fclShipment = Some (str ''FCL'')" "fcl fclShipment = None"
  "bondedWarehouse fclShipment = Some (str ''Tecon Salvador'')"
  "shipmentType lclShipment = Some (str ''LCL'')" "fcl lclShipment = Some 7"
  "bondedWarehouse lclShipment = Some (str ''Tecon Salvador'')"
  "shipmentType constructorShipment = Some (str ''LCL'')" "fcl constructorShipment = Some 7"
  "bondedWarehouse constructorShipment = Some (str ''constructor'')"
  "shipmentType toStringShipment = Some (str ''FCL'')" "fcl toStringShipment = None"
  "bondedWarehouse toStringShipment = Some (str ''toString'')"
  "status toStringShipment = Some (str ''IN TRANSIT'')"
  by (simp_all add: fclShipment_def lclShipment_def constructorShipment_def toStringShipment_def
      blankShipment_def)

lemma example_counts:
  "containerCount fclShipment = 1" "containerCount lclShipment = 0"
  "containerCount constructorShipment = 0" "containerCount toStringShipment = 1"
  "containerVolume toStringShipment = 0"
  by (simp_all add: containerCount_def containerVolume_def example_fields)

lemma warehouse_examples:
  "map_option (map (\<lambda>b. (label b, val b))) (containerVolumeByWarehouseData sampleHost [fclShipment])
     = Some [(str ''TECON'', 1)]"
  "map_option (map (\<lambda>b. (label b, val b))) (containerVolumeByWarehouseData sampleHost [lclShipment])
     = Some [(str ''TECON'', 0)]"
  by (simp_all add: containerVolumeByWarehouseData_def containerVolumeByWarehouse_step_def Let_def
      example_fields example_counts tecon_salvador ensureKey_def hasOwnProperty_def modifyKey_def
      not_inherited_examples Object_entries_def tecon_no_index)

text \<open>
  Claim C6. A record whose shipment mode is neither FCL nor FCL/LCL is to contribute
  exactly 0 to every container-count aggregate. The container volume by warehouse does
  not keep to it when the warehouse of the record is named like a member of
  \<open>Object.prototype\<close>. For the LCL record with the warehouse \<open>constructor\<close>, which counts
  0 containers, the test \<open>!warehouses[warehouse]\<close> finds the inherited member, no
  entry is created, and \<open>warehouses[warehouse].shipments.push(s)\<close> throws a
  \<open>TypeError\<close>: the chart of one FCL shipment has the value 1 under TECON, and with the
  LCL record after it there is no chart at all.
\<close>

theorem lcl_record_breaks_warehouse_volume:
  "shipmentType constructorShipment = Some (str ''LCL'')
   \<and> containerCount constructorShipment = 0
   \<and> normalizeTerminalName sampleHost (bondedWarehouse constructorShipment) = str ''constructor''
   \<and> map_option (map (\<lambda>b. (label b, val b))) (containerVolumeByWarehouseData sampleHost [fclShipment])
       = Some [(str ''TECON'', 1)]
   \<and> containerVolumeByWarehouseData sampleHost [fclShipment, constructorShipment] = None"
  by (simp add: example_fields example_counts warehouse_names warehouse_examples
      containerVolumeByWarehouse_throws not_inherited_examples)

text \<open>
  A record of mode FCL or FCL/LCL whose \<open>fcl\<close> is absent or 0 counts 1 container in
  status-by-containers and in the container volume by warehouse (\<open>s.fcl || 1\<close>), and
  has the volume 0 in the cargo volume per terminal and month (\<open>s.fcl || 0\<close>). So the
  step of status-by-containers adds 1 to the count of the group of the record, the
  step of the container volume by warehouse adds 1 to the total of its warehouse, unless
  the warehouse is named like an inherited member, where it throws, and the volumes per
  terminal and month are the same with and without the record. The sums are those of
  the model, which are the code's as long as the counts are whole numbers.
\<close>

lemma missing_fcl_counts_one_or_zero:
  assumes "shipmentType s = Some (str ''FCL'') \<or> shipmentType s = Some (str ''FCL/LCL'')"
    and "fcl s = None \<or> fcl s = Some 0"
  shows "containerCount s = 1" and "containerVolume s = 0"
    and "statusByContainers_step groups s =
           map (\<lambda>(l, ships, count).
                  if statusGroupOf (map fst groups) s = Some l then (l, ships @ [s], count + 1)
                  else (l, ships, count)) groups"
    and "inheritedMember (normalizeTerminalName h (bondedWarehouse s)) \<Longrightarrow> ownKeys warehouses \<Longrightarrow>
           containerVolumeByWarehouse_step h warehouses s = None"
    and "containerVolumeByWarehouse_step h warehouses s = Some warehouses' \<Longrightarrow>
           totalOf warehouses' k =
             totalOf warehouses k
               + (if normalizeTerminalName h (bondedWarehouse s) = k \<and> k \<noteq> str ''N/A'' then 1 else 0)"
    and "cargoVolumeTable h (xs @ s # ys) = cargoVolumeTable h (xs @ ys)"
    and "map_option (\<lambda>dss. volumeRow dss t) (cargoVolumeDataStack h (xs @ s # ys))
           = map_option (\<lambda>dss. volumeRow dss t) (cargoVolumeDataStack h (xs @ ys))"
proof -
  show c: "containerCount s = 1" and v: "containerVolume s = 0"
    using assms by (auto simp: containerCount_def containerVolume_def)
  from v have v': "containerVolume s \<le> 0" by simp
  show "statusByContainers_step groups s =
           map (\<lambda>(l, ships, count).
                  if statusGroupOf (map fst groups) s = Some l then (l, ships @ [s], count + 1)
                  else (l, ships, count)) groups"
    by (simp add: statusByContainers_step_map c case_prod_beta)
  show "containerVolumeByWarehouse_step h warehouses s = None"
    if "inheritedMember (normalizeTerminalName h (bondedWarehouse s))" "ownKeys warehouses"
    using that by (simp add: warehouse_step_None)
  show "totalOf warehouses' k =
             totalOf warehouses k
               + (if normalizeTerminalName h (bondedWarehouse s) = k \<and> k \<noteq> str ''N/A'' then 1 else 0)"
    if "containerVolumeByWarehouse_step h warehouses s = Some warehouses'"
    using warehouse_step_total [OF that, of k] c by simp
  show "cargoVolumeTable h (xs @ s # ys) = cargoVolumeTable h (xs @ ys)"
    by (rule cargoVolumeTable_skip [OF v'])
  show "map_option (\<lambda>dss. volumeRow dss t) (cargoVolumeDataStack h (xs @ s # ys))
           = map_option (\<lambda>dss. volumeRow dss t) (cargoVolumeDataStack h (xs @ ys))"
    by (rule cargoVolume_rows_skip [OF v'])
qed

text \<open>
  Claim C10. A record of mode FCL or FCL/LCL whose \<open>fcl\<close> is absent or 0 is to add
  exactly 1 container to status-by-containers and to the container volume by warehouse,
  and 0 to the cargo volume per terminal and month. The container volume by warehouse
  does not keep to it when the warehouse of the record is named like a member of
  \<open>Object.prototype\<close>. The FCL record without \<open>fcl\<close> and with the warehouse
  \<open>toString\<close> counts 1 container and has the volume 0: status-by-containers shows 1
  for its group and the cargo volume shows zeros for its terminal, but in the
  container volume by warehouse the test \<open>!warehouses[warehouse]\<close> finds the inherited
  member, no entry is created, and \<open>warehouses[warehouse].shipments.push(s)\<close> throws a
  \<open>TypeError\<close>: the chart of one LCL shipment has the value 0 under TECON, and with
  the FCL record after it there is no chart at all.
\<close>

theorem fcl_record_breaks_warehouse_volume:
  "shipmentType toStringShipment = Some (str ''FCL'') \<and> fcl toStringShipment = None
   \<and> containerCount toStringShipment = 1 \<and> containerVolume toStringShipment = 0
   \<and> bucketValue (statusByContainersData [lclShipment, toStringShipment]) (str ''IN TRANSIT'') = 1
   \<and> map_option (\<lambda>dss. volumeRow dss (str ''toString'')) (cargoVolumeDataStack sampleHost [toStringShipment])
       = Some [0, 0, 0, 0, 0, 0]
   \<and> normalizeTerminalName sampleHost (bondedWarehouse toStringShipment) = str ''toString''
   \<and> map_option (map (\<lambda>b. (label b, val b))) (containerVolumeByWarehouseData sampleHost [lclShipment])
       = Some [(str ''TECON'', 0)]
   \<and> containerVolumeByWarehouseData sampleHost [lclShipment, toStringShipment] = None"
proof -
  have g: "statusGroupOf statusGroups4 lclShipment = Some (str ''IN TRANSIT'')"
    "statusGroupOf statusGroups4 toStringShipment = Some (str ''IN TRANSIT'')"
    by (simp_all add: statusGroupOf_def statusGroups4_def lclShipment_def example_fields)
  have s: "bucketValue (statusByContainersData [lclShipment, toStringShipment]) (str ''IN TRANSIT'') = 1"
    by (simp add: statusByContainersData_closed bucketValue_map g example_counts)
       (simp add: statusGroups4_def Math_round_of_int [of 1, simplified])
  have v: "containerVolume toStringShipment \<le> 0"
    by (simp add: example_counts)
  have e: "map_option (\<lambda>dss. volumeRow dss (str ''toString'')) (cargoVolumeDataStack sampleHost [])
       = Some [0, 0, 0, 0, 0, 0]"
    by (simp add: cargoVolumeDataStack_def cargoVolume_datasets_def volumeRow_def eval_nat_numeral)
  have r: "map_option (\<lambda>dss. volumeRow dss (str ''toString'')) (cargoVolumeDataStack sampleHost [toStringShipment])
       = Some [0, 0, 0, 0, 0, 0]"
    using cargoVolume_rows_skip [OF v, of "str ''toString''" sampleHost "[]" "[]"]
    by (simp only: append_Nil e)
  show ?thesis
    using s r
    by (simp add: example_fields example_counts warehouse_names warehouse_examples
        containerVolumeByWarehouse_throws not_inherited_examples tecon_salvador)
qed

subsection \<open>Terminal names\<close>

lemma sampleHost_unicode: "unicodeOnTerminalNames sampleHost"
  unfolding unicodeOnTerminalNames_def by code_simp

lemma normalize_NA: "unicodeOnTerminalNames h \<Longrightarrow> normalizeTerminalName h (Some (str ''N/A'')) = str ''N/A''"
  by (simp add: unicodeOnTerminalNames_def normalizeTerminalName_def stripCombiningMarks_def str_def)

lemma normalize_TECON: "unicodeOnTerminalNames h \<Longrightarrow> normalizeTerminalName h (Some (str ''TECON'')) = str ''TECON''"
  by (simp add: unicodeOnTerminalNames_def normalizeTerminalName_def stripCombiningMarks_def str_def)

lemma normalize_TECA: "unicodeOnTerminalNames h \<Longrightarrow> normalizeTerminalName h (Some (str ''TECA'')) = str ''TECA''"
  by (simp add: unicodeOnTerminalNames_def normalizeTerminalName_def stripCombiningMarks_def str_def)

lemma normalize_CLIA: "unicodeOnTerminalNames h \<Longrightarrow> normalizeTerminalName h (Some CLIA_Emporio) = CLIA_Emporio"
  by (simp add: unicodeOnTerminalNames_def normalizeTerminalName_def stripCombiningMarks_def str_def
      CLIA_Emporio_def)

lemma normalize_Intermaritima:
  "unicodeOnTerminalNames h \<Longrightarrow> normalizeTerminalName h (Some (str ''Intermaritima'')) = str ''Intermaritima''"
  by (simp add: unicodeOnTerminalNames_def normalizeTerminalName_def stripCombiningMarks_def str_def)

lemma normalize_TPC: "unicodeOnTerminalNames h \<Longrightarrow> normalizeTerminalName h (Some (str ''TPC'')) = str ''TPC''"
  by (simp add: unicodeOnTerminalNames_def normalizeTerminalName_def stripCombiningMarks_def str_def)

text \<open>The function returns one of its six fixed names, or its argument unchanged.\<close>

lemma normalizeTerminalName_cases:
  "normalizeTerminalName h name = str ''N/A'' \<or> normalizeTerminalName h name = str ''TECON''
   \<or> normalizeTerminalName h name = str ''TECA'' \<or> normalizeTerminalName h name = CLIA_Emporio
   \<or> normalizeTerminalName h name = str ''Intermaritima'' \<or> normalizeTerminalName h name = str ''TPC''
   \<or> (\<exists>n. name = Some n \<and> normalizeTerminalName h (Some n) = n)"
  by (cases name) (auto simp: normalizeTerminalName_def Let_def)

text \<open>
  Claim C8. Terminal-name normalization is idempotent: for every input, absent or any
  string, normalizing the result of \<open>normalizeTerminalName\<close> gives that result again.
  This holds on every engine whose \<open>toLowerCase\<close> and \<open>normalize("NFD")\<close> treat the six
  fixed names of the function as Unicode prescribes.
\<close>

theorem normalizeTerminalName_idempotent:
  assumes "unicodeOnTerminalNames h"
  shows "normalizeTerminalName h (Some (normalizeTerminalName h name)) = normalizeTerminalName h name"
  using normalizeTerminalName_cases [of h name]
    normalize_NA [OF assms] normalize_TECON [OF assms] normalize_TECA [OF assms]
    normalize_CLIA [OF assms] normalize_Intermaritima [OF assms] normalize_TPC [OF assms]
  by (elim disjE exE conjE) simp_all

lemma clia_example: "normalizeTerminalName sampleHost (Some cliaSpelling) = CLIA_Emporio"
  by code_simp

theorem normalizeTerminalName_idempotent_witness:
  "unicodeOnTerminalNames sampleHost
   \<and> normalizeTerminalName sampleHost (Some (normalizeTerminalName sampleHost (Some cliaSpelling)))
     = CLIA_Emporio"
  using normalizeTerminalName_idempotent [OF sampleHost_unicode, of "Some cliaSpelling"]
  by (simp add: clia_example sampleHost_unicode)

subsection \<open>DI parametrization\<close>

lemma diChannel_step_map:
  "diChannel_step groups s =
     map (\<lambda>(l, ships, u). (l, ships @ (if parametrization s = Some l \<and> l \<noteq> [] then [s] else []), addDI l u s)) groups"
proof (cases "parametrization s")
  case None
  then show ?thesis by (simp add: diChannel_step_def addDI_def case_prod_beta)
next
  case (Some p)
  then show ?thesis
    by (auto simp: diChannel_step_def addDI_def hasOwnProperty_iff modifyKey_def case_prod_beta
        split: option.splits intro!: map_idI[symmetric])
       (metis fst_conv image_eqI)+
qed

lemma foldl_diChannel_step:
  "foldl diChannel_step groups ships =
     map (\<lambda>(l, xs, u). (l, xs @ filter (\<lambda>s. parametrization s = Some l \<and> l \<noteq> []) ships,
                          foldl (addDI l) u ships)) groups"
proof (induction ships arbitrary: groups)
  case Nil
  then show ?case by (simp add: case_prod_beta)
next
  case (Cons s ships)
  show ?case
    by (simp add: Cons.IH) (simp add: diChannel_step_map case_prod_beta comp_def)
qed

lemma diChannelData_closed:
  "diChannelData ships =
     map (\<lambda>l. \<lparr>val = length (filter (\<lambda>s. parametrization s = Some l) ships),
                shipments = filter (\<lambda>s. parametrization s = Some l) ships,
                label = l,
                secondaryValue = length (foldl (addDI l) [] ships)\<rparr>) channels"
  by (simp add: diChannelData_def foldl_diChannel_step channels_def)

lemma diParam_step_keys:
  "map (\<lambda>(l, u). (l, map fst u)) (diParam_step groups s) =
     map (\<lambda>(l, u). (l, addDI l (map fst u) s)) groups"
proof (cases "parametrization s")
  case None
  then show ?thesis by (simp add: diParam_step_def addDI_def case_prod_beta split: option.splits)
next
  case (Some p)
  then show ?thesis
    by (cases "di s")
      (auto simp: diParam_step_def addDI_def hasOwnProperty_iff modifyKey_def case_prod_beta setAdd_def
        map_of_eq_None_iff image_iff)
qed

lemma foldl_diParam_step_keys:
  "map (\<lambda>(l, u). (l, map fst u)) (foldl diParam_step groups ships) =
     map (\<lambda>(l, u). (l, foldl (addDI l) (map fst u) ships)) groups"
proof (induction ships arbitrary: groups)
  case Nil
  then show ?case by simp
next
  case (Cons s ships)
  have "map (\<lambda>(l, u). (l, foldl (addDI l) (map fst u) ships)) (diParam_step groups s)
        = map (\<lambda>(l, u). (l, foldl (addDI l) u ships)) (map (\<lambda>(l, u). (l, map fst u)) (diParam_step groups s))"
    by (simp add: case_prod_beta comp_def)
  then show ?case
    by (simp add: Cons.IH diParam_step_keys) (simp add: case_prod_beta comp_def)
qed

lemma diParamData_vals:
  "map (\<lambda>b. (label b, val b)) (diParamData ships) = map (\<lambda>l. (l, length (foldl (addDI l) [] ships))) channels"
proof -
  have "map (\<lambda>b. (label b, val b)) (diParamData ships)
        = map (\<lambda>(l, u). (l, length u)) (map (\<lambda>(l, u). (l, map fst u)) (foldl diParam_step
          [(str ''Green'', []), (str ''Yellow'', []), (str ''Red'', [])] ships))"
    by (simp add: diParamData_def case_prod_beta comp_def)
  then show ?thesis
    by (simp add: foldl_diParam_step_keys channels_def)
qed

lemma bucketValue_pairs:
  "bucketValue buckets k = (case map_of (map (\<lambda>b. (label b, val b)) buckets) k of None \<Rightarrow> 0 | Some v \<Rightarrow> v)"
  by (induction buckets) (auto simp: bucketValue_def)

lemma set_foldl_addDI:
  "set (foldl (addDI c) u ships) = set u \<union> {d. d \<noteq> [] \<and> c \<noteq> [] \<and> (\<exists>s \<in> set ships. parametrization s = Some c \<and> di s = Some d)}"
  by (induction ships arbitrary: u) (auto simp: addDI_def setAdd_def split: option.splits)

lemma length_setAdd: "length (setAdd d u) = length u + (if d \<in> set u then 0 else 1)"
  by (simp add: setAdd_def)

lemma setAdd_idem: "setAdd d (setAdd d u) = setAdd d u"
  by (simp add: setAdd_def)

lemma length_foldl_addDI_two:
  assumes "di a = Some d" "di b = Some d" "d \<noteq> []" "parametrization a = Some c" "parametrization b = Some c" "c \<noteq> []"
  shows "length (foldl (addDI c) [] (fs @ [a, b]))
           = length (foldl (addDI c) [] fs) + (if (\<exists>s \<in> set fs. parametrization s = Some c \<and> di s = Some d) then 0 else 1)"
proof -
  have "foldl (addDI c) [] (fs @ [a, b]) = setAdd d (foldl (addDI c) [] fs)"
    using assms by (simp add: addDI_def setAdd_idem)
  then show ?thesis using assms
    by (simp add: length_setAdd set_foldl_addDI)
qed

lemma channelUnique_map:
  "channelUnique (map (\<lambda>l. \<lparr>val = f l, shipments = g l, label = l, secondaryValue = k l\<rparr>) keys) c
     = (if c \<in> set keys then k c else 0)"
  by (induction keys) (auto simp: channelUnique_def)

lemma bucketValue_channel_map:
  "bucketValue (map (\<lambda>l. \<lparr>val = f l, shipments = g l, label = l, secondaryValue = k l\<rparr>) keys) c
     = (if c \<in> set keys then f c else 0)"
  by (induction keys) (auto simp: bucketValue_def)

lemma bucketValue_diParamData:
  "c \<in> set channels \<Longrightarrow> bucketValue (diParamData ships) c = length (foldl (addDI c) [] ships)"
  by (auto simp: bucketValue_pairs diParamData_vals channels_def)

text \<open>
  Claim C5, as amended. Take two records with the same DI number, not empty, and the
  same parametrization channel, one of Green, Yellow and Red, and add them to a filtered
  sequence. The unique-DI count of that channel (the second value of the brokerage
  chart, and the value of the performance chart) grows by exactly 1 when no record of
  that channel in the sequence carries the DI number already, and by 0 when one does.
  The plain shipment count of that channel grows by exactly 2.
\<close>

theorem di_unique_once_rows_twice:
  "di a = Some d \<and> di b = Some d \<and> d \<noteq> [] \<and> parametrization a = Some c \<and> parametrization b = Some c
     \<and> c \<in> set channels \<longrightarrow>
     channelUnique (diChannelData (fs @ [a, b])) c
       = channelUnique (diChannelData fs) c
         + (if (\<exists>s \<in> set fs. parametrization s = Some c \<and> di s = Some d) then 0 else 1)
     \<and> bucketValue (diParamData (fs @ [a, b])) c
       = bucketValue (diParamData fs) c
         + (if (\<exists>s \<in> set fs. parametrization s = Some c \<and> di s = Some d) then 0 else 1)
     \<and> bucketValue (diChannelData (fs @ [a, b])) c = bucketValue (diChannelData fs) c + 2"
proof (intro impI)
  assume h: "di a = Some d \<and> di b = Some d \<and> d \<noteq> [] \<and> parametrization a = Some c \<and> parametrization b = Some c
     \<and> c \<in> set channels"
  then have c: "c \<noteq> []" "c \<in> set channels"
    by (auto simp: channels_def)
  have two: "length (foldl (addDI c) [] (fs @ [a, b]))
           = length (foldl (addDI c) [] fs)
             + (if (\<exists>s \<in> set fs. parametrization s = Some c \<and> di s = Some d) then 0 else 1)"
    using h c(1) by (intro length_foldl_addDI_two) simp_all
  show "channelUnique (diChannelData (fs @ [a, b])) c
       = channelUnique (diChannelData fs) c
         + (if (\<exists>s \<in> set fs. parametrization s = Some c \<and> di s = Some d) then 0 else 1)
     \<and> bucketValue (diParamData (fs @ [a, b])) c
       = bucketValue (diParamData fs) c
         + (if (\<exists>s \<in> set fs. parametrization s = Some c \<and> di s = Some d) then 0 else 1)
     \<and> bucketValue (diChannelData (fs @ [a, b])) c = bucketValue (diChannelData fs) c + 2"
    using h c(2) two
    by (simp add: diChannelData_closed channelUnique_map bucketValue_channel_map bucketValue_diParamData)
qed

theorem di_unique_once_rows_twice_witness:
  "channelUnique (diChannelData ([] @ [greenDeclaration, greenDeclaration2])) (str ''Green'')
     = channelUnique (diChannelData []) (str ''Green'') + 1
   \<and> bucketValue (diParamData ([] @ [greenDeclaration, greenDeclaration2])) (str ''Green'')
     = bucketValue (diParamData []) (str ''Green'') + 1
   \<and> bucketValue (diChannelData ([] @ [greenDeclaration, greenDeclaration2])) (str ''Green'')
     = bucketValue (diChannelData []) (str ''Green'') + 2"
  using di_unique_once_rows_twice
    [where a = greenDeclaration and b = greenDeclaration2 and d = "str ''24/0012345-6''"
       and c = "str ''Green''" and fs = "[]"]
  by (simp add: greenDeclaration_def greenDeclaration2_def channels_def)

text \<open>
  The claim as it is stated fails when the sequence has the DI number in that channel
  already: the two added records leave the unique-DI count at 1.
\<close>

theorem di_unique_count_counterexample:
  "di greenDeclaration2 = di greenDeclaration3
   \<and> parametrization greenDeclaration2 = parametrization greenDeclaration3
   \<and> channelUnique (diChannelData [greenDeclaration]) (str ''Green'') = 1
   \<and> channelUnique (diChannelData ([greenDeclaration] @ [greenDeclaration2, greenDeclaration3])) (str ''Green'') = 1
   \<and> channelUnique (diChannelData ([greenDeclaration] @ [greenDeclaration2, greenDeclaration3])) (str ''Green'')
       \<noteq> channelUnique (diChannelData [greenDeclaration]) (str ''Green'') + 1"
  by code_simp

subsection \<open>The zoom window\<close>

lemma floor_half_int: "\<lfloor>rat_of_int r / 2\<rfloor> = r div 2"
  using floor_divide_of_int_eq [of r 2, where ?'a = rat] by simp

lemma ceiling_two_thirds: "\<lceil>rat_of_int r / (3 / 2)\<rceil> = - ((- (2 * r)) div 3)"
proof -
  have "rat_of_int r / (3 / 2) = rat_of_int (2 * r) / rat_of_int 3" by simp
  then show ?thesis by (simp only: ceiling_divide_eq_div)
qed

lemma floor_three_halves: "\<lfloor>rat_of_int r * (3 / 2)\<rfloor> = (3 * r) div 2"
proof -
  have "rat_of_int r * (3 / 2) = rat_of_int (3 * r) / rat_of_int 2" by simp
  then show ?thesis by (simp only: floor_divide_of_int_eq)
qed

lemma handleZoomIn_int:
  "handleZoomIn len prev =
     (let r = end' prev - start prev
      in if r < 2 then prev
         else (let center = start prev + r div 2;
                   n = max 2 (- ((- (2 * r)) div 3));
                   newStart = max 0 (center - n div 2);
                   newEnd = min (int len - 1) (newStart + n - 1)
               in \<lparr> start = newStart, end' = newEnd \<rparr>))"
  unfolding handleZoomIn_def floor_half_int ceiling_two_thirds ..

lemma handleZoomOut_int:
  "handleZoomOut len prev =
     (let r = end' prev - start prev
      in if r \<ge> int len - 1 then prev
         else (let center = start prev + r div 2;
                   n = min (int len) ((3 * r) div 2 + 1);
                   newStart = max 0 (center - n div 2);
                   newEnd = min (int len - 1) (newStart + n - 1);
                   newStart = (if newEnd - newStart + 1 < n then max 0 (newEnd - n + 1) else newStart)
               in \<lparr> start = newStart, end' = newEnd \<rparr>))"
  unfolding handleZoomOut_def floor_half_int floor_three_halves ..

lemma two_thirds_bounds:
  fixes r :: int
  assumes "2 \<le> r"
  shows "2 \<le> max 2 (- ((- (2 * r)) div 3))" "max 2 (- ((- (2 * r)) div 3)) \<le> r"
  using assms by (simp_all add: max_def) presburger

lemma zoomIn_arith:
  fixes s e r n hn hr L :: int
  assumes "0 \<le> s" "e \<le> L - 1" "r = e - s" "2 \<le> r" "2 \<le> n" "n \<le> r"
    "2 * hn \<le> n" "n \<le> 2 * hn + 1" "2 * hr \<le> r" "r \<le> 2 * hr + 1"
  shows "max 0 (s + hr - hn) = s + hr - hn"
    and "min (L - 1) (s + hr - hn + n - 1) = s + hr - hn + n - 1"
    and "s \<le> s + hr - hn" and "s + hr - hn + n - 1 \<le> e"
  using assms by (simp_all add: max_def min_def)

lemma half_bounds: "2 * (n div 2) \<le> (n::int)" "n \<le> 2 * (n div 2) + 1"
  by presburger+


lemma zoomIn_window:
  assumes "inBounds len v" "2 \<le> end' v - start v"
  defines "r \<equiv> end' v - start v"
  defines "n \<equiv> max 2 (- ((- (2 * r)) div 3))"
  shows "handleZoomIn len v = \<lparr> start = start v + r div 2 - n div 2, end' = start v + r div 2 - n div 2 + n - 1 \<rparr>"
    and "start v \<le> start v + r div 2 - n div 2"
    and "start v + r div 2 - n div 2 + n - 1 \<le> end' v"
    and "2 \<le> n" and "n \<le> r"
proof -
  have n: "2 \<le> n" "n \<le> r"
    using two_thirds_bounds [of r] assms(2) by (simp_all add: n_def r_def)
  have b: "0 \<le> start v" "end' v \<le> int len - 1" "r = end' v - start v" "2 \<le> r"
    using assms(1,2) by (simp_all add: inBounds_def r_def)
  note ar = zoomIn_arith [OF b(1) b(2) b(3) b(4) n(1) n(2) half_bounds [of n] half_bounds [of r]]
  show "handleZoomIn len v = \<lparr> start = start v + r div 2 - n div 2, end' = start v + r div 2 - n div 2 + n - 1 \<rparr>"
    using b(4) ar(1,2) unfolding handleZoomIn_int Let_def r_def [symmetric] n_def [symmetric]
    by simp
  show "start v \<le> start v + r div 2 - n div 2" by (rule ar(3))
  show "start v + r div 2 - n div 2 + n - 1 \<le> end' v" by (rule ar(4))
  show "2 \<le> n" "n \<le> r" by (rule n)+
qed

lemma three_halves_bounds:
  fixes r L :: int
  assumes "0 \<le> r" "r < L - 1"
  shows "r + 1 \<le> min L ((3 * r) div 2 + 1)" "min L ((3 * r) div 2 + 1) \<le> L"
    and "2 \<le> r \<Longrightarrow> r + 2 \<le> min L ((3 * r) div 2 + 1)"
  using assms by (simp_all add: min_def) presburger+

lemma zoomOut_arith:
  fixes s e r n hn hr L ns0 ne ns :: int
  assumes "0 \<le> s" "s \<le> e" "e \<le> L - 1" "r = e - s" "r + 1 \<le> n" "n \<le> L"
    "2 * hn \<le> n" "n \<le> 2 * hn + 1" "2 * hr \<le> r" "r \<le> 2 * hr + 1"
    and "ns0 = max 0 (s + hr - hn)"
    and "ne = min (L - 1) (ns0 + n - 1)"
    and "ns = (if ne - ns0 + 1 < n then max 0 (ne - n + 1) else ns0)"
  shows "0 \<le> ns" "ns \<le> ne" "ne \<le> L - 1" "ne - ns + 1 = n" "ns \<le> s + hr" "s + hr \<le> ne"
    and "ns = ns0 \<or> ne = L - 1"
  using assms by (simp_all add: max_def min_def split: if_splits)


lemma zoomOut_window:
  assumes "inBounds len v" "end' v - start v < int len - 1"
  defines "r \<equiv> end' v - start v"
  defines "n \<equiv> min (int len) ((3 * r) div 2 + 1)"
  defines "w \<equiv> handleZoomOut len v"
  shows "end' w - start w + 1 = n"
    and "inBounds len w"
    and "start w \<le> start v + r div 2" and "start v + r div 2 \<le> end' w"
    and "start w = max 0 (start v + r div 2 - n div 2) \<or> end' w = int len - 1"
    and "r + 1 \<le> n" and "n \<le> int len"
proof -
  define ns0 where "ns0 = max 0 (start v + r div 2 - n div 2)"
  define ne where "ne = min (int len - 1) (ns0 + n - 1)"
  define ns where "ns = (if ne - ns0 + 1 < n then max 0 (ne - n + 1) else ns0)"
  have b: "0 \<le> start v" "start v \<le> end' v" "end' v \<le> int len - 1" "r = end' v - start v"
    using assms(1) by (simp_all add: inBounds_def r_def)
  have r: "0 \<le> r" "r < int len - 1"
    using b assms(2) by (simp_all add: r_def)
  have n: "r + 1 \<le> n" "n \<le> int len"
    using three_halves_bounds(1,2) [OF r] by (simp_all add: n_def)
  have w: "w = \<lparr> start = ns, end' = ne \<rparr>"
    using r(2) unfolding w_def handleZoomOut_int Let_def r_def [symmetric] n_def [symmetric]
      ns_def ne_def ns0_def
    by simp
  note ar = zoomOut_arith [OF b(1) b(2) b(3) b(4) n(1) n(2) half_bounds [of n] half_bounds [of r]
      ns0_def ne_def ns_def]
  show "end' w - start w + 1 = n" using ar(4) by (simp add: w)
  show "inBounds len w" using ar(1,2,3) by (simp add: w inBounds_def)
  show "start w \<le> start v + r div 2" using ar(5) by (simp add: w)
  show "start v + r div 2 \<le> end' w" using ar(6) by (simp add: w)
  show "start w = max 0 (start v + r div 2 - n div 2) \<or> end' w = int len - 1"
    using ar(7) by (simp add: w ns0_def)
  show "r + 1 \<le> n" "n \<le> int len" by (rule n)+
qed

lemma zoomIn_bounds: "inBounds len v \<Longrightarrow> inBounds len (handleZoomIn len v)"
proof (cases "2 \<le> end' v - start v")
  case True
  assume b: "inBounds len v"
  define r where "r = end' v - start v"
  define n where "n = max 2 (- ((- (2 * r)) div 3))"
  define a where "a = start v + r div 2 - n div 2"
  have w: "handleZoomIn len v = \<lparr> start = a, end' = a + n - 1 \<rparr>"
    and 1: "start v \<le> a" and 2: "a + n - 1 \<le> end' v" and 3: "2 \<le> n"
    using zoomIn_window [OF b True] unfolding r_def [symmetric] n_def [symmetric] a_def [symmetric]
    by blast+
  have "0 \<le> start v" "end' v \<le> int len - 1"
    using b by (simp_all add: inBounds_def)
  with 1 2 3 show ?thesis
    unfolding w inBounds_def by simp
next
  case False
  assume "inBounds len v"
  with False show ?thesis by (simp add: handleZoomIn_def)
qed

lemma zoomOut_bounds: "inBounds len v \<Longrightarrow> inBounds len (handleZoomOut len v)"
proof (cases "end' v - start v < int len - 1")
  case True
  assume "inBounds len v"
  then show ?thesis using zoomOut_window(2) [OF _ True] by simp
next
  case False
  assume "inBounds len v"
  with False show ?thesis by (simp add: handleZoomOut_def)
qed

lemma initial_bounds: "len > 0 \<Longrightarrow> inBounds len (initialRange len)"
  by (simp add: inBounds_def initialRange_def)

lemma reset_bounds: "len > 0 \<Longrightarrow> inBounds len (handleResetZoom len)"
  by (simp add: inBounds_def handleResetZoom_def)

lemma zoom_bounds: "len > 0 \<Longrightarrow> inBounds len v \<Longrightarrow> inBounds len (zoom len v a)"
  by (cases a) (simp_all add: zoomIn_bounds zoomOut_bounds reset_bounds)

lemma foldl_zoom_bounds: "len > 0 \<Longrightarrow> inBounds len v \<Longrightarrow> inBounds len (foldl (zoom len) v actions)"
  by (induction actions arbitrary: v) (simp_all add: zoom_bounds)

lemma zoomAll_bounds: "len > 0 \<Longrightarrow> inBounds len (zoomAll len actions)"
  by (simp add: zoomAll_def foldl_zoom_bounds initial_bounds)

lemma zoomAll_empty: "zoomAll 0 actions = \<lparr>start = 0, end' = 0\<rparr>"
proof -
  have "foldl (zoom 0) \<lparr>start = 0, end' = 0\<rparr> actions = \<lparr>start = 0, end' = 0\<rparr>"
  proof (induction actions)
    case Nil
    then show ?case by simp
  next
    case (Cons a actions)
    have "zoom 0 \<lparr>start = 0, end' = 0\<rparr> a = \<lparr>start = 0, end' = 0\<rparr>"
      by (cases a) (simp_all add: handleZoomIn_def handleZoomOut_def handleResetZoom_def)
    then show ?case using Cons.IH by simp
  qed
  then show ?thesis by (simp add: zoomAll_def initialRange_def)
qed

text \<open>
  What the zoom buttons do. For every series that is not empty and every sequence of
  zoom operations, the window stays within bounds, \<open>0 \<le> start \<le> end \<le> length - 1\<close>;
  the window of an empty series stays at \<open>start = end = 0\<close>.
  Zoom-in on a window of span \<open>r = end - start\<close> of at least 2 gives the window of
  \<open>max(2, ceil(r / 1.5))\<close> points that starts half of that number before the middle
  index of the current window; it has at least 2 points, fewer than before, and lies
  inside the current window. With a smaller span zoom-in changes nothing. Zoom-out on a
  window of span at least 2 that is not the whole series gives a window of
  \<open>min(length, floor(r * 1.5) + 1)\<close> points, more than before; it contains the middle
  index of the current window and starts half of its number of points before it, unless
  that would pass an end of the series, where it starts at 0 or ends at the last index.
  Zoom-out on the whole series changes nothing.
\<close>

lemma zoom_window_shape:
  "(len > 0 \<longrightarrow> inBounds len (zoomAll len actions))
   \<and> zoomAll 0 actions = \<lparr>start = 0, end' = 0\<rparr>
   \<and> (inBounds len v1 \<and> 2 \<le> end' v1 - start v1 \<longrightarrow>
        end' (handleZoomIn len v1) - start (handleZoomIn len v1) + 1 = zoomInPoints (end' v1 - start v1)
        \<and> 2 \<le> zoomInPoints (end' v1 - start v1)
        \<and> zoomInPoints (end' v1 - start v1) \<le> end' v1 - start v1
        \<and> start (handleZoomIn len v1) = midpoint v1 - zoomInPoints (end' v1 - start v1) div 2
        \<and> start v1 \<le> start (handleZoomIn len v1)
        \<and> end' (handleZoomIn len v1) \<le> end' v1)
   \<and> (end' v2 - start v2 < 2 \<longrightarrow> handleZoomIn len v2 = v2)
   \<and> (inBounds len v3 \<and> 2 \<le> end' v3 - start v3 \<and> end' v3 - start v3 < int len - 1 \<longrightarrow>
        end' (handleZoomOut len v3) - start (handleZoomOut len v3) + 1 = zoomOutPoints len (end' v3 - start v3)
        \<and> end' v3 - start v3 + 2 \<le> zoomOutPoints len (end' v3 - start v3)
        \<and> zoomOutPoints len (end' v3 - start v3) \<le> int len
        \<and> start (handleZoomOut len v3) \<le> midpoint v3
        \<and> midpoint v3 \<le> end' (handleZoomOut len v3)
        \<and> (start (handleZoomOut len v3) = max 0 (midpoint v3 - zoomOutPoints len (end' v3 - start v3) div 2)
             \<or> end' (handleZoomOut len v3) = int len - 1))
   \<and> (int len - 1 \<le> end' v4 - start v4 \<longrightarrow> handleZoomOut len v4 = v4)"
proof (intro conjI impI)
  assume "0 < len"
  then show "inBounds len (zoomAll len actions)" by (rule zoomAll_bounds)
next
  show "zoomAll 0 actions = \<lparr>start = 0, end' = 0\<rparr>" by (rule zoomAll_empty)
next
  assume "end' v2 - start v2 < 2"
  then show "handleZoomIn len v2 = v2" by (simp add: handleZoomIn_def)
next
  assume "int len - 1 \<le> end' v4 - start v4"
  then show "handleZoomOut len v4 = v4" by (simp add: handleZoomOut_def)
next
  assume a: "inBounds len v1 \<and> 2 \<le> end' v1 - start v1"
  then have b: "inBounds len v1" and r: "2 \<le> end' v1 - start v1" by simp_all
  have p: "zoomInPoints (end' v1 - start v1) = max 2 (- ((- (2 * (end' v1 - start v1))) div 3))"
    by (simp only: zoomInPoints_def ceiling_two_thirds)
  note w = zoomIn_window [OF b r, folded p]
  show "end' (handleZoomIn len v1) - start (handleZoomIn len v1) + 1 = zoomInPoints (end' v1 - start v1)"
    by (simp add: w(1))
  show "2 \<le> zoomInPoints (end' v1 - start v1)" by (rule w(4))
  show "zoomInPoints (end' v1 - start v1) \<le> end' v1 - start v1" by (rule w(5))
  show "start (handleZoomIn len v1) = midpoint v1 - zoomInPoints (end' v1 - start v1) div 2"
    by (simp add: w(1) midpoint_def)
  show "start v1 \<le> start (handleZoomIn len v1)" using w(2) by (simp add: w(1))
  show "end' (handleZoomIn len v1) \<le> end' v1" using w(3) by (simp add: w(1))
next
  assume a: "inBounds len v3 \<and> 2 \<le> end' v3 - start v3 \<and> end' v3 - start v3 < int len - 1"
  then have b: "inBounds len v3" and r2: "2 \<le> end' v3 - start v3"
    and r: "end' v3 - start v3 < int len - 1" by simp_all
  have p: "zoomOutPoints len (end' v3 - start v3) = min (int len) ((3 * (end' v3 - start v3)) div 2 + 1)"
    by (simp only: zoomOutPoints_def floor_three_halves)
  note w = zoomOut_window [OF b r, folded p]
  have r0: "0 \<le> end' v3 - start v3" using r2 by simp
  show "end' (handleZoomOut len v3) - start (handleZoomOut len v3) + 1 = zoomOutPoints len (end' v3 - start v3)"
    by (rule w(1))
  show "end' v3 - start v3 + 2 \<le> zoomOutPoints len (end' v3 - start v3)"
    using three_halves_bounds(3) [OF r0 r r2] by (simp only: p)
  show "zoomOutPoints len (end' v3 - start v3) \<le> int len" by (rule w(7))
  show "start (handleZoomOut len v3) \<le> midpoint v3" using w(3) by (simp add: midpoint_def)
  show "midpoint v3 \<le> end' (handleZoomOut len v3)" using w(4) by (simp add: midpoint_def)
  show "start (handleZoomOut len v3) = max 0 (midpoint v3 - zoomOutPoints len (end' v3 - start v3) div 2)
             \<or> end' (handleZoomOut len v3) = int len - 1"
    using w(5) by (simp add: midpoint_def)
qed

lemma zoom_examples:
  "handleZoomIn 12 \<lparr>start = 0, end' = 11\<rparr> = \<lparr>start = 1, end' = 8\<rparr>"
  "handleZoomOut 12 \<lparr>start = 2, end' = 6\<rparr> = \<lparr>start = 1, end' = 7\<rparr>"
  by (simp_all add: handleZoomIn_int handleZoomOut_int Let_def)

lemma zoom_points_examples: "zoomInPoints 11 = 8" "zoomOutPoints 12 4 = 7" "zoomOutPoints 12 1 = 2"
  by code_simp+

text \<open>
  Zoom-out on a window of two points, in a series of at least three: the window of the
  result has two points again.
\<close>

lemma zoomOut_two_points:
  assumes "inBounds len v" "end' v - start v = 1" "2 < len"
  shows "end' (handleZoomOut len v) - start (handleZoomOut len v) = 1"
    and "inBounds len (handleZoomOut len v)"
proof -
  have r: "end' v - start v < int len - 1" using assms(2,3) by simp
  have "end' (handleZoomOut len v) - start (handleZoomOut len v) + 1 = min (int len) ((3 * 1) div 2 + 1)"
    using zoomOut_window(1) [OF assms(1) r] by (simp only: assms(2))
  then show "end' (handleZoomOut len v) - start (handleZoomOut len v) = 1"
    using assms(3) by simp
  show "inBounds len (handleZoomOut len v)"
    by (rule zoomOut_bounds [OF assms(1)])
qed

lemma zoomOut_stays_at_two_points:
  assumes "inBounds len v" "end' v - start v = 1" "2 < len"
  shows "end' (foldl (zoom len) v (replicate n ZoomOut)) - start (foldl (zoom len) v (replicate n ZoomOut)) = 1"
  using assms(1,2)
proof (induction n arbitrary: v)
  case 0
  then show ?case by simp
next
  case (Suc n)
  show ?case
    using Suc.IH [OF zoomOut_two_points(2) [OF Suc.prems assms(3)] zoomOut_two_points(1) [OF Suc.prems assms(3)]]
    by simp
qed

text \<open>
  Claim C9. The window is to stay within bounds, zoom-in is to contract it by 1.5 down
  to two points, and zoom-out is to expand it by 1.5 up to the whole series. On a
  window of two points zoom-out does not expand: the span is 1, so
  \<open>floor(1 * 1.5) + 1 = 2\<close> points are asked for, as many as there are, and the window
  moves one index towards the start instead. With the twelve monthly points that the
  line charts are given, four zoom-ins lead to the window from 3 to 4. Zoom-out then
  gives the window from 2 to 3, and further zoom-outs the windows from 1 to 2 and from
  0 to 1, where it stays: after the four zoom-ins no number of zoom-outs shows more
  than two points.
\<close>

theorem zoom_out_keeps_two_points:
  "zoomAll 12 [ZoomIn, ZoomIn, ZoomIn, ZoomIn] = \<lparr>start = 3, end' = 4\<rparr>
   \<and> zoomOutPoints 12 1 = 2
   \<and> handleZoomOut 12 \<lparr>start = 3, end' = 4\<rparr> = \<lparr>start = 2, end' = 3\<rparr>
   \<and> zoomAll 12 [ZoomIn, ZoomIn, ZoomIn, ZoomIn, ZoomOut, ZoomOut, ZoomOut] = \<lparr>start = 0, end' = 1\<rparr>
   \<and> handleZoomOut 12 \<lparr>start = 0, end' = 1\<rparr> = \<lparr>start = 0, end' = 1\<rparr>
   \<and> end' (zoomAll 12 ([ZoomIn, ZoomIn, ZoomIn, ZoomIn] @ replicate n ZoomOut))
        - start (zoomAll 12 ([ZoomIn, ZoomIn, ZoomIn, ZoomIn] @ replicate n ZoomOut)) = 1"
proof -
  have four: "zoomAll 12 [ZoomIn, ZoomIn, ZoomIn, ZoomIn] = \<lparr>start = 3, end' = 4\<rparr>"
    by (simp add: zoomAll_def initialRange_def handleZoomIn_int Let_def)
  have b: "inBounds 12 \<lparr>start = 3, end' = 4\<rparr>"
    by (simp add: inBounds_def)
  have stuck: "end' (zoomAll 12 ([ZoomIn, ZoomIn, ZoomIn, ZoomIn] @ replicate n ZoomOut))
        - start (zoomAll 12 ([ZoomIn, ZoomIn, ZoomIn, ZoomIn] @ replicate n ZoomOut)) = 1"
    using zoomOut_stays_at_two_points [OF b, of n] four
    by (simp add: zoomAll_def)
  have out: "handleZoomOut 12 \<lparr>start = 3, end' = 4\<rparr> = \<lparr>start = 2, end' = 3\<rparr>"
    "handleZoomOut 12 \<lparr>start = 2, end' = 3\<rparr> = \<lparr>start = 1, end' = 2\<rparr>"
    "handleZoomOut 12 \<lparr>start = 1, end' = 2\<rparr> = \<lparr>start = 0, end' = 1\<rparr>"
    "handleZoomOut 12 \<lparr>start = 0, end' = 1\<rparr> = \<lparr>start = 0, end' = 1\<rparr>"
    by (simp_all add: handleZoomOut_int Let_def)
  have seven: "zoomAll 12 [ZoomIn, ZoomIn, ZoomIn, ZoomIn, ZoomOut, ZoomOut, ZoomOut] = \<lparr>start = 0, end' = 1\<rparr>"
    using four by (simp add: zoomAll_def out)
  show ?thesis
    using four stuck out(1,4) seven by (simp add: zoom_points_examples)
qed

subsection \<open>The spreadsheet import\<close>

lemma assign_apply: "assign c p v shipment q = (if c \<and> q = p then v else shipment q)"
  by (simp add: assign_def)

lemma assignDate_parsed:
  "parseDateFromExcel convert v = Some d \<Longrightarrow> assignDate convert c p v shipment = Some (assign c p d shipment)"
  by (simp add: assignDate_def assign_def)

lemma assignDate_throwing:
  "parseDateFromExcel convert v = None \<Longrightarrow>
     assignDate convert c p v shipment = (if c then None else Some shipment)"
  by (simp add: assignDate_def)

text \<open>
  The body of the loop over the headers: it throws when the header feeds a date
  property and the conversion of the cell throws, and otherwise it writes, to every
  property that the header feeds, what is stored for the cell.
\<close>

lemma mapHeader_parsed:
  assumes "parseDateFromExcel convert (cellAt row i) = Some d"
  shows "mapHeader h convert row shipment (header, i) =
     Some (\<lambda>p. if feeds p (headerKey h header)
                then (if isDateProperty p then d
                      else if p = P_fcl \<or> p = P_invoiceValue then numberOrZero (cellAt row i)
                      else cellAt row i)
                else shipment p)"
proof -
  have "mapHeader h convert row shipment (header, i) = Some shipment' \<Longrightarrow>
        shipment' p = (if feeds p (headerKey h header)
                then (if isDateProperty p then d
                      else if p = P_fcl \<or> p = P_invoiceValue then numberOrZero (cellAt row i)
                      else cellAt row i)
                else shipment p)" for shipment' p
    by (cases p)
       (auto simp: mapHeader_def Let_def assignDate_parsed [OF assms] assign_apply feeds_def
          isDateProperty_def)
  moreover have "mapHeader h convert row shipment (header, i) \<noteq> None"
    by (simp add: mapHeader_def Let_def assignDate_parsed [OF assms])
  ultimately show ?thesis by fastforce
qed

lemma mapHeader_throwing:
  assumes "parseDateFromExcel convert (cellAt row i) = None"
  shows "mapHeader h convert row shipment (header, i) =
     (if feedsDate (headerKey h header) then None
      else Some (\<lambda>p. if feeds p (headerKey h header)
                      then (if p = P_fcl \<or> p = P_invoiceValue then numberOrZero (cellAt row i)
                            else cellAt row i)
                      else shipment p))"
proof (cases "feedsDate (headerKey h header)")
  case True
  then show ?thesis
    by (auto simp: mapHeader_def Let_def assignDate_throwing [OF assms] feedsDate_def feeds_def)
next
  case False
  then have d: "\<not> str_includes (headerKey h header) (str ''eta'')"
    "\<not> str_includes (headerKey h header) (str ''etd'')"
    "\<not> str_includes (headerKey h header) (str ''cargopresence'')"
    "\<not> str_includes (headerKey h header) (str ''diregistration'')"
    "\<not> str_includes (headerKey h header) (str ''greenchannel'')"
    "\<not> str_includes (headerKey h header) (str ''deliveryauthorized'')"
    "\<not> str_includes (headerKey h header) (str ''firsttruck'')"
    "\<not> str_includes (headerKey h header) (str ''lasttruck'')"
    "\<not> str_includes (headerKey h header) (str ''nfissue'')"
    by (simp_all add: feedsDate_def feeds_def)
  have "mapHeader h convert row shipment (header, i) = Some shipment' \<Longrightarrow>
        shipment' p = (if feeds p (headerKey h header)
                      then (if p = P_fcl \<or> p = P_invoiceValue then numberOrZero (cellAt row i)
                            else cellAt row i)
                      else shipment p)" for shipment' p
    by (cases p)
       (auto simp: mapHeader_def Let_def assignDate_throwing [OF assms] d assign_apply feeds_def)
  moreover have "mapHeader h convert row shipment (header, i) \<noteq> None"
    by (simp add: mapHeader_def Let_def assignDate_throwing [OF assms] d)
  ultimately show ?thesis using False by fastforce
qed

lemma mapHeader_None:
  "(mapHeader h convert row shipment (header, i) = None)
     = (feedsDate (headerKey h header) \<and> parseDateFromExcel convert (cellAt row i) = None)"
proof (cases "parseDateFromExcel convert (cellAt row i)")
  case None
  then show ?thesis by (simp add: mapHeader_throwing)
next
  case (Some d)
  then show ?thesis by (simp add: mapHeader_parsed)
qed

lemma feeds_date: "isDateProperty p \<Longrightarrow> feeds p key \<Longrightarrow> feedsDate key"
  by (auto simp: isDateProperty_def feedsDate_def)

lemma mapHeader_Some:
  assumes "mapHeader h convert row shipment (header, i) = Some shipment'"
  shows "feeds p (headerKey h header) \<Longrightarrow> stored convert p (cellAt row i) = Some (shipment' p)"
    and "\<not> feeds p (headerKey h header) \<Longrightarrow> shipment' p = shipment p"
proof -
  show "stored convert p (cellAt row i) = Some (shipment' p)" if f: "feeds p (headerKey h header)"
  proof (cases "parseDateFromExcel convert (cellAt row i)")
    case None
    then have "\<not> feedsDate (headerKey h header)"
      using assms by (auto simp: mapHeader_throwing split: if_splits)
    then have "\<not> isDateProperty p" using f feeds_date by blast
    then show ?thesis
      using assms None f by (auto simp: mapHeader_throwing stored_def split: if_splits)
  next
    case (Some d)
    then show ?thesis
      using assms f by (auto simp: mapHeader_parsed stored_def)
  qed
  show "shipment' p = shipment p" if "\<not> feeds p (headerKey h header)"
    using assms that
    by (cases "parseDateFromExcel convert (cellAt row i)")
       (auto simp: mapHeader_throwing mapHeader_parsed split: if_splits)
qed

lemma foldl_snoc_forEach:
  "forEach f st (xs @ [x]) = (case forEach f st xs of None \<Rightarrow> None | Some st' \<Rightarrow> f st' x)"
  by (simp add: forEach_append split: option.splits)

lemma forEach_mapHeader_Some:
  "forEach (mapHeader h convert row) shipment cols = Some r \<Longrightarrow>
     (case find (\<lambda>(header, i). feeds p (headerKey h header)) (rev cols) of
        None \<Rightarrow> r p = shipment p
      | Some (header, i) \<Rightarrow> stored convert p (cellAt row i) = Some (r p))"
proof (induction cols arbitrary: r rule: rev_induct)
  case Nil
  then show ?case by simp
next
  case (snoc x cols)
  obtain header i where x: "x = (header, i)" by (cases x)
  from snoc.prems obtain r0 where r0: "forEach (mapHeader h convert row) shipment cols = Some r0"
    and r: "mapHeader h convert row r0 (header, i) = Some r"
    by (auto simp: foldl_snoc_forEach x split: option.splits)
  show ?case
    using snoc.IH [OF r0] mapHeader_Some [OF r, of p]
    by (auto simp: x split: option.splits)
qed

lemma find_SomeD: "find P xs = Some x \<Longrightarrow> P x \<and> x \<in> set xs"
  by (induction xs) (auto split: if_splits)

lemma lastFeeding_id: "lastFeeding h headers P_id = None"
  by (simp add: lastFeeding_def feeds_def find_None_iff)

lemma lastFeeding_Some:
  assumes "lastFeeding h headers p = Some (header, i)"
  shows "(header, i) \<in> set (zip headers [0..<length headers])" "feeds p (headerKey h header)"
  using find_SomeD [OF assms [unfolded lastFeeding_def]] by auto

text \<open>The record of a row: when the mapping throws, and what its properties are.\<close>

lemma mapRow_None:
  "(mapRow h convert headers index row = None) = rowThrows h convert headers row"
  unfolding mapRow_def rowThrows_def
  by (rule forEach_None_iff [where Inv = "\<lambda>shipment. True"
        and bad = "\<lambda>(header, i). feedsDate (headerKey h header) \<and> parseDateFromExcel convert (cellAt row i) = None",
        THEN trans])
     (auto simp: mapHeader_None)

lemma mapRow_Some:
  assumes "mapRow h convert headers index row = Some r"
  shows "lastFeeding h headers p = None \<Longrightarrow>
           r p = (if p = P_id then CStr (str ''row-'' @ decimal index) else Undefined)"
    and "lastFeeding h headers p = Some (header, i) \<Longrightarrow> stored convert p (cellAt row i) = Some (r p)"
  using forEach_mapHeader_Some [OF assms [unfolded mapRow_def], of p]
  by (auto simp: lastFeeding_def)

lemma mapRow_reference:
  assumes "mapRow h convert headers index row = Some r"
  shows "r P_blAwb = referenceCell h headers row"
proof (cases "lastFeeding h headers P_blAwb")
  case None
  then show ?thesis using mapRow_Some(1) [OF assms None] by (simp add: referenceCell_def)
next
  case (Some x)
  obtain header i where x: "x = (header, i)" by (cases x)
  show ?thesis
    using mapRow_Some(2) [OF assms Some [unfolded x]] Some x
    by (simp add: referenceCell_def stored_def isDateProperty_def)
qed

lemma mapRow_id:
  assumes "mapRow h convert headers index row = Some r"
  shows "r P_id = CStr (str ''row-'' @ decimal index)"
  using mapRow_Some(1) [OF assms lastFeeding_id] by simp

text \<open>The output: nothing when a row throws, and otherwise the rows with a reference.\<close>

lemma those_None: "(those xs = None) = (None \<in> set xs)"
  by (induction xs) (auto split: option.splits)

lemma those_Some: "(those xs = Some ys) = (xs = map Some ys)"
  by (induction xs arbitrary: ys) (auto split: option.splits)

lemma rowThrows_in_zip:
  "(\<exists>(index, row) \<in> set (zip [0..<length rows] rows). rowThrows h convert headers row)
     = (\<exists>row \<in> set rows. rowThrows h convert headers row)"
proof -
  have "snd ` set (zip [0..<length rows] rows) = set rows"
    by (metis length_upt diff_zero map_snd_zip set_map)
  then show ?thesis by (force simp: image_iff)
qed

lemma those_map_None: "(those (map f xs) = None) = (\<exists>x \<in> set xs. f x = None)"
  by (induction xs) (auto split: option.splits)

lemma shipmentsToUpload_None:
  "(shipmentsToUpload h convert headers rows = None) = uploadThrows h convert headers rows"
proof -
  have "(shipmentsToUpload h convert headers rows = None)
          = (\<exists>z \<in> set (zip [0..<length rows] rows). mapRow h convert headers (fst z) (snd z) = None)"
    by (simp add: shipmentsToUpload_def those_map_None split_def)
  also have "\<dots> = (\<exists>(index, row) \<in> set (zip [0..<length rows] rows). rowThrows h convert headers row)"
    by (simp add: mapRow_None split_def)
  finally show ?thesis by (simp add: rowThrows_in_zip uploadThrows_def)
qed

lemma filter_mapped_rows:
  assumes "map (\<lambda>(index, row). mapRow h convert headers index row) zs = map Some ys"
  shows "map Some (filter (\<lambda>s. truthyCell (s P_blAwb)) ys)
           = map (\<lambda>(index, row). mapRow h convert headers index row)
               (filter (\<lambda>(index, row). truthyCell (referenceCell h headers row)) zs)"
  using assms
proof (induction zs arbitrary: ys)
  case Nil
  then show ?case by simp
next
  case (Cons z zs)
  obtain index row where z: "z = (index, row)" by (cases z)
  from Cons.prems obtain y ys' where ys: "ys = y # ys'"
    and y: "mapRow h convert headers index row = Some y"
    and rest: "map (\<lambda>(index, row). mapRow h convert headers index row) zs = map Some ys'"
    by (cases ys) (auto simp: z)
  show ?case
    using Cons.IH [OF rest] mapRow_reference [OF y] y
    by (simp add: ys z)
qed

lemma shipmentsToUpload_Some:
  assumes "shipmentsToUpload h convert headers rows = Some out"
  shows "map Some out =
     map (\<lambda>(index, row). mapRow h convert headers index row)
       (filter (\<lambda>(index, row). truthyCell (referenceCell h headers row)) (zip [0..<length rows] rows))"
proof -
  from assms obtain ys where ys: "those (map (\<lambda>(index, row). mapRow h convert headers index row)
                                          (zip [0..<length rows] rows)) = Some ys"
    and out: "out = filter (\<lambda>s. truthyCell (s P_blAwb)) ys"
    by (auto simp: shipmentsToUpload_def)
  show ?thesis
    unfolding out by (rule filter_mapped_rows) (use ys in \<open>simp add: those_Some\<close>)
qed

lemma shipmentsToUpload_rows:
  "map_option (map Some) (shipmentsToUpload h convert headers rows)
     = (if uploadThrows h convert headers rows then None
        else Some (map (\<lambda>(index, row). mapRow h convert headers index row)
                     (filter (\<lambda>(index, row). truthyCell (referenceCell h headers row))
                        (zip [0..<length rows] rows))))"
proof (cases "shipmentsToUpload h convert headers rows")
  case None
  then show ?thesis using shipmentsToUpload_None [of h convert headers rows] by simp
next
  case (Some out)
  then have "\<not> uploadThrows h convert headers rows"
    using shipmentsToUpload_None [of h convert headers rows] by simp
  then show ?thesis using Some shipmentsToUpload_Some [OF Some] by simp
qed

lemma shipmentsToUpload_single:
  "shipmentsToUpload h convert headers [row] =
     (case mapRow h convert headers 0 row of
        None \<Rightarrow> None
      | Some r \<Rightarrow> Some (if truthyCell (referenceCell h headers row) then [r] else []))"
  by (auto simp: shipmentsToUpload_def split: option.splits dest: mapRow_reference)

text \<open>A row whose cells for all properties but the reference are blank.\<close>

lemma parseDateFromExcel_blank: "blank v \<Longrightarrow> parseDateFromExcel convert v = Some (CStr [])"
  by (auto simp: parseDateFromExcel_def blank_def)

lemma stored_blank:
  assumes "blank v"
  shows "stored convert p v = Some (if isDateProperty p then CStr []
                                     else if p = P_fcl \<or> p = P_invoiceValue then CNum 0 else v)"
  using assms by (auto simp: stored_def blank_def parseDateFromExcel_def numberOrZero_def)

lemma date_feeds_other: "feedsDate key \<Longrightarrow> \<exists>q. q \<noteq> P_blAwb \<and> feeds q key"
  unfolding feedsDate_def by (elim disjE) (rule exI, rule conjI, rule property.distinct, assumption)+

lemma blank_row_no_throw:
  assumes "\<forall>(header, i) \<in> set (zip headers [0..<length headers]).
             (\<exists>q. q \<noteq> P_blAwb \<and> feeds q (headerKey h header)) \<longrightarrow> blank (cellAt row i)"
  shows "\<not> rowThrows h convert headers row"
  using assms date_feeds_other
  by (fastforce simp: rowThrows_def parseDateFromExcel_blank)

lemma mapRow_blank_others:
  assumes others: "\<forall>(header, i) \<in> set (zip headers [0..<length headers]).
             (\<exists>q. q \<noteq> P_blAwb \<and> feeds q (headerKey h header)) \<longrightarrow> blank (cellAt row i)"
    and r: "mapRow h convert headers index row = Some r"
    and p: "p \<noteq> P_id" "p \<noteq> P_blAwb"
  shows "lastFeeding h headers p \<noteq> None \<Longrightarrow> isDateProperty p \<Longrightarrow> r p = CStr []"
    and "lastFeeding h headers p \<noteq> None \<Longrightarrow> p = P_fcl \<or> p = P_invoiceValue \<Longrightarrow> r p = CNum 0"
    and "\<not> truthyCell (r p)"
    and "\<not> isDateProperty p \<Longrightarrow> p \<noteq> P_fcl \<Longrightarrow> p \<noteq> P_invoiceValue \<Longrightarrow> blank (r p)"
proof -
  have b: "blank (cellAt row i) \<and>
           r p = (if isDateProperty p then CStr []
                  else if p = P_fcl \<or> p = P_invoiceValue then CNum 0 else cellAt row i)"
    if l: "lastFeeding h headers p = Some (header, i)" for header i
  proof -
    have bl: "blank (cellAt row i)"
      using lastFeeding_Some [OF l] others p(2) by blast
    have "stored convert p (cellAt row i) = Some (r p)"
      by (rule mapRow_Some(2) [OF r l])
    then have "(if isDateProperty p then CStr []
                else if p = P_fcl \<or> p = P_invoiceValue then CNum 0 else cellAt row i) = r p"
      by (simp only: stored_blank [OF bl] option.inject)
    then show ?thesis using bl by simp
  qed
  have n: "r p = Undefined" if "lastFeeding h headers p = None"
    using mapRow_Some(1) [OF r that] p(1) by simp
  show "r p = CStr []" if "lastFeeding h headers p \<noteq> None" "isDateProperty p"
    using that b by auto
  show "r p = CNum 0" if "lastFeeding h headers p \<noteq> None" "p = P_fcl \<or> p = P_invoiceValue"
    using that b by (auto simp: isDateProperty_def)
  show "\<not> truthyCell (r p)"
  proof (cases "lastFeeding h headers p")
    case None
    then show ?thesis using n by simp
  next
    case (Some x)
    obtain header i where x: "x = (header, i)" by (cases x)
    show ?thesis
      using b [OF Some [unfolded x]] by (auto simp: blank_def split: if_splits)
  qed
  show "blank (r p)" if "\<not> isDateProperty p" "p \<noteq> P_fcl" "p \<noteq> P_invoiceValue"
  proof (cases "lastFeeding h headers p")
    case None
    then show ?thesis using n by (simp add: blank_def)
  next
    case (Some x)
    obtain header i where x: "x = (header, i)" by (cases x)
    show ?thesis
      using b [OF Some [unfolded x]] that by auto
  qed
qed

text \<open>Evaluation of the mapper on the example sheet.\<close>

lemma sample_keys:
  "headerKey sampleHost (str ''BL/AWB'') = str ''bl/awb''"
  "headerKey sampleHost (str ''FCL'') = str ''fcl''"
  "headerKey sampleHost (str ''ETA'') = str ''eta''"
  by (simp_all add: headerKey_def str_def latin1Lower_def isWhitespace_def)

lemma sample_feeds:
  "feeds p (str ''bl/awb'') = (p = P_blAwb)"
  "feeds p (str ''fcl'') = (p = P_fcl)"
  "feeds p (str ''eta'') = (p = P_actualEta)"
  by (cases p; simp add: feeds_def str_def)+

lemma sample_feedsDate:
  "\<not> feedsDate (str ''bl/awb'')" "\<not> feedsDate (str ''fcl'')" "feedsDate (str ''eta'')"
  by (simp_all add: feedsDate_def sample_feeds)

lemma sample_lastFeeding:
  "lastFeeding sampleHost sampleHeaders p =
     (if p = P_actualEta then Some (str ''ETA'', 2)
      else if p = P_fcl then Some (str ''FCL'', 1)
      else if p = P_blAwb then Some (str ''BL/AWB'', 0) else None)"
  by (simp add: lastFeeding_def sampleHeaders_def sample_keys sample_feeds upt_rec)

lemma sample_throws:
  "\<not> rowThrows sampleHost sampleConvert sampleHeaders [CStr (str ''X1'')]"
  "\<not> rowThrows sampleHost sampleConvert sampleHeaders [Undefined, CNum 3]"
  "rowThrows sampleHost sampleConvert sampleHeaders [CStr (str ''X3''), CNum 1, CNum 1000000000]"
  by (simp_all add: rowThrows_def sampleHeaders_def upt_rec sample_keys sample_feedsDate cellAt_def
      parseDateFromExcel_def sampleConvert_def)

lemma sample_reference:
  "referenceCell sampleHost sampleHeaders [CStr (str ''X1'')] = CStr (str ''X1'')"
  "referenceCell sampleHost sampleHeaders [Undefined, CNum 3] = Undefined"
  by (simp_all add: referenceCell_def sample_lastFeeding cellAt_def)

lemma row_0: "str ''row-'' @ decimal 0 = str ''row-0''"
  by (simp add: decimal.simps str_def)

lemma sample_row:
  "mapRow sampleHost sampleConvert sampleHeaders 0 [CStr (str ''X1'')] = Some sampleRecord"
proof -
  obtain r where r: "mapRow sampleHost sampleConvert sampleHeaders 0 [CStr (str ''X1'')] = Some r"
    using mapRow_None [of sampleHost sampleConvert sampleHeaders 0 "[CStr (str ''X1'')]"] sample_throws(1)
    by auto
  have "r p = sampleRecord p" for p
  proof (cases "lastFeeding sampleHost sampleHeaders p")
    case None
    then show ?thesis
      using mapRow_Some(1) [OF r None]
      by (auto simp: sample_lastFeeding sampleRecord_def row_0 split: if_splits)
  next
    case (Some x)
    obtain header i where x: "x = (header, i)" by (cases x)
    show ?thesis
      using mapRow_Some(2) [OF r Some [unfolded x]] Some x
      by (auto simp: sample_lastFeeding sampleRecord_def stored_def isDateProperty_def cellAt_def
          parseDateFromExcel_def numberOrZero_def split: if_splits)
  qed
  then have "r = sampleRecord" by (rule ext)
  then show ?thesis using r by simp
qed

lemma sample_others_blank:
  "\<forall>(header, i) \<in> set (zip sampleHeaders [0..<length sampleHeaders]).
     (\<exists>q. q \<noteq> P_blAwb \<and> feeds q (headerKey sampleHost header)) \<longrightarrow> blank (cellAt [CStr (str ''X1'')] i)"
  by (simp add: sampleHeaders_def upt_rec sample_keys sample_feeds blank_def cellAt_def)

lemma sampleRecord_simps:
  "sampleRecord P_blAwb = CStr (str ''X1'')" "sampleRecord P_id = CStr (str ''row-0'')"
  "sampleRecord P_fcl = CNum 0" "sampleRecord P_actualEta = CStr []"
  "sampleRecord P_status = Undefined"
  by (simp_all add: sampleRecord_def)

text \<open>
  The claim as it is stated fails where it says that only the reference field is set:
  with the headers BL/AWB, FCL and ETA and a row that fills the first cell only, the
  record has \<open>id\<close>, \<open>fcl = 0\<close> and \<open>actualEta = ''\<close> as well.
\<close>

theorem import_mapper_counterexample:
  "map_option (map (\<lambda>s. (s P_blAwb, s P_id, s P_fcl, s P_actualEta)))
     (shipmentsToUpload sampleHost sampleConvert sampleHeaders [ [CStr (str ''X1'')]])
     = Some [(CStr (str ''X1''), CStr (str ''row-0''), CNum 0, CStr [])]
   \<and> CStr (str ''row-0'') \<noteq> Undefined \<and> CNum 0 \<noteq> Undefined \<and> CStr [] \<noteq> Undefined"
  by (simp add: shipmentsToUpload_single sample_reference sample_row sampleRecord_simps)

text \<open>
  Claim C7, as amended. When the conversion of a date cell throws in some row, the
  whole upload is given up and the output has no record. When it does not, the mapper
  keeps a row exactly when its mapped reference field \<open>blAwb\<close>, the cell under the last
  header whose key contains \<open>bl\<close>, is truthy, and it drops the row when that field is
  empty (undefined, the empty string, or another falsy value); there is no other gate.
  In the record of a row \<open>blAwb\<close> is the reference cell, \<open>id\<close> is \<open>row-\<close> and the index,
  and a property that no header feeds is left undefined. A row whose reference field
  is populated and whose cells for all other properties are blank does not throw and
  yields one record: of its other properties a date property with a header is the empty
  string, \<open>fcl\<close> and \<open>invoiceValue\<close> with a header are 0, and every other one is blank.
  A row with an empty reference field is dropped whatever its other cells are, unless
  one of them makes the upload throw.
\<close>

theorem import_mapper_gate:
  "map_option (map Some) (shipmentsToUpload h convert headers rows)
     = (if uploadThrows h convert headers rows then None
        else Some (map (\<lambda>(index, row). mapRow h convert headers index row)
                     (filter (\<lambda>(index, row). truthyCell (referenceCell h headers row))
                        (zip [0..<length rows] rows))))
   \<and> (mapRow h convert headers index row = None) = rowThrows h convert headers row
   \<and> (mapRow h convert headers index row = Some r \<longrightarrow>
        r P_blAwb = referenceCell h headers row
        \<and> r P_id = CStr (str ''row-'' @ decimal index)
        \<and> (p \<noteq> P_id \<and> lastFeeding h headers p = None \<longrightarrow> r p = Undefined))
   \<and> (truthyCell (referenceCell h headers row1)
        \<and> (\<forall>(header, i) \<in> set (zip headers [0..<length headers]).
              (\<exists>q. q \<noteq> P_blAwb \<and> feeds q (headerKey h header)) \<longrightarrow> blank (cellAt row1 i)) \<longrightarrow>
        (\<exists>r1. mapRow h convert headers 0 row1 = Some r1
           \<and> shipmentsToUpload h convert headers [row1] = Some [r1]
           \<and> (\<forall>q. q \<noteq> P_id \<and> q \<noteq> P_blAwb \<longrightarrow>
                 \<not> truthyCell (r1 q)
                 \<and> (lastFeeding h headers q \<noteq> None \<and> isDateProperty q \<longrightarrow> r1 q = CStr [])
                 \<and> (lastFeeding h headers q \<noteq> None \<and> (q = P_fcl \<or> q = P_invoiceValue) \<longrightarrow> r1 q = CNum 0)
                 \<and> (\<not> isDateProperty q \<and> q \<noteq> P_fcl \<and> q \<noteq> P_invoiceValue \<longrightarrow> blank (r1 q)))))
   \<and> (\<not> truthyCell (referenceCell h headers row2) \<longrightarrow>
        shipmentsToUpload h convert headers [row2]
          = (if rowThrows h convert headers row2 then None else Some []))"
proof (intro conjI impI)
  show "map_option (map Some) (shipmentsToUpload h convert headers rows)
     = (if uploadThrows h convert headers rows then None
        else Some (map (\<lambda>(index, row). mapRow h convert headers index row)
                     (filter (\<lambda>(index, row). truthyCell (referenceCell h headers row))
                        (zip [0..<length rows] rows))))"
    by (rule shipmentsToUpload_rows)
  show "(mapRow h convert headers index row = None) = rowThrows h convert headers row"
    by (rule mapRow_None)
next
  assume r: "mapRow h convert headers index row = Some r"
  show "r P_blAwb = referenceCell h headers row" by (rule mapRow_reference [OF r])
  show "r P_id = CStr (str ''row-'' @ decimal index)" by (rule mapRow_id [OF r])
  assume "p \<noteq> P_id \<and> lastFeeding h headers p = None"
  then show "r p = Undefined" using mapRow_Some(1) [OF r, of p] by simp
next
  assume "\<not> truthyCell (referenceCell h headers row2)"
  then show "shipmentsToUpload h convert headers [row2]
          = (if rowThrows h convert headers row2 then None else Some [])"
    using mapRow_None [of h convert headers 0 row2]
    by (auto simp: shipmentsToUpload_single split: option.splits)
next
  assume a: "truthyCell (referenceCell h headers row1)
        \<and> (\<forall>(header, i) \<in> set (zip headers [0..<length headers]).
              (\<exists>q. q \<noteq> P_blAwb \<and> feeds q (headerKey h header)) \<longrightarrow> blank (cellAt row1 i))"
  then have t: "truthyCell (referenceCell h headers row1)"
    and others: "\<forall>(header, i) \<in> set (zip headers [0..<length headers]).
              (\<exists>q. q \<noteq> P_blAwb \<and> feeds q (headerKey h header)) \<longrightarrow> blank (cellAt row1 i)"
    by simp_all
  obtain r1 where r1: "mapRow h convert headers 0 row1 = Some r1"
    using blank_row_no_throw [OF others, of convert] mapRow_None [of h convert headers 0 row1]
    by auto
  have out: "shipmentsToUpload h convert headers [row1] = Some [r1]"
    using t by (simp add: shipmentsToUpload_single r1)
  have props: "\<not> truthyCell (r1 q)
                 \<and> (lastFeeding h headers q \<noteq> None \<and> isDateProperty q \<longrightarrow> r1 q = CStr [])
                 \<and> (lastFeeding h headers q \<noteq> None \<and> (q = P_fcl \<or> q = P_invoiceValue) \<longrightarrow> r1 q = CNum 0)
                 \<and> (\<not> isDateProperty q \<and> q \<noteq> P_fcl \<and> q \<noteq> P_invoiceValue \<longrightarrow> blank (r1 q))"
    if q: "q \<noteq> P_id \<and> q \<noteq> P_blAwb" for q
  proof -
    from q have q1: "q \<noteq> P_id" and q2: "q \<noteq> P_blAwb" by simp_all
    note m = mapRow_blank_others [OF others r1 q1 q2]
    show ?thesis using m by blast
  qed
  show "\<exists>r1. mapRow h convert headers 0 row1 = Some r1
           \<and> shipmentsToUpload h convert headers [row1] = Some [r1]
           \<and> (\<forall>q. q \<noteq> P_id \<and> q \<noteq> P_blAwb \<longrightarrow>
                 \<not> truthyCell (r1 q)
                 \<and> (lastFeeding h headers q \<noteq> None \<and> isDateProperty q \<longrightarrow> r1 q = CStr [])
                 \<and> (lastFeeding h headers q \<noteq> None \<and> (q = P_fcl \<or> q = P_invoiceValue) \<longrightarrow> r1 q = CNum 0)
                 \<and> (\<not> isDateProperty q \<and> q \<noteq> P_fcl \<and> q \<noteq> P_invoiceValue \<longrightarrow> blank (r1 q)))"
    using r1 out props by blast
qed

text \<open>
  The instance: the sheet with the headers BL/AWB, FCL and ETA. A row that fills the
  first cell only is kept, a row without a reference is dropped, and a row whose ETA
  cell is a serial number beyond the range of \<open>Date\<close> gives up the upload.
\<close>

theorem import_mapper_gate_witness:
  "map_option (map Some)
     (shipmentsToUpload sampleHost sampleConvert sampleHeaders [ [CStr (str ''X1'')], [Undefined, CNum 3]])
     = Some [Some sampleRecord]
   \<and> shipmentsToUpload sampleHost sampleConvert sampleHeaders
       [ [CStr (str ''X1'')], [CStr (str ''X3''), CNum 1, CNum 1000000000]] = None
   \<and> sampleRecord P_blAwb = CStr (str ''X1'')
   \<and> sampleRecord P_id = CStr (str ''row-0'')
   \<and> sampleRecord P_status = Undefined
   \<and> sampleRecord P_actualEta = CStr []
   \<and> sampleRecord P_fcl = CNum 0
   \<and> shipmentsToUpload sampleHost sampleConvert sampleHeaders [ [CStr (str ''X1'')]] = Some [sampleRecord]
   \<and> shipmentsToUpload sampleHost sampleConvert sampleHeaders [ [Undefined, CNum 3]] = Some []"
proof -
  have s: "lastFeeding sampleHost sampleHeaders P_status = None"
    "lastFeeding sampleHost sampleHeaders P_actualEta \<noteq> None"
    "lastFeeding sampleHost sampleHeaders P_fcl \<noteq> None"
    by (simp_all add: sample_lastFeeding)
  have d: "isDateProperty P_actualEta"
    by (simp add: isDateProperty_def)
  have u: "\<not> uploadThrows sampleHost sampleConvert sampleHeaders [ [CStr (str ''X1'')], [Undefined, CNum 3]]"
    "uploadThrows sampleHost sampleConvert sampleHeaders
       [ [CStr (str ''X1'')], [CStr (str ''X3''), CNum 1, CNum 1000000000]]"
    by (simp_all add: uploadThrows_def sample_throws)
  have z: "zip [0..<length [ [CStr (str ''X1'')], [Undefined, CNum 3]]] [ [CStr (str ''X1'')], [Undefined, CNum 3]]
             = [(0, [CStr (str ''X1'')]), (1, [Undefined, CNum 3])]"
    by (simp add: upt_rec)
  note t1 = import_mapper_gate
      [where h = sampleHost and convert = sampleConvert and headers = sampleHeaders
         and rows = "[ [CStr (str ''X1'')], [Undefined, CNum 3]]"
         and index = 0 and row = "[CStr (str ''X1'')]" and r = sampleRecord and p = P_status
         and ?row1.0 = "[CStr (str ''X1'')]" and ?row2.0 = "[Undefined, CNum 3]"]
  note t2 = import_mapper_gate
      [where h = sampleHost and convert = sampleConvert and headers = sampleHeaders
         and rows = "[ [CStr (str ''X1'')], [CStr (str ''X3''), CNum 1, CNum 1000000000]]"
         and index = 0 and row = "[CStr (str ''X1'')]" and r = sampleRecord and p = P_status
         and ?row1.0 = "[CStr (str ''X1'')]" and ?row2.0 = "[Undefined, CNum 3]"]
  have first: "map_option (map Some)
     (shipmentsToUpload sampleHost sampleConvert sampleHeaders [ [CStr (str ''X1'')], [Undefined, CNum 3]])
     = Some [Some sampleRecord]"
    using t1 u(1) by (simp only: z) (simp add: sample_reference sample_row)
  have second: "shipmentsToUpload sampleHost sampleConvert sampleHeaders
       [ [CStr (str ''X1'')], [CStr (str ''X3''), CNum 1, CNum 1000000000]] = None"
    using t2 u(2) by simp
  have third: "sampleRecord P_blAwb = CStr (str ''X1'') \<and> sampleRecord P_id = CStr (str ''row-0'')
      \<and> sampleRecord P_status = Undefined"
    using t1 sample_row s(1) by (simp add: sample_reference row_0)
  have fourth: "sampleRecord P_actualEta = CStr [] \<and> sampleRecord P_fcl = CNum 0
      \<and> shipmentsToUpload sampleHost sampleConvert sampleHeaders [ [CStr (str ''X1'')]] = Some [sampleRecord]"
    using t1 sample_others_blank s d by (auto simp: sample_reference sample_row)
  have fifth: "shipmentsToUpload sampleHost sampleConvert sampleHeaders [ [Undefined, CNum 3]] = Some []"
    using t1 sample_throws(2) by (simp add: sample_reference)
  show ?thesis using first second third fourth fifth by simp
qed

end
